(* ===== verification/Prelude.thy ===== *)
theory Prelude
  imports Main
begin

text \<open>
  Shared vocabulary of the development: the JavaScript values the dashboard client
  handles (JSON payloads of the backend, strings kept in \<open>localStorage\<close>), the
  coercions the code relies on implicitly (truthiness of \<open>||\<close> and \<open>if (x)\<close>,
  \<open>String(v)\<close> when a value is written to \<open>localStorage\<close>, property access that
  throws on \<open>null\<close>), and the named theorem collections that the component theories
  fill with their operation definitions.
\<close>

named_theorems handler_defs "definitions of the event handlers and async callbacks"
named_theorems settle_simps "equations of the transport settlement functions"
named_theorems frame_rules "handlers that leave the session and the timer table alone"
named_theorems feeds_rules "handlers that keep the simulated feeds well formed"

section \<open>JSON values\<close>

text \<open>
  A backend payload as the client sees it after parsing. Numbers are written as the
  decimal literal they come from: \<open>JNum m e\<close> is \<open>m \<cdot> 10\<^sup>-\<^sup>e\<close>, so that the
  constants of the code (\<open>2.3\<close>, \<open>-0.8\<close>) are represented exactly. An object keeps
  its members in source order.
\<close>

datatype json =
    JNull
  | JBool bool
  | JNum int nat
  | JStr string
  | JArr "json list"
  | JObj "(string \<times> json) list"

abbreviation jint :: "int \<Rightarrow> json" where
  "jint i \<equiv> JNum i 0"

abbreviation empty_array :: json where
  "empty_array \<equiv> JArr []"

type_synonym storage = "string \<rightharpoonup> string"

section \<open>Decimal printing\<close>

fun show_nat :: "nat \<Rightarrow> string" where
  "show_nat n = (if n < 10 then [char_of (48 + n)] else show_nat (n div 10) @ [char_of (48 + n mod 10)])"

declare show_nat.simps [simp del]

definition show_int :: "int \<Rightarrow> string" where
  "show_int i = (if i < 0 then CHR ''-'' # show_nat (nat (- i)) else show_nat (nat i))"

fun strip_zeros :: "nat \<Rightarrow> nat \<Rightarrow> nat \<times> nat" where
  "strip_zeros m 0 = (m, 0)"
| "strip_zeros m (Suc e) = (if m mod 10 = 0 then strip_zeros (m div 10) e else (m, Suc e))"

definition pad_left :: "nat \<Rightarrow> string \<Rightarrow> string" where
  "pad_left n s = replicate (n - length s) (CHR ''0'') @ s"

text \<open>\<open>Number.prototype.toString\<close> on a decimal literal, for the magnitudes the
  client meets (no exponent notation): trailing fractional zeros are dropped and
  \<open>-0\<close> prints as \<open>0\<close>.\<close>

definition show_decimal :: "int \<Rightarrow> nat \<Rightarrow> string" where
  "show_decimal m e =
     (let (a, k) = strip_zeros (nat \<bar>m\<bar>) e;
          sign = (if m < 0 \<and> a \<noteq> 0 then ''-'' else '''')
      in if k = 0 then sign @ show_nat a
         else sign @ show_nat (a div 10 ^ k) @ ''.'' @ pad_left k (show_nat (a mod 10 ^ k)))"

section \<open>JavaScript coercions\<close>

text \<open>\<open>String(v)\<close>; \<open>Array.prototype.join\<close> prints \<open>null\<close> elements as the empty
  string.\<close>

fun js_to_string :: "json \<Rightarrow> string"
and js_join :: "json list \<Rightarrow> string" where
  "js_to_string JNull = ''null''"
| "js_to_string (JBool b) = (if b then ''true'' else ''false'')"
| "js_to_string (JNum m e) = show_decimal m e"
| "js_to_string (JStr s) = s"
| "js_to_string (JArr xs) = js_join xs"
| "js_to_string (JObj _) = ''[object Object]''"
| "js_join [] = ''''"
| "js_join [x] = (if x = JNull then '''' else js_to_string x)"
| "js_join (x # y # ys) = (if x = JNull then '''' else js_to_string x) @ '','' @ js_join (y # ys)"

text \<open>A value that may be \<open>undefined\<close> (\<open>None\<close>), as \<open>localStorage.setItem\<close>
  stores it.\<close>

definition js_string_of :: "json option \<Rightarrow> string" where
  "js_string_of v = (case v of None \<Rightarrow> ''undefined'' | Some j \<Rightarrow> js_to_string j)"

text \<open>Truthiness of a string-or-absent value, as \<open>if (token)\<close> and \<open>a || b\<close> see
  it: \<open>null\<close>, \<open>undefined\<close> and the empty string are falsy.\<close>

definition truthy_str :: "string option \<Rightarrow> bool" where
  "truthy_str v = (case v of None \<Rightarrow> False | Some s \<Rightarrow> s \<noteq> [])"

text \<open>\<open>a || b\<close> on string-or-absent operands.\<close>

definition js_or :: "string option \<Rightarrow> string \<Rightarrow> string" where
  "js_or a b = (if truthy_str a then the a else b)"

text \<open>Property access \<open>v.k\<close> on a parsed payload: it throws a \<open>TypeError\<close> on
  \<open>null\<close> (\<open>Inl ()\<close>), and is \<open>undefined\<close> (\<open>Inr None\<close>) where the member is
  missing. \<open>JSON.parse\<close> keeps the last of duplicate members.\<close>

fun get_prop :: "json \<Rightarrow> string \<Rightarrow> unit + json option" where
  "get_prop JNull k = Inl ()"
| "get_prop (JObj kvs) k = Inr (map_of (rev kvs) k)"
| "get_prop _ k = Inr None"

section \<open>Shared lemmas\<close>

lemma show_nat_nonempty [simp]: "show_nat n \<noteq> []"
  by (subst show_nat.simps) simp

lemma truthy_str_Some [simp]: "truthy_str (Some s) \<longleftrightarrow> s \<noteq> []"
  by (simp add: truthy_str_def)

lemma truthy_str_None [simp]: "\<not> truthy_str None"
  by (simp add: truthy_str_def)

lemma js_or_truthy [simp]: "s \<noteq> [] \<Longrightarrow> js_or (Some s) b = s"
  by (simp add: js_or_def)

lemma js_or_falsy [simp]: "\<not> truthy_str a \<Longrightarrow> js_or a b = b"
  by (simp add: js_or_def)

lemma js_or_nonempty: "b \<noteq> [] \<Longrightarrow> js_or a b \<noteq> []"
  by (cases a) (auto simp: js_or_def)

lemma js_string_of_Some_str [simp]: "js_string_of (Some (JStr s)) = s"
  by (simp add: js_string_of_def)

lemma js_string_of_None [simp]: "js_string_of None = ''undefined''"
  by (simp add: js_string_of_def)

lemma get_prop_obj [simp]: "get_prop (JObj kvs) k = Inr (map_of (rev kvs) k)"
  by simp

section \<open>Printing zero\<close>

lemma strip_zeros_zero [simp]: "strip_zeros 0 e = (0, 0)"
  by (induction e) simp_all

lemma char_of_zero_digit: "char_of (48::nat) = CHR ''0''"
  by code_simp

lemma show_decimal_zero [simp]: "show_decimal 0 e = ''0''"
  by (simp add: show_decimal_def show_nat.simps char_of_zero_digit)

section \<open>Lists\<close>

lemma upt_append: "i \<le> j \<Longrightarrow> j \<le> k \<Longrightarrow> [i..<j] @ [j..<k] = [i..<(k::nat)]"
  by (metis le_add_diff_inverse upt_add_eq_append)

lemma find_SomeD: "find P xs = Some x \<Longrightarrow> P x \<and> x \<in> set xs"
  by (induction xs) (auto split: if_splits)

end
