(* ===== verification/Http.thy ===== *)
theory Http
  imports Prelude
begin

text \<open>
  The two transports of the client (App.js): \<open>axios\<close> (primary) and the browser's
  \<open>fetch\<close> (fallback). The network itself is the environment: for every request the
  client sent it eventually delivers a \<open>net\<close> value, a response with status and body
  or a transport failure. What the code then sees is fixed by the transport's rules,
  modelled here: axios resolves or rejects according to its \<open>validateStatus\<close>
  (the default 2xx, or \<open>status < 500\<close> where App.js passes it) and parses the body
  as JSON when it can; \<open>fetch\<close> resolves for every status and rejects only on
  transport failure, \<open>response.ok\<close> is 2xx, and \<open>response.json()\<close> rejects
  on a body that is not JSON.
\<close>

datatype body = BJson json | BText string

datatype net = Resp nat body | NetError

datatype validator = Status2xx | StatusBelow500

fun validate :: "validator \<Rightarrow> nat \<Rightarrow> bool" where
  "validate Status2xx s = (200 \<le> s \<and> s < 300)"
| "validate StatusBelow500 s = (s < 500)"

text \<open>An axios promise settles as a response (\<open>status\<close>, \<open>data\<close>) or as an error
  whose \<open>error.response?.status\<close> is the status of a rejected response, \<open>None\<close>
  for a transport failure.\<close>

datatype axios_result = AxOk nat json | AxErr "nat option"

fun axios_data :: "body \<Rightarrow> json" where
  "axios_data (BJson j) = j"
| "axios_data (BText s) = JStr s"

fun axios_settle :: "validator \<Rightarrow> net \<Rightarrow> axios_result" where
  "axios_settle v (Resp s b) = (if validate v s then AxOk s (axios_data b) else AxErr (Some s))"
| "axios_settle v NetError = AxErr None"

datatype fetch_result = FetchResp nat body | FetchErr

fun fetch_settle :: "net \<Rightarrow> fetch_result" where
  "fetch_settle (Resp s b) = FetchResp s b"
| "fetch_settle NetError = FetchErr"

definition resp_ok :: "nat \<Rightarrow> bool" where
  "resp_ok s = (200 \<le> s \<and> s < 300)"

fun resp_json :: "body \<Rightarrow> json option" where
  "resp_json (BJson j) = Some j"
| "resp_json (BText s) = None"

section \<open>Requests\<close>

datatype http_method = GET | POST

datatype transport = ViaAxios validator | ViaFetch

text \<open>A request as the code issues it: method, URL, axios \<open>params\<close> (appended to the
  query string by axios), headers, JSON body and the transport that sends it.\<close>

record request =
  rq_method :: http_method
  rq_url :: string
  rq_params :: "(string \<times> string) list"
  rq_headers :: "(string \<times> string) list"
  rq_body :: "json option"
  rq_via :: transport

datatype outcome = AxiosOutcome axios_result | FetchOutcome fetch_result

fun settle :: "transport \<Rightarrow> net \<Rightarrow> outcome" where
  "settle (ViaAxios v) n = AxiosOutcome (axios_settle v n)"
| "settle ViaFetch n = FetchOutcome (fetch_settle n)"

definition axios_get :: "validator \<Rightarrow> string \<Rightarrow> (string \<times> string) list \<Rightarrow> (string \<times> string) list \<Rightarrow> request" where
  "axios_get v u ps hs = \<lparr>rq_method = GET, rq_url = u, rq_params = ps, rq_headers = hs, rq_body = None, rq_via = ViaAxios v\<rparr>"

definition axios_post :: "string \<Rightarrow> json \<Rightarrow> (string \<times> string) list \<Rightarrow> request" where
  "axios_post u b hs = \<lparr>rq_method = POST, rq_url = u, rq_params = [], rq_headers = hs, rq_body = Some b, rq_via = ViaAxios Status2xx\<rparr>"

definition fetch_get :: "string \<Rightarrow> request" where
  "fetch_get u = \<lparr>rq_method = GET, rq_url = u, rq_params = [], rq_headers = [], rq_body = None, rq_via = ViaFetch\<rparr>"

text \<open>The header of every authenticated call: \<open>Authorization: Bearer ${token}\<close>
  with \<open>token = localStorage.getItem("token")\<close>; a missing token is \<open>null\<close> and
  prints as such in the template literal.\<close>

definition bearer :: "string option \<Rightarrow> string \<times> string" where
  "bearer tok = (''Authorization'', ''Bearer '' @ (case tok of None \<Rightarrow> ''null'' | Some t \<Rightarrow> t))"

text \<open>The contract of the resilient fetch client (spec section 4.2): the primary
  transport's data if it produced any, otherwise the single fallback's, otherwise the
  caller's empty default.\<close>

definition resilient :: "'a option \<Rightarrow> 'a option \<Rightarrow> 'a \<Rightarrow> 'a" where
  "resilient p f d = (case p of Some x \<Rightarrow> x | None \<Rightarrow> (case f of Some y \<Rightarrow> y | None \<Rightarrow> d))"

section \<open>The URL axios requests\<close>

text \<open>axios appends \<open>params\<close> to the URL (its \<open>buildURL\<close>): each key and value
  through \<open>encodeURIComponent\<close> (on the UTF-8 bytes), with \<open>%3A\<close>, \<open>%24\<close>,
  \<open>%2C\<close>, \<open>%20\<close>, \<open>%5B\<close>, \<open>%5D\<close> turned back into \<open>: $ , + [ ]\<close>; the
  pairs joined by \<open>&\<close>; the URL cut at a \<open>#\<close> and extended with \<open>?\<close> or, if it
  has a query already, \<open>&\<close>.\<close>

definition hex_digit :: "nat \<Rightarrow> char" where
  "hex_digit d = (if d < 10 then char_of (48 + d) else char_of (55 + d))"

definition uri_unreserved :: "char \<Rightarrow> bool" where
  "uri_unreserved c =
     (let n = (of_char c :: nat)
      in (65 \<le> n \<and> n \<le> 90) \<or> (97 \<le> n \<and> n \<le> 122) \<or> (48 \<le> n \<and> n \<le> 57) \<or> c \<in> set ''-_.!~*'()'')"

definition encodeURIComponent :: "string \<Rightarrow> string" where
  "encodeURIComponent s =
     concat (map (\<lambda>c. if uri_unreserved c then [c]
                      else [CHR ''%'', hex_digit (of_char c div 16), hex_digit (of_char c mod 16)]) s)"

fun axios_unescape :: "string \<Rightarrow> string" where
  "axios_unescape [] = []"
| "axios_unescape (c # d # e # cs) =
     (if c = CHR ''%'' then
        (if [d, e] = ''3A'' then CHR '':'' # axios_unescape cs
         else if [d, e] = ''24'' then CHR ''$'' # axios_unescape cs
         else if [d, e] = ''2C'' then CHR '','' # axios_unescape cs
         else if [d, e] = ''20'' then CHR ''+'' # axios_unescape cs
         else if [d, e] = ''5B'' then CHR ''['' # axios_unescape cs
         else if [d, e] = ''5D'' then CHR '']'' # axios_unescape cs
         else c # axios_unescape (d # e # cs))
      else c # axios_unescape (d # e # cs))"
| "axios_unescape (c # cs) = c # axios_unescape cs"

definition axios_encode :: "string \<Rightarrow> string" where
  "axios_encode s = axios_unescape (encodeURIComponent s)"

fun join_with :: "string \<Rightarrow> string list \<Rightarrow> string" where
  "join_with sep [] = []"
| "join_with sep [x] = x"
| "join_with sep (x # y # ys) = x @ sep @ join_with sep (y # ys)"

definition build_url :: "string \<Rightarrow> (string \<times> string) list \<Rightarrow> string" where
  "build_url u ps =
     (let q = join_with ''&'' (map (\<lambda>(k, v). axios_encode k @ ''='' @ axios_encode v) ps);
          base = takeWhile (\<lambda>c. c \<noteq> CHR ''#'') u
      in if q = [] then u else base @ (if CHR ''?'' \<in> set base then ''&'' else ''?'') @ q)"

definition request_url :: "request \<Rightarrow> string" where
  "request_url r = build_url (rq_url r) (rq_params r)"

lemmas [settle_simps] = axios_settle.simps fetch_settle.simps settle.simps validate.simps
  axios_data.simps resp_json.simps resp_ok_def

lemmas request_defs = axios_get_def axios_post_def fetch_get_def

section \<open>Classification lemmas\<close>

lemma axios_below500_accepts_4xx:
  "s < 500 \<Longrightarrow> axios_settle StatusBelow500 (Resp s b) = AxOk s (axios_data b)"
  by simp

lemma axios_settle_Err_cases:
  "axios_settle v n = AxErr st \<longleftrightarrow>
     (n = NetError \<and> st = None) \<or> (\<exists>s b. n = Resp s b \<and> \<not> validate v s \<and> st = Some s)"
  by (cases n) auto

lemma axios_settle_Ok_cases:
  "axios_settle v n = AxOk s d \<longleftrightarrow> (\<exists>b. n = Resp s b \<and> validate v s \<and> d = axios_data b)"
  by (cases n) auto

lemma fetch_settle_Err_iff [simp]: "fetch_settle n = FetchErr \<longleftrightarrow> n = NetError"
  by (cases n) auto

lemma bearer_Some [simp]: "bearer (Some t) = (''Authorization'', ''Bearer '' @ t)"
  by (simp add: bearer_def)

lemma bearer_None [simp]: "bearer None = (''Authorization'', ''Bearer null'')"
  by (simp add: bearer_def)

section \<open>URL lemmas\<close>

lemma unescape_plain: "CHR ''%'' \<notin> set s \<Longrightarrow> axios_unescape s = s"
  by (induction s rule: axios_unescape.induct) auto

lemma encode_plain: "\<forall>c \<in> set s. uri_unreserved c \<Longrightarrow> encodeURIComponent s = s"
  by (induction s) (simp_all add: encodeURIComponent_def)

lemma axios_encode_plain: "\<forall>c \<in> set s. uri_unreserved c \<Longrightarrow> axios_encode s = s"
proof -
  assume u: "\<forall>c \<in> set s. uri_unreserved c"
  have "CHR ''%'' \<notin> set s" using u by (auto simp: uri_unreserved_def)
  with u show ?thesis by (simp add: axios_encode_def encode_plain unescape_plain)
qed

end
