(* ===== verification/Timers.thy ===== *)
theory Timers
  imports Prelude
begin

text \<open>
  The browser's timer table, which App.js drives through \<open>setTimeout\<close>,
  \<open>setInterval\<close> and \<open>clearInterval\<close> (the startup effect, lines 358-408, and
  \<open>triggerArticleGeneration\<close>). The table is generic in the callback type \<open>'a\<close>:
  the application instantiates it with its own datatype of tasks. A timer has the
  browser's integer id (ids of both kinds come from one counter, starting at 1), a due
  time in milliseconds, a period for an interval and its callback. Timers are kept in
  the order in which they were (re)started; among timers due at the same time the one
  started first runs first, which is the ordering the HTML timer algorithm prescribes.
  A firing is split as the browser splits it: the due timer is taken out, its callback
  runs, and an interval is then started again one period after its due time.
\<close>

record 'a timer =
  tm_id :: nat
  tm_due :: nat
  tm_period :: "nat option"
  tm_task :: 'a

record 'a sched =
  tq :: "'a timer list"
  tm_next :: nat

definition sched_init :: "'a sched" where
  "sched_init = \<lparr>tq = [], tm_next = 1\<rparr>"

definition set_timeout :: "nat \<Rightarrow> nat \<Rightarrow> 'a \<Rightarrow> 'a sched \<Rightarrow> nat \<times> 'a sched" where
  "set_timeout now delay f s =
     (tm_next s,
      s\<lparr>tq := tq s @ [\<lparr>tm_id = tm_next s, tm_due = now + delay, tm_period = None, tm_task = f\<rparr>],
        tm_next := Suc (tm_next s)\<rparr>)"

definition set_interval :: "nat \<Rightarrow> nat \<Rightarrow> 'a \<Rightarrow> 'a sched \<Rightarrow> nat \<times> 'a sched" where
  "set_interval now period f s =
     (tm_next s,
      s\<lparr>tq := tq s @ [\<lparr>tm_id = tm_next s, tm_due = now + period, tm_period = Some period, tm_task = f\<rparr>],
        tm_next := Suc (tm_next s)\<rparr>)"

text \<open>\<open>clearInterval(id)\<close> and \<open>clearTimeout(id)\<close> share the id space.\<close>

definition clear_timer :: "nat \<Rightarrow> 'a sched \<Rightarrow> 'a sched" where
  "clear_timer i s = s\<lparr>tq := filter (\<lambda>t. tm_id t \<noteq> i) (tq s)\<rparr>"

text \<open>The first timer of least due time.\<close>

fun pick :: "'a timer list \<Rightarrow> 'a timer option" where
  "pick [] = None"
| "pick (t # ts) = (case pick ts of None \<Rightarrow> Some t | Some u \<Rightarrow> if tm_due u < tm_due t then Some u else Some t)"

definition take_due :: "'a sched \<Rightarrow> ('a timer \<times> 'a sched) option" where
  "take_due s = (case pick (tq s) of None \<Rightarrow> None | Some t \<Rightarrow> Some (t, s\<lparr>tq := remove1 t (tq s)\<rparr>))"

definition rearm :: "'a timer \<Rightarrow> 'a sched \<Rightarrow> 'a sched" where
  "rearm t s = (case tm_period t of None \<Rightarrow> s | Some p \<Rightarrow> s\<lparr>tq := tq s @ [t\<lparr>tm_due := tm_due t + p\<rparr>]\<rparr>)"

text \<open>Firing timers whose callbacks leave the table alone: the due timer is taken and,
  for an interval, started again. \<open>run_timers n s\<close> fires \<open>n\<close> times and lists what
  fired.\<close>

definition fire :: "'a sched \<Rightarrow> ('a timer \<times> 'a sched) option" where
  "fire s = (case take_due s of None \<Rightarrow> None | Some (t, s') \<Rightarrow> Some (t, rearm t s'))"

fun run_timers :: "nat \<Rightarrow> 'a sched \<Rightarrow> 'a timer list \<times> 'a sched" where
  "run_timers 0 s = ([], s)"
| "run_timers (Suc n) s =
     (case fire s of None \<Rightarrow> ([], s)
      | Some (t, s') \<Rightarrow> (let (ts, s'') = run_timers n s' in (t # ts, s'')))"

definition sched_wf :: "'a sched \<Rightarrow> bool" where
  "sched_wf s \<longleftrightarrow> 0 < tm_next s \<and> distinct (map tm_id (tq s)) \<and> (\<forall>t \<in> set (tq s). 0 < tm_id t \<and> tm_id t < tm_next s)"

definition has_interval :: "'a sched \<Rightarrow> bool" where
  "has_interval s \<longleftrightarrow> (\<exists>t \<in> set (tq s). tm_period t \<noteq> None)"

text \<open>The ids a client records for its intervals name exactly the periodic timers of
  the table, and every recorded id has been issued.\<close>

definition ids_ok :: "'a sched \<Rightarrow> nat list \<Rightarrow> bool" where
  "ids_ok s is \<longleftrightarrow> sched_wf s \<and> (\<forall>x \<in> set (tq s). tm_period x \<noteq> None \<longleftrightarrow> tm_id x \<in> set is) \<and>
     (\<forall>i \<in> set is. i < tm_next s)"

section \<open>The table's operations\<close>

lemma pick_None_iff [simp]: "pick ts = None \<longleftrightarrow> ts = []"
  by (induction ts) (auto split: option.splits)

lemma pick_in: "pick ts = Some t \<Longrightarrow> t \<in> set ts"
  by (induction ts arbitrary: t) (auto split: option.splits if_splits)

lemma pick_least: "pick ts = Some t \<Longrightarrow> u \<in> set ts \<Longrightarrow> tm_due t \<le> tm_due u"
proof (induction ts arbitrary: t)
  case Nil
  then show ?case by simp
next
  case (Cons x ts)
  show ?case
  proof (cases "pick ts")
    case None
    with Cons.prems show ?thesis by simp
  next
    case (Some v)
    with Cons.IH [of v] Cons.prems show ?thesis by (auto split: if_splits)
  qed
qed

lemma pick_append_least: "\<forall>x \<in> set xs. tm_due t < tm_due x \<Longrightarrow> pick (xs @ [t]) = Some t"
  by (induction xs) auto

lemma take_due_Some:
  assumes "take_due s = Some (t, s')"
  shows "t \<in> set (tq s)" "tq s' = remove1 t (tq s)" "tm_next s' = tm_next s"
    "\<forall>u \<in> set (tq s). tm_due t \<le> tm_due u"
  using assms pick_in pick_least by (auto simp: take_due_def split: option.splits)

lemma take_due_None_iff: "take_due s = None \<longleftrightarrow> tq s = []"
  by (cases "pick (tq s)") (auto simp: take_due_def)

lemma fire_None_iff [simp]: "fire s = None \<longleftrightarrow> tq s = []"
  unfolding take_due_None_iff [symmetric] by (auto simp: fire_def split: option.splits)

lemma set_remove1_distinct_ids:
  "distinct (map tm_id ts) \<Longrightarrow> t \<in> set ts \<Longrightarrow> set (remove1 t ts) = set ts - {t}"
  by (induction ts) auto

lemma distinct_ids_remove1: "distinct (map tm_id ts) \<Longrightarrow> distinct (map tm_id (remove1 t ts))"
  by (induction ts) (auto dest: subsetD [OF set_remove1_subset])

lemma ids_remove1_in: "distinct (map tm_id ts) \<Longrightarrow> t \<in> set ts \<Longrightarrow> tm_id t \<notin> tm_id ` set (remove1 t ts)"
  by (induction ts) (auto dest: subsetD [OF set_remove1_subset] intro: rev_image_eqI)

lemma set_timeout_wf: "sched_wf s \<Longrightarrow> sched_wf (snd (set_timeout now d f s))"
  by (auto simp: sched_wf_def set_timeout_def)

lemma set_interval_wf: "sched_wf s \<Longrightarrow> sched_wf (snd (set_interval now p f s))"
  by (auto simp: sched_wf_def set_interval_def)

lemma clear_timer_wf: "sched_wf s \<Longrightarrow> sched_wf (clear_timer i s)"
  by (auto simp: sched_wf_def clear_timer_def distinct_map_filter)

lemma take_due_wf: "sched_wf s \<Longrightarrow> take_due s = Some (t, s') \<Longrightarrow> sched_wf s'"
  using take_due_Some [of s t s']
  by (auto simp: sched_wf_def distinct_ids_remove1 dest: notin_set_remove1)

lemma take_due_fresh:
  "sched_wf s \<Longrightarrow> take_due s = Some (t, s') \<Longrightarrow> tm_id t \<notin> tm_id ` set (tq s') \<and> 0 < tm_id t \<and> tm_id t < tm_next s'"
  using take_due_Some [of s t s'] by (auto simp: sched_wf_def ids_remove1_in)

lemma rearm_wf:
  "sched_wf s \<Longrightarrow> tm_id t \<notin> tm_id ` set (tq s) \<Longrightarrow> 0 < tm_id t \<Longrightarrow> tm_id t < tm_next s \<Longrightarrow> sched_wf (rearm t s)"
  by (auto simp: sched_wf_def rearm_def split: option.splits)

lemma fire_wf: "sched_wf s \<Longrightarrow> fire s = Some (t, s') \<Longrightarrow> sched_wf s'"
  by (auto simp: fire_def split: option.splits intro!: rearm_wf dest: take_due_wf take_due_fresh)

lemma sched_init_wf: "sched_wf sched_init"
  by (simp add: sched_wf_def sched_init_def)

section \<open>Recorded interval ids\<close>

lemma tq_fold_clear: "tq (fold clear_timer is s) = filter (\<lambda>x. tm_id x \<notin> set is) (tq s)"
  by (induction "is" arbitrary: s) (auto simp: clear_timer_def)

lemma tm_next_fold_clear: "tm_next (fold clear_timer is s) = tm_next s"
  by (induction "is" arbitrary: s) (auto simp: clear_timer_def)

lemma fold_clear_wf: "sched_wf s \<Longrightarrow> sched_wf (fold clear_timer is s)"
  by (induction "is" arbitrary: s) (auto intro: clear_timer_wf)

lemma ids_ok_init: "ids_ok sched_init []"
  by (simp add: ids_ok_def sched_init_wf) (simp add: sched_init_def)

lemma ids_ok_set_timeout: "ids_ok s is \<Longrightarrow> ids_ok (snd (set_timeout n d f s)) is"
  using set_timeout_wf [of s n d f] by (auto simp: ids_ok_def set_timeout_def)

lemma ids_ok_set_interval: "ids_ok s is \<Longrightarrow> ids_ok (snd (set_interval n p f s)) (is @ [tm_next s])"
  using set_interval_wf [of s n p f] by (auto simp: ids_ok_def set_interval_def sched_wf_def)

lemma ids_ok_fire:
  assumes "ids_ok s is" "fire s = Some (t, s')" shows "ids_ok s' is"
proof -
  obtain s1 where td: "take_due s = Some (t, s1)" and s': "s' = rearm t s1"
    using assms(2) by (auto simp: fire_def split: option.splits)
  have wf: "sched_wf s" using assms(1) by (simp add: ids_ok_def)
  have "\<forall>x \<in> set (tq s1). tm_period x \<noteq> None \<longleftrightarrow> tm_id x \<in> set is"
    using assms(1) take_due_Some [OF td] by (auto simp: ids_ok_def dest: subsetD [OF set_remove1_subset])
  moreover have "tm_period t \<noteq> None \<longleftrightarrow> tm_id t \<in> set is"
    using assms(1) take_due_Some [OF td] by (auto simp: ids_ok_def)
  ultimately show ?thesis
    using fire_wf [OF wf assms(2)] assms(1) take_due_Some [OF td] s'
    by (auto simp: ids_ok_def rearm_def split: option.splits)
qed

lemma ids_ok_clear_all: "ids_ok s is \<Longrightarrow> ids_ok (fold clear_timer is s) [] \<and> \<not> has_interval (fold clear_timer is s)"
  by (auto simp: ids_ok_def has_interval_def tq_fold_clear tm_next_fold_clear fold_clear_wf)

lemma fold_clear_keeps_timeouts:
  "ids_ok s is \<Longrightarrow> filter (\<lambda>x. tm_period x = None) (tq (fold clear_timer is s)) = filter (\<lambda>x. tm_period x = None) (tq s)"
  unfolding ids_ok_def tq_fold_clear filter_filter by (rule filter_cong) auto

end
