(* ===== verification/AppState.thy ===== *)
theory AppState
  imports Http Timers
begin

text \<open>
  The state of the dashboard client. \<open>app_state\<close> is the component state of
  \<open>AppContent\<close> (App.js lines 81-112, one field per \<open>useState\<close>); \<open>world\<close> adds
  what the component shares with the browser: \<open>localStorage\<close>, the language of the
  enclosing \<open>LanguageProvider\<close>, the clock, the requests in flight with the
  continuation each one resumes when it settles, the log of every request sent, the
  timer table, the interval ids the startup effect keeps for its cleanup, the
  dependencies the view effect last ran with, the messages shown by
  \<open>window.alert\<close>, whether the \<open>LanguageDropdown\<close>'s menu is open (its
  \<open>isOpen\<close> state, line 38), and the system clipboard. The primitive effects (\<open>send\<close>, \<open>start_timeout\<close>,
  \<open>start_interval\<close>, \<open>alert\<close>) are the only ways the handlers touch the world
  outside \<open>app_state\<close>.
\<close>

datatype view = Dashboard | LiveNow | SmartMoney | Policies | About | Privacy | Admin

record app_state =
  currentView :: view
  selectedCategory :: string
  loading :: bool
  articles :: json
  selectedArticle :: "json option"
  marketData :: json
  marketLoading :: bool
  trendingTopics :: json
  marketAlerts :: json
  readingList :: json
  institutionalData :: json
  policyUpdates :: json
  liveStreams :: json
  liveStreamsLoading :: bool
  selectedStreamCategory :: string
  isAuthenticated :: bool
  showLogin :: bool
  showPasswordReset :: bool
  loginUser :: string
  loginPassword :: string
  resetEmail :: string
  recoveryStep :: nat
  adminStats :: json
  newsSources :: json
  seoStats :: json

definition app_init :: app_state where
  "app_init =
     \<lparr>currentView = Dashboard, selectedCategory = ''all'', loading = False, articles = JArr [],
      selectedArticle = None,
      marketData = JObj [(''stocks'', JArr []), (''cryptos'', JArr [])], marketLoading = False,
      trendingTopics = JArr [], marketAlerts = JArr [],
      readingList = JObj [(''finance'', JArr []), (''crypto'', JArr [])],
      institutionalData = JArr [], policyUpdates = JArr [],
      liveStreams = JArr [], liveStreamsLoading = False, selectedStreamCategory = ''all'',
      isAuthenticated = False, showLogin = False, showPasswordReset = False,
      loginUser = '''', loginPassword = '''', resetEmail = '''', recoveryStep = 1,
      adminStats = JObj [], newsSources = JArr [], seoStats = JObj []\<rparr>"

text \<open>The functions that timers and the startup sequence invoke.\<close>

datatype task =
    TFetchMarketData
  | TFetchTrendingTopics
  | TFetchMarketAlerts
  | TFetchReadingList
  | TFetchInstitutionalData
  | TFetchPolicyUpdates
  | TFetchLiveStreams
  | TKeepAlive
  | TFetchAdminStats

text \<open>Who awaits \<open>fetchMarketData\<close>: nobody (a timer or interval), or
  \<open>loadCriticalData\<close>, which goes on with \<open>fetchArticles()\<close> once it returns.\<close>

datatype caller = Standalone | CriticalChain

text \<open>What runs when a request settles: the rest of the async function that sent it.\<close>

datatype cont =
    KArticles
  | KArticlesFallback
  | KSeoStats
  | KMarketData caller
  | KLiveStreams string
  | KLiveStreamsFallback
  | KAdminStats
  | KNewsSources
  | KGenerate
  | KKeepAlive
  | KLogin

record world =
  st :: app_state
  store :: storage
  lang :: string
  api :: string
  now :: nat
  pending :: "(nat \<times> request \<times> cont) list"
  next_rid :: nat
  sent :: "request list"
  sched :: "task sched"
  intervals :: "nat list"
  mounted :: bool
  deps :: "(view \<times> string) option"
  alerts :: "string list"
  langMenuOpen :: bool
  clipboard :: "string option"

text \<open>\<open>const BACKEND_URL = process.env.REACT_APP_BACKEND_URL || 'http://localhost:8001'\<close>
  and \<open>const API = BACKEND_URL + "/api"\<close>.\<close>

definition api_of :: "string option \<Rightarrow> string" where
  "api_of env = js_or env ''http://localhost:8001'' @ ''/api''"

definition token_key :: string where
  "token_key = ''token''"

definition get_token :: "world \<Rightarrow> string option" where
  "get_token w = store w token_key"

definition upd :: "(app_state \<Rightarrow> app_state) \<Rightarrow> world \<Rightarrow> world" where
  "upd f w = w\<lparr>st := f (st w)\<rparr>"

definition send :: "request \<Rightarrow> cont \<Rightarrow> world \<Rightarrow> world" where
  "send r k w = w\<lparr>pending := pending w @ [(next_rid w, r, k)], next_rid := Suc (next_rid w), sent := sent w @ [r]\<rparr>"

definition start_timeout :: "nat \<Rightarrow> task \<Rightarrow> world \<Rightarrow> world" where
  "start_timeout d f w = w\<lparr>sched := snd (set_timeout (now w) d f (sched w))\<rparr>"

definition start_interval :: "nat \<Rightarrow> task \<Rightarrow> world \<Rightarrow> world" where
  "start_interval p f w =
     (let (i, s') = set_interval (now w) p f (sched w) in w\<lparr>sched := s', intervals := intervals w @ [i]\<rparr>)"

definition alert :: "string \<Rightarrow> world \<Rightarrow> world" where
  "alert m w = w\<lparr>alerts := alerts w @ [m]\<rparr>"

text \<open>A page load: the component state starts afresh, \<open>localStorage\<close> is what the
  browser kept, the \<open>LanguageProvider\<close> reads its initial language from it
  (LanguageContext.js lines 185-187), nothing is in flight and no timer is set.\<close>

definition initial_language :: "storage \<Rightarrow> string" where
  "initial_language s = js_or (s ''preferred-language'') ''en''"

definition boot :: "string \<Rightarrow> storage \<Rightarrow> nat \<Rightarrow> request list \<Rightarrow> world" where
  "boot a s t log =
     \<lparr>st = app_init, store = s, lang = initial_language s, api = a, now = t, pending = [],
      next_rid = 0, sent = log, sched = sched_init, intervals = [], mounted = False, deps = None,
      alerts = [], langMenuOpen = False, clipboard = None\<rparr>"

lemmas effect_defs = upd_def send_def start_timeout_def start_interval_def alert_def

section \<open>Frame lemmas of the primitive effects\<close>

lemma send_simps [simp]:
  "st (send r k w) = st w" "store (send r k w) = store w" "sched (send r k w) = sched w"
  "intervals (send r k w) = intervals w" "mounted (send r k w) = mounted w"
  "deps (send r k w) = deps w" "alerts (send r k w) = alerts w" "now (send r k w) = now w"
  "lang (send r k w) = lang w" "api (send r k w) = api w"
  "sent (send r k w) = sent w @ [r]" "next_rid (send r k w) = Suc (next_rid w)"
  "pending (send r k w) = pending w @ [(next_rid w, r, k)]"
  "langMenuOpen (send r k w) = langMenuOpen w" "clipboard (send r k w) = clipboard w"
  by (simp_all add: send_def)

lemma upd_simps [simp]:
  "st (upd f w) = f (st w)" "store (upd f w) = store w" "sched (upd f w) = sched w"
  "intervals (upd f w) = intervals w" "mounted (upd f w) = mounted w"
  "deps (upd f w) = deps w" "alerts (upd f w) = alerts w" "now (upd f w) = now w"
  "lang (upd f w) = lang w" "api (upd f w) = api w" "sent (upd f w) = sent w"
  "next_rid (upd f w) = next_rid w" "pending (upd f w) = pending w"
  "langMenuOpen (upd f w) = langMenuOpen w" "clipboard (upd f w) = clipboard w"
  by (simp_all add: upd_def)

lemma alert_simps [simp]:
  "st (alert m w) = st w" "store (alert m w) = store w" "sched (alert m w) = sched w"
  "intervals (alert m w) = intervals w" "mounted (alert m w) = mounted w"
  "deps (alert m w) = deps w" "alerts (alert m w) = alerts w @ [m]" "now (alert m w) = now w"
  "lang (alert m w) = lang w" "api (alert m w) = api w" "sent (alert m w) = sent w"
  "next_rid (alert m w) = next_rid w" "pending (alert m w) = pending w"
  "langMenuOpen (alert m w) = langMenuOpen w" "clipboard (alert m w) = clipboard w"
  by (simp_all add: alert_def)

lemma start_timeout_simps [simp]:
  "st (start_timeout d f w) = st w" "store (start_timeout d f w) = store w"
  "intervals (start_timeout d f w) = intervals w" "mounted (start_timeout d f w) = mounted w"
  "deps (start_timeout d f w) = deps w" "alerts (start_timeout d f w) = alerts w"
  "now (start_timeout d f w) = now w" "lang (start_timeout d f w) = lang w"
  "api (start_timeout d f w) = api w" "sent (start_timeout d f w) = sent w"
  "next_rid (start_timeout d f w) = next_rid w" "pending (start_timeout d f w) = pending w"
  "langMenuOpen (start_timeout d f w) = langMenuOpen w" "clipboard (start_timeout d f w) = clipboard w"
  "sched (start_timeout d f w) = snd (set_timeout (now w) d f (sched w))"
  by (simp_all add: start_timeout_def)

lemma start_interval_simps [simp]:
  "st (start_interval p f w) = st w" "store (start_interval p f w) = store w"
  "mounted (start_interval p f w) = mounted w"
  "deps (start_interval p f w) = deps w" "alerts (start_interval p f w) = alerts w"
  "now (start_interval p f w) = now w" "lang (start_interval p f w) = lang w"
  "api (start_interval p f w) = api w" "sent (start_interval p f w) = sent w"
  "next_rid (start_interval p f w) = next_rid w" "pending (start_interval p f w) = pending w"
  "langMenuOpen (start_interval p f w) = langMenuOpen w" "clipboard (start_interval p f w) = clipboard w"
  "sched (start_interval p f w) = snd (set_interval (now w) p f (sched w))"
  "intervals (start_interval p f w) = intervals w @ [tm_next (sched w)]"
  by (simp_all add: start_interval_def set_interval_def)

lemma get_token_simps [simp]:
  "get_token (send r k w) = get_token w" "get_token (upd f w) = get_token w"
  "get_token (alert m w) = get_token w" "get_token (start_timeout d g w) = get_token w"
  by (simp_all add: get_token_def)

end
