(* ===== verification/Session.thy ===== *)
theory Session
  imports AppState
begin

text \<open>
  The session store of App.js: the token in \<open>localStorage\<close> under the key
  \<open>"token"\<close> and the flag \<open>isAuthenticated\<close>. \<open>handleLogin\<close> (lines 122-134)
  posts the credentials and, when the request settles, either stores the returned
  \<open>access_token\<close> (coerced to a string by \<open>setItem\<close>), sets the flag and opens
  the admin view, or shows an alert and changes nothing. \<open>handleLogout\<close>
  (lines 136-140) removes the token, clears the flag and returns to the dashboard.
  \<open>restore_session\<close> is the mount effect of lines 425-430, which trusts any truthy
  stored token without asking the server. The modal handlers of the login and the
  password-recovery dialogs (lines 1481-1606) only toggle component state; the
  recovery request is simulated by an alert (lines 142-153).
\<close>

definition login_failed_msg :: string where
  "login_failed_msg = ''Login failed. Please check your credentials and try again.''"

definition handleLogin :: "world \<Rightarrow> world" where
  "handleLogin w =
     send (axios_post (api w @ ''/admin/login'')
             (JObj [(''username'', JStr (loginUser (st w))), (''password'', JStr (loginPassword (st w)))]) [])
          KLogin w"

definition resume_login :: "axios_result \<Rightarrow> world \<Rightarrow> world" where
  "resume_login r w =
     (case r of
        AxOk s d \<Rightarrow>
          (case get_prop d ''access_token'' of
             Inl _ \<Rightarrow> alert login_failed_msg w
           | Inr v \<Rightarrow> upd (\<lambda>a. a\<lparr>isAuthenticated := True, showLogin := False, currentView := Admin\<rparr>)
                        (w\<lparr>store := (store w)(token_key \<mapsto> js_string_of v)\<rparr>))
      | AxErr _ \<Rightarrow> alert login_failed_msg w)"

definition handleLogout :: "world \<Rightarrow> world" where
  "handleLogout w =
     upd (\<lambda>a. a\<lparr>isAuthenticated := False, currentView := Dashboard\<rparr>) (w\<lparr>store := (store w)(token_key := None)\<rparr>)"

definition restore_session :: "world \<Rightarrow> world" where
  "restore_session w = (if truthy_str (get_token w) then upd (\<lambda>a. a\<lparr>isAuthenticated := True\<rparr>) w else w)"

definition handlePasswordReset :: "world \<Rightarrow> world" where
  "handlePasswordReset w =
     upd (\<lambda>a. a\<lparr>recoveryStep := 2\<rparr>) (alert (''Password reset instructions sent to '' @ resetEmail (st w)) w)"

subsection \<open>Modal handlers\<close>

definition open_login :: "app_state \<Rightarrow> app_state" where
  "open_login a = a\<lparr>showLogin := True\<rparr>"

definition cancel_login :: "app_state \<Rightarrow> app_state" where
  "cancel_login a = a\<lparr>showLogin := False\<rparr>"

definition edit_username :: "string \<Rightarrow> app_state \<Rightarrow> app_state" where
  "edit_username u a = a\<lparr>loginUser := u\<rparr>"

definition edit_password :: "string \<Rightarrow> app_state \<Rightarrow> app_state" where
  "edit_password p a = a\<lparr>loginPassword := p\<rparr>"

definition forgot_password :: "app_state \<Rightarrow> app_state" where
  "forgot_password a = a\<lparr>showPasswordReset := True\<rparr>"

definition edit_reset_email :: "string \<Rightarrow> app_state \<Rightarrow> app_state" where
  "edit_reset_email e a = a\<lparr>resetEmail := e\<rparr>"

definition back_to_login :: "app_state \<Rightarrow> app_state" where
  "back_to_login a = a\<lparr>showPasswordReset := False, showLogin := True\<rparr>"

definition cancel_reset :: "app_state \<Rightarrow> app_state" where
  "cancel_reset a = a\<lparr>showPasswordReset := False\<rparr>"

definition close_reset_done :: "app_state \<Rightarrow> app_state" where
  "close_reset_done a = a\<lparr>showPasswordReset := False, recoveryStep := 1, resetEmail := ''''\<rparr>"

lemmas session_defs [handler_defs] = handleLogin_def resume_login_def handleLogout_def
  restore_session_def handlePasswordReset_def

lemmas modal_defs = open_login_def cancel_login_def edit_username_def edit_password_def
  forgot_password_def edit_reset_email_def back_to_login_def cancel_reset_def close_reset_done_def

section \<open>Session lemmas\<close>

lemma handleLogout_simps [simp]:
  "isAuthenticated (st (handleLogout w)) = False"
  "currentView (st (handleLogout w)) = Dashboard"
  "get_token (handleLogout w) = None"
  "pending (handleLogout w) = pending w" "sent (handleLogout w) = sent w"
  "sched (handleLogout w) = sched w" "mounted (handleLogout w) = mounted w"
  "deps (handleLogout w) = deps w" "alerts (handleLogout w) = alerts w"
  "api (handleLogout w) = api w" "now (handleLogout w) = now w" "lang (handleLogout w) = lang w"
  "next_rid (handleLogout w) = next_rid w" "intervals (handleLogout w) = intervals w"
  by (simp_all add: handleLogout_def get_token_def)

lemma store_handleLogout_other: "k \<noteq> token_key \<Longrightarrow> store (handleLogout w) k = store w k"
  by (simp add: handleLogout_def)

lemma resume_login_AxErr [simp]: "resume_login (AxErr e) w = alert login_failed_msg w"
  by (simp add: resume_login_def)

lemma restore_session_frame [simp]:
  "store (restore_session w) = store w" "pending (restore_session w) = pending w"
  "sent (restore_session w) = sent w" "sched (restore_session w) = sched w"
  "currentView (st (restore_session w)) = currentView (st w)"
  "selectedCategory (st (restore_session w)) = selectedCategory (st w)"
  "mounted (restore_session w) = mounted w" "deps (restore_session w) = deps w"
  "next_rid (restore_session w) = next_rid w" "intervals (restore_session w) = intervals w"
  "api (restore_session w) = api w" "now (restore_session w) = now w" "lang (restore_session w) = lang w"
  "alerts (restore_session w) = alerts w"
  by (simp_all add: restore_session_def)

lemma restore_session_auth:
  "isAuthenticated (st (restore_session w)) = (isAuthenticated (st w) \<or> truthy_str (get_token w))"
  by (simp add: restore_session_def)

section \<open>Properties of the session store\<close>

text \<open>C9. A failed login (the request rejected) changes neither the component state
  nor \<open>localStorage\<close>: the session stays anonymous and only an alert is shown.\<close>

theorem login_failure_unchanged:
  "st (resume_login (AxErr e) w) = st w \<and> store (resume_login (AxErr e) w) = store w \<and>
   alerts (resume_login (AxErr e) w) = alerts w @ [login_failed_msg]"
  by simp

text \<open> Logging out is idempotent: a second logout changes nothing.\<close>

theorem logout_idempotent: "handleLogout (handleLogout w) = handleLogout w"
  by (simp add: handleLogout_def upd_def)

text \<open>C21. A login answer without an \<open>access_token\<close> member still authenticates the
  session: \<open>setItem\<close> stores the text \<open>undefined\<close> as the token and the admin view
  opens.\<close>

theorem login_without_token_member:
  assumes "''access_token'' \<notin> fst ` set kvs"
  shows "get_token (resume_login (AxOk s (JObj kvs)) w) = Some ''undefined'' \<and>
         isAuthenticated (st (resume_login (AxOk s (JObj kvs)) w)) \<and>
         currentView (st (resume_login (AxOk s (JObj kvs)) w)) = Admin"
proof -
  have "map_of (rev kvs) ''access_token'' = None"
    using assms by (simp add: map_of_eq_None_iff)
  then show ?thesis by (simp add: resume_login_def get_token_def)
qed

theorem login_without_token_member_witness:
  "get_token (resume_login (AxOk 200 (JObj [(''detail'', JStr ''ok'')])) (boot ''api'' Map.empty 0 [])) = Some ''undefined'' \<and>
   isAuthenticated (st (resume_login (AxOk 200 (JObj [(''detail'', JStr ''ok'')])) (boot ''api'' Map.empty 0 []))) \<and>
   currentView (st (resume_login (AxOk 200 (JObj [(''detail'', JStr ''ok'')])) (boot ''api'' Map.empty 0 []))) = Admin"
  by (rule login_without_token_member) simp

end
