(* ===== verification/Fetchers.thy ===== *)
theory Fetchers
  imports Session
begin

text \<open>
  The fetch functions of App.js, each split at its \<open>await\<close>: the synchronous part
  that runs when the function is called (it sets the loading flag and sends the
  request) and the continuation \<open>resume_*\<close> that runs when the network settles the
  request, with the transport rules of theory Http deciding
  what the code sees. \<open>fetchArticles\<close> (lines 156-199) and \<open>fetchLiveStreams\<close>
  (lines 332-355) are the two resilient calls: an axios request first, then exactly one
  \<open>fetch\<close> to a fallback URL. The other calls have no fallback. The five auxiliary
  feeds (lines 242-321) send nothing: they store constants. \<open>deliver\<close> is the
  network settling one request in flight, in any order.
\<close>

section \<open>Articles\<close>

definition articles_url :: "string \<Rightarrow> string option \<Rightarrow> string" where
  "articles_url a cat =
     (case cat of
        Some c \<Rightarrow> if c \<noteq> [] \<and> c \<noteq> ''all'' then a @ ''/articles?category='' @ c @ ''&limit=20''
                  else a @ ''/articles?limit=20''
      | None \<Rightarrow> a @ ''/articles?limit=20'')"

definition article_headers :: "(string \<times> string) list" where
  "article_headers = [(''Accept'', ''application/json''), (''Cache-Control'', ''no-cache'')]"

definition fetchArticles :: "string option \<Rightarrow> world \<Rightarrow> world" where
  "fetchArticles cat w =
     send (axios_get StatusBelow500 (articles_url (api w) cat) [] article_headers) KArticles
       (upd (\<lambda>a. a\<lparr>loading := True\<rparr>) w)"

definition resume_articles :: "net \<Rightarrow> world \<Rightarrow> world" where
  "resume_articles n w =
     (case axios_settle StatusBelow500 n of
        AxOk s d \<Rightarrow> upd (\<lambda>a. a\<lparr>articles := d, loading := False\<rparr>) w
      | AxErr _ \<Rightarrow> send (fetch_get (api w @ ''/articles?limit=10'')) KArticlesFallback w)"

text \<open>The fallback's data when \<open>fallbackResponse.ok\<close> and its body parses;
  otherwise the code falls through to \<open>setArticles([])\<close>. A body \<open>null\<close> parses,
  but the log line after \<open>setArticles(fallbackData)\<close> reads \<open>fallbackData.length\<close>,
  which throws on \<open>null\<close>; the inner \<open>catch\<close> then falls through to
  \<open>setArticles([])\<close> as well.\<close>

definition fetch_ok_json :: "fetch_result \<Rightarrow> json option" where
  "fetch_ok_json r = (case r of FetchResp s b \<Rightarrow> if resp_ok s then resp_json b else None | FetchErr \<Rightarrow> None)"

definition fallback_data :: "fetch_result \<Rightarrow> json option" where
  "fallback_data r = (case fetch_ok_json r of Some JNull \<Rightarrow> None | j \<Rightarrow> j)"

definition resume_articles_fallback :: "net \<Rightarrow> world \<Rightarrow> world" where
  "resume_articles_fallback n w =
     (case fallback_data (fetch_settle n) of
        Some d \<Rightarrow> upd (\<lambda>a. a\<lparr>articles := d, loading := False\<rparr>) w
      | None \<Rightarrow> upd (\<lambda>a. a\<lparr>articles := JArr [], loading := False\<rparr>) w)"

section \<open>SEO statistics and market data\<close>

definition fetchSeoStats :: "world \<Rightarrow> world" where
  "fetchSeoStats w = send (axios_get Status2xx (api w @ ''/seo-stats'') [] []) KSeoStats w"

definition resume_seo :: "net \<Rightarrow> world \<Rightarrow> world" where
  "resume_seo n w = (case axios_settle Status2xx n of AxOk _ d \<Rightarrow> upd (\<lambda>a. a\<lparr>seoStats := d\<rparr>) w | AxErr _ \<Rightarrow> w)"

definition fetchMarketData :: "caller \<Rightarrow> world \<Rightarrow> world" where
  "fetchMarketData c w =
     send (axios_get Status2xx (api w @ ''/market-data'') [] []) (KMarketData c)
       (upd (\<lambda>a. a\<lparr>marketLoading := True\<rparr>) w)"

text \<open>After \<open>fetchMarketData\<close> returns, \<open>loadCriticalData\<close> (lines 360-368) goes on
  with \<open>await fetchArticles()\<close>, without a category.\<close>

definition resume_market :: "caller \<Rightarrow> net \<Rightarrow> world \<Rightarrow> world" where
  "resume_market c n w =
     (let w' = (case axios_settle Status2xx n of
                  AxOk _ d \<Rightarrow> upd (\<lambda>a. a\<lparr>marketData := d, marketLoading := False\<rparr>) w
                | AxErr _ \<Rightarrow> upd (\<lambda>a. a\<lparr>marketLoading := False\<rparr>) w)
      in if c = CriticalChain then fetchArticles None w' else w')"

section \<open>Simulated feeds\<close>

definition trending_topics_data :: json where
  "trending_topics_data = JArr
     [JObj [(''topic'', JStr ''Bitcoin ETF''), (''volume'', jint 12500)],
      JObj [(''topic'', JStr ''Federal Reserve''), (''volume'', jint 8900)],
      JObj [(''topic'', JStr ''Ethereum Upgrade''), (''volume'', jint 7200)],
      JObj [(''topic'', JStr ''Market Volatility''), (''volume'', jint 6800)],
      JObj [(''topic'', JStr ''Crypto Regulation''), (''volume'', jint 5400)]]"

definition fetchTrendingTopics :: "world \<Rightarrow> world" where
  "fetchTrendingTopics w = upd (\<lambda>a. a\<lparr>trendingTopics := trending_topics_data\<rparr>) w"

text \<open>The alerts carry \<open>new Date(Date.now() - k)\<close>, represented by its epoch
  milliseconds.\<close>

definition market_alerts_data :: "nat \<Rightarrow> json" where
  "market_alerts_data t = JArr
     [JObj [(''id'', jint 1), (''type'', JStr ''price''), (''title'', JStr ''Bitcoin reaches $45,000''),
            (''message'', JStr ''BTC hits resistance level''), (''timestamp'', jint (int t - 300000)),
            (''severity'', JStr ''medium'')],
      JObj [(''id'', jint 2), (''type'', JStr ''volume''), (''title'', JStr ''High trading volume on ETH''),
            (''message'', JStr ''Ethereum sees 200% volume increase''), (''timestamp'', jint (int t - 600000)),
            (''severity'', JStr ''high'')]]"

definition fetchMarketAlerts :: "world \<Rightarrow> world" where
  "fetchMarketAlerts w = upd (\<lambda>a. a\<lparr>marketAlerts := market_alerts_data (now w)\<rparr>) w"

definition reading_list_data :: json where
  "reading_list_data = JObj
     [(''finance'', JArr [JStr ''Understanding Market Cycles'', JStr ''Federal Reserve Policy Impact'',
                          JStr ''Investment Strategy Guide'']),
      (''crypto'', JArr [JStr ''DeFi Protocols Explained'', JStr ''Blockchain Technology Basics'',
                         JStr ''Crypto Market Analysis''])]"

definition fetchReadingList :: "world \<Rightarrow> world" where
  "fetchReadingList w = upd (\<lambda>a. a\<lparr>readingList := reading_list_data\<rparr>) w"

definition institutional_data :: json where
  "institutional_data = JArr
     [JObj [(''institution'', JStr ''BlackRock''), (''asset'', JStr ''BTC''), (''amount'', jint 28450), (''change'', JNum 23 1)],
      JObj [(''institution'', JStr ''Grayscale''), (''asset'', JStr ''ETH''), (''amount'', jint 15670), (''change'', JNum (-8) 1)],
      JObj [(''institution'', JStr ''MicroStrategy''), (''asset'', JStr ''BTC''), (''amount'', jint 132500), (''change'', JNum 0 1)],
      JObj [(''institution'', JStr ''Tesla''), (''asset'', JStr ''BTC''), (''amount'', jint 42902), (''change'', JNum 12 1)]]"

definition fetchInstitutionalData :: "world \<Rightarrow> world" where
  "fetchInstitutionalData w = upd (\<lambda>a. a\<lparr>institutionalData := institutional_data\<rparr>) w"

definition policy_updates_data :: json where
  "policy_updates_data = JArr
     [JObj [(''id'', JStr ''1''), (''title'', JStr ''EU Digital Asset Regulation''), (''country'', JStr ''European Union''),
            (''impact'', JStr ''High''), (''date'', JStr ''2024-01-15''), (''status'', JStr ''Proposed'')],
      JObj [(''id'', JStr ''2''), (''title'', JStr ''US Bitcoin ETF Approval''), (''country'', JStr ''United States''),
            (''impact'', JStr ''Very High''), (''date'', JStr ''2024-01-10''), (''status'', JStr ''Approved'')]]"

definition fetchPolicyUpdates :: "world \<Rightarrow> world" where
  "fetchPolicyUpdates w = upd (\<lambda>a. a\<lparr>policyUpdates := policy_updates_data\<rparr>) w"

section \<open>Live streams\<close>

definition stream_params :: "string \<Rightarrow> (string \<times> string) list" where
  "stream_params cat = (if cat \<noteq> ''all'' then [(''category'', cat)] else [])"

definition streams_fallback_url :: "string \<Rightarrow> string \<Rightarrow> string" where
  "streams_fallback_url a cat = a @ ''/live-streams'' @ (if cat \<noteq> ''all'' then ''?category='' @ cat else '''')"

definition fetchLiveStreams :: "string \<Rightarrow> world \<Rightarrow> world" where
  "fetchLiveStreams cat w =
     send (axios_get Status2xx (api w @ ''/live-streams'') (stream_params cat) []) (KLiveStreams cat)
       (upd (\<lambda>a. a\<lparr>liveStreamsLoading := True\<rparr>) w)"

definition resume_streams :: "string \<Rightarrow> net \<Rightarrow> world \<Rightarrow> world" where
  "resume_streams cat n w =
     (case axios_settle Status2xx n of
        AxOk _ d \<Rightarrow> upd (\<lambda>a. a\<lparr>liveStreams := d, liveStreamsLoading := False\<rparr>) w
      | AxErr _ \<Rightarrow> send (fetch_get (streams_fallback_url (api w) cat)) KLiveStreamsFallback w)"

text \<open>A fallback that is not \<open>ok\<close>, whose body does not parse or that fails
  leaves \<open>liveStreams\<close> as it was; only the loading flag is reset (\<open>finally\<close>).
  Nothing reads the data after \<open>setLiveStreams\<close>, so a \<open>null\<close> body is stored.\<close>

definition resume_streams_fallback :: "net \<Rightarrow> world \<Rightarrow> world" where
  "resume_streams_fallback n w =
     (case fetch_ok_json (fetch_settle n) of
        Some d \<Rightarrow> upd (\<lambda>a. a\<lparr>liveStreams := d, liveStreamsLoading := False\<rparr>) w
      | None \<Rightarrow> upd (\<lambda>a. a\<lparr>liveStreamsLoading := False\<rparr>) w)"

section \<open>Authenticated calls\<close>

definition fetchAdminStats :: "world \<Rightarrow> world" where
  "fetchAdminStats w = send (axios_get Status2xx (api w @ ''/admin/stats'') [] [bearer (get_token w)]) KAdminStats w"

definition resume_admin_stats :: "net \<Rightarrow> world \<Rightarrow> world" where
  "resume_admin_stats n w =
     (case axios_settle Status2xx n of
        AxOk _ d \<Rightarrow> upd (\<lambda>a. a\<lparr>adminStats := d\<rparr>) w
      | AxErr e \<Rightarrow> if e = Some 401 then handleLogout w else w)"

definition fetchNewsSources :: "world \<Rightarrow> world" where
  "fetchNewsSources w = send (axios_get Status2xx (api w @ ''/news-sources'') [] [bearer (get_token w)]) KNewsSources w"

definition resume_news_sources :: "net \<Rightarrow> world \<Rightarrow> world" where
  "resume_news_sources n w = (case axios_settle Status2xx n of AxOk _ d \<Rightarrow> upd (\<lambda>a. a\<lparr>newsSources := d\<rparr>) w | AxErr _ \<Rightarrow> w)"

definition triggerArticleGeneration :: "world \<Rightarrow> world" where
  "triggerArticleGeneration w =
     send (axios_post (api w @ ''/admin/generate-now'') (JObj []) [bearer (get_token w)]) KGenerate w"

definition resume_generate :: "net \<Rightarrow> world \<Rightarrow> world" where
  "resume_generate n w =
     (case axios_settle Status2xx n of
        AxOk _ _ \<Rightarrow> start_timeout 2000 TFetchAdminStats (alert ''Article generation triggered successfully!'' w)
      | AxErr _ \<Rightarrow> alert ''Failed to trigger article generation'' w)"

text \<open>The keep-alive callback of the interval at lines 393-400: its outcome is only
  logged.\<close>

definition keepAlive :: "world \<Rightarrow> world" where
  "keepAlive w = send (axios_get Status2xx (api w @ ''/'') [] []) KKeepAlive w"

section \<open>Settling a request\<close>

fun resume :: "cont \<Rightarrow> net \<Rightarrow> world \<Rightarrow> world" where
  "resume KArticles n w = resume_articles n w"
| "resume KArticlesFallback n w = resume_articles_fallback n w"
| "resume KSeoStats n w = resume_seo n w"
| "resume (KMarketData c) n w = resume_market c n w"
| "resume (KLiveStreams cat) n w = resume_streams cat n w"
| "resume KLiveStreamsFallback n w = resume_streams_fallback n w"
| "resume KAdminStats n w = resume_admin_stats n w"
| "resume KNewsSources n w = resume_news_sources n w"
| "resume KGenerate n w = resume_generate n w"
| "resume KKeepAlive n w = w"
| "resume KLogin n w = resume_login (axios_settle Status2xx n) w"

definition find_pending :: "nat \<Rightarrow> world \<Rightarrow> (nat \<times> request \<times> cont) option" where
  "find_pending i w = find (\<lambda>p. fst p = i) (pending w)"

definition deliver :: "nat \<Rightarrow> net \<Rightarrow> world \<Rightarrow> world option" where
  "deliver i n w =
     (case find_pending i w of
        None \<Rightarrow> None
      | Some (_, _, k) \<Rightarrow> Some (resume k n (w\<lparr>pending := filter (\<lambda>p. fst p \<noteq> i) (pending w)\<rparr>)))"

text \<open>Every id in flight is below the next id to hand out; \<^const>\<open>send\<close> keeps it so.\<close>

definition fresh_ids :: "world \<Rightarrow> bool" where
  "fresh_ids w \<longleftrightarrow> (\<forall>p \<in> set (pending w). fst p < next_rid w)"

section \<open>The resilient articles call as a whole\<close>

text \<open>What the primary axios request yields for \<open>fetchArticles\<close>: its data when it
  resolves (any status below 500), nothing when it rejects.\<close>

definition primary_data :: "net \<Rightarrow> json option" where
  "primary_data n = (case axios_settle StatusBelow500 n of AxOk _ d \<Rightarrow> Some d | AxErr _ \<Rightarrow> None)"

text \<open>One complete \<open>fetchArticles\<close> call with an injected network: the primary
  request settles with \<open>n1\<close>; if the continuation sent a fallback (the next request
  id is then in flight), it settles with \<open>n2\<close>.\<close>

definition articles_call :: "string option \<Rightarrow> net \<Rightarrow> net \<Rightarrow> world \<Rightarrow> world option" where
  "articles_call cat n1 n2 w =
     (case deliver (next_rid w) n1 (fetchArticles cat w) of
        None \<Rightarrow> None
      | Some w1 \<Rightarrow> (case find_pending (Suc (next_rid w)) w1 of
                     None \<Rightarrow> Some w1
                   | Some _ \<Rightarrow> deliver (Suc (next_rid w)) n2 w1))"

lemmas fetcher_defs [handler_defs] = fetchArticles_def resume_articles_def resume_articles_fallback_def
  fetchSeoStats_def resume_seo_def fetchMarketData_def resume_market_def fetchTrendingTopics_def
  fetchMarketAlerts_def fetchReadingList_def fetchInstitutionalData_def fetchPolicyUpdates_def
  fetchLiveStreams_def resume_streams_def resume_streams_fallback_def fetchAdminStats_def
  resume_admin_stats_def fetchNewsSources_def resume_news_sources_def triggerArticleGeneration_def
  resume_generate_def keepAlive_def

section \<open>Settling the newest request\<close>

lemma find_fresh_last:
  "\<forall>p \<in> set ps. fst p < (i::nat) \<Longrightarrow> find (\<lambda>p. fst p = i) (ps @ [(i, r, k)]) = Some (i, r, k)"
  by (induction ps) auto

lemma filter_fresh:
  "\<forall>p \<in> set ps. fst p < (i::nat) \<Longrightarrow> filter (\<lambda>p. fst p \<noteq> i) ps = ps"
  by (induction ps) auto

lemma deliver_last:
  "pending w = ps @ [(i, r, k)] \<Longrightarrow> \<forall>p \<in> set ps. fst p < i \<Longrightarrow>
   deliver i n w = Some (resume k n (w\<lparr>pending := ps\<rparr>))"
  by (simp add: deliver_def find_pending_def find_fresh_last filter_fresh)

lemma deliver_first:
  "pending w = (i, r, k) # qs \<Longrightarrow> \<forall>p \<in> set qs. fst p \<noteq> i \<Longrightarrow>
   deliver i n w = Some (resume k n (w\<lparr>pending := qs\<rparr>))"
  by (simp add: deliver_def find_pending_def filter_id_conv)

lemma fresh_ids_send [simp]: "fresh_ids w \<Longrightarrow> fresh_ids (send r k w)"
  by (auto simp: fresh_ids_def)

lemma fresh_ids_upd [simp]: "fresh_ids (upd f w) = fresh_ids w"
  by (simp add: fresh_ids_def)

lemma resume_articles_fallback_fields:
  "articles (st (resume_articles_fallback n w)) = resilient None (fallback_data (fetch_settle n)) (JArr [])"
  "\<not> loading (st (resume_articles_fallback n w))"
  "pending (resume_articles_fallback n w) = pending w" "sent (resume_articles_fallback n w) = sent w"
  by (simp_all add: resume_articles_fallback_def resilient_def split: option.splits)

section \<open>Properties of the fetch client\<close>

text \<open>C1. The articles fetch implements the resilient-client contract: after the
  primary request and, when it rejected, exactly one fallback request have settled, the
  article collection is the primary's data, else the fallback's, else empty; the loading
  flag is cleared, nothing of the call is left in flight, and the requests sent are the
  primary and at most one fallback.\<close>

theorem articles_fetch_resilient:
  assumes fresh: "fresh_ids w"
  shows "\<exists>w'. articles_call cat n1 n2 w = Some w' \<and>
    articles (st w') = resilient (primary_data n1) (fallback_data (fetch_settle n2)) (JArr []) \<and>
    \<not> loading (st w') \<and> pending w' = pending w \<and>
    sent w' = sent w @ [axios_get StatusBelow500 (articles_url (api w) cat) [] article_headers] @
       (if primary_data n1 = None then [fetch_get (api w @ ''/articles?limit=10'')] else [])"
proof -
  let ?req = "axios_get StatusBelow500 (articles_url (api w) cat) [] article_headers"
  let ?fb = "fetch_get (api w @ ''/articles?limit=10'')"
  define w0 where "w0 = (fetchArticles cat w)\<lparr>pending := pending w\<rparr>"
  have ids: "\<forall>p \<in> set (pending w). fst p < next_rid w"
    using fresh by (simp add: fresh_ids_def)
  have "deliver (next_rid w) n1 (fetchArticles cat w) = Some (resume KArticles n1 w0)"
    unfolding w0_def by (rule deliver_last) (simp_all add: fetchArticles_def ids)
  then have d0: "deliver (next_rid w) n1 (fetchArticles cat w) = Some (resume_articles n1 w0)"
    by simp
  have w0: "pending w0 = pending w" "next_rid w0 = Suc (next_rid w)" "sent w0 = sent w @ [?req]" "api w0 = api w"
    by (simp_all add: w0_def fetchArticles_def)
  show ?thesis
  proof (cases "primary_data n1")
    case (Some d)
    then have ok: "axios_settle StatusBelow500 n1 = AxOk (case n1 of Resp s _ \<Rightarrow> s | NetError \<Rightarrow> 0) d"
      by (auto simp: primary_data_def split: axios_result.splits net.splits if_splits)
    have "find_pending (Suc (next_rid w)) (resume_articles n1 w0) = None"
      using ok ids w0 by (auto simp: find_pending_def find_None_iff resume_articles_def)
    then show ?thesis
      using d0 ok w0 Some by (simp add: articles_call_def resume_articles_def resilient_def)
  next
    case None
    then obtain e where e: "axios_settle StatusBelow500 n1 = AxErr e"
      by (auto simp: primary_data_def split: axios_result.splits)
    define w1 where "w1 = send ?fb KArticlesFallback w0"
    have r1: "resume_articles n1 w0 = w1"
      using e w0 by (simp add: resume_articles_def w1_def)
    have fp: "find_pending (Suc (next_rid w)) w1 \<noteq> None"
      using w0 by (auto simp: w1_def find_pending_def find_None_iff)
    have "deliver (Suc (next_rid w)) n2 w1 = Some (resume KArticlesFallback n2 (w1\<lparr>pending := pending w\<rparr>))"
      by (rule deliver_last) (use w0 ids in \<open>auto simp: w1_def\<close>)
    then have d1: "deliver (Suc (next_rid w)) n2 w1 = Some (resume_articles_fallback n2 (w1\<lparr>pending := pending w\<rparr>))"
      by simp
    show ?thesis
      using d0 r1 fp d1 None w0
      by (simp add: articles_call_def resume_articles_fallback_fields w1_def split: option.splits)
  qed
qed

theorem articles_fetch_resilient_witness:
  "\<exists>w'. articles_call (Some ''finance'') NetError (Resp 200 (BJson (JArr [JStr ''a'']))) (boot ''api'' Map.empty 0 []) = Some w' \<and>
    articles (st w') = resilient (primary_data NetError) (fallback_data (fetch_settle (Resp 200 (BJson (JArr [JStr ''a'']))))) (JArr []) \<and>
    \<not> loading (st w') \<and> pending w' = pending (boot ''api'' Map.empty 0 []) \<and>
    sent w' = sent (boot ''api'' Map.empty 0 []) @ [axios_get StatusBelow500 (articles_url (api (boot ''api'' Map.empty 0 [])) (Some ''finance'')) [] article_headers] @
       (if primary_data NetError = None then [fetch_get (api (boot ''api'' Map.empty 0 []) @ ''/articles?limit=10'')] else [])"
  by (rule articles_fetch_resilient) (simp add: fresh_ids_def boot_def)

text \<open>C10. An authorization-denied (401) answer to the admin statistics request logs
  the session out (token removed, flag cleared, back to the dashboard); every other
  failure, any status outside 2xx but 401 (403 included) or a transport error, leaves
  the world as it was; a 2xx answer only stores the statistics.\<close>

theorem admin_stats_401_logout:
  "\<not> isAuthenticated (st (resume_admin_stats (Resp 401 b) w)) \<and>
   get_token (resume_admin_stats (Resp 401 b) w) = None \<and>
   currentView (st (resume_admin_stats (Resp 401 b) w)) = Dashboard \<and>
   resume_admin_stats (Resp s b) w =
     (if 200 \<le> s \<and> s < 300 then upd (\<lambda>a. a\<lparr>adminStats := axios_data b\<rparr>) w
      else if s = 401 then handleLogout w else w) \<and>
   resume_admin_stats NetError w = w"
  by (simp add: resume_admin_stats_def)

text \<open>C11. A 401 answer to the news-sources request, also an authenticated call, is
  ignored: the session is not invalidated, contrary to the spec's rule that every
  authorization-denied response logs out.\<close>

theorem news_sources_401_ignored: "resume_news_sources (Resp 401 b) w = w"
  by (simp add: resume_news_sources_def)

text \<open> The admin statistics request always carries an Authorization header,
  \<open>Bearer\<close> followed by the stored token, or by the text \<open>null\<close> when no token is
  stored; the spec asks for the header to be omitted without a session.\<close>

theorem admin_stats_header:
  "rq_headers (last (sent (fetchAdminStats w))) =
     [(''Authorization'', ''Bearer '' @ (case get_token w of None \<Rightarrow> ''null'' | Some t \<Rightarrow> t))]"
  by (simp add: fetchAdminStats_def axios_get_def bearer_def)

text \<open>C12. A primary answer with a client-error status (400 to 499) is accepted as
  success: its body becomes the article collection and no fallback is tried.\<close>

theorem articles_accept_client_error:
  assumes "400 \<le> s" and "s < 500"
  shows "articles (st (resume_articles (Resp s b) w)) = axios_data b \<and>
         \<not> loading (st (resume_articles (Resp s b) w)) \<and> sent (resume_articles (Resp s b) w) = sent w"
  using assms by (simp add: resume_articles_def)

theorem articles_accept_client_error_witness:
  "articles (st (resume_articles (Resp 404 (BJson (JObj [(''detail'', JStr ''Not Found'')]))) (boot ''api'' Map.empty 0 [])))
     = axios_data (BJson (JObj [(''detail'', JStr ''Not Found'')])) \<and>
   \<not> loading (st (resume_articles (Resp 404 (BJson (JObj [(''detail'', JStr ''Not Found'')]))) (boot ''api'' Map.empty 0 []))) \<and>
   sent (resume_articles (Resp 404 (BJson (JObj [(''detail'', JStr ''Not Found'')]))) (boot ''api'' Map.empty 0 []))
     = sent (boot ''api'' Map.empty 0 [])"
  by (rule articles_accept_client_error) simp_all

text \<open>C13. When a category-scoped primary articles request fails, the single fallback
  asks for \<open>/articles?limit=10\<close>: the category filter is dropped, so the fallback can
  show articles of every category under a category tab.\<close>

theorem articles_fallback_drops_category:
  assumes "axios_settle StatusBelow500 n = AxErr e"
  shows "sent (resume_articles n (fetchArticles (Some c) w)) =
           sent w @ [axios_get StatusBelow500 (articles_url (api w) (Some c)) [] article_headers,
                     fetch_get (api w @ ''/articles?limit=10'')]"
  using assms by (simp add: resume_articles_def fetchArticles_def)

theorem articles_fallback_drops_category_witness:
  "sent (resume_articles NetError (fetchArticles (Some ''finance'') (boot ''api'' Map.empty 0 []))) =
     sent (boot ''api'' Map.empty 0 []) @
       [axios_get StatusBelow500 (articles_url (api (boot ''api'' Map.empty 0 [])) (Some ''finance'')) [] article_headers,
        fetch_get (api (boot ''api'' Map.empty 0 []) @ ''/articles?limit=10'')]"
  by (rule articles_fallback_drops_category) simp

text \<open>C14. When the live-stream fallback yields no data (not ok, unparsable or failed),
  the previous stream collection is kept and only the loading flag is cleared, while
  the articles fallback in the same situation empties its collection.\<close>

theorem streams_fallback_keeps_stale:
  assumes "fetch_ok_json (fetch_settle n) = None"
  shows "liveStreams (st (resume_streams_fallback n w)) = liveStreams (st w) \<and>
         \<not> liveStreamsLoading (st (resume_streams_fallback n w)) \<and>
         articles (st (resume_articles_fallback n w)) = JArr []"
  using assms by (simp add: resume_streams_fallback_def resume_articles_fallback_def fallback_data_def)

theorem streams_fallback_keeps_stale_witness:
  "liveStreams (st (resume_streams_fallback NetError (boot ''api'' Map.empty 0 []))) = liveStreams (st (boot ''api'' Map.empty 0 [])) \<and>
   \<not> liveStreamsLoading (st (resume_streams_fallback NetError (boot ''api'' Map.empty 0 []))) \<and>
   articles (st (resume_articles_fallback NetError (boot ''api'' Map.empty 0 []))) = JArr []"
  by (rule streams_fallback_keeps_stale) (simp add: fetch_ok_json_def)

text \<open>C15. The market-data fetch has no fallback: when its request fails the snapshot
  keeps its previous value, no further request is sent and the loading flag clears.\<close>

theorem market_failure_no_fallback:
  assumes "axios_settle Status2xx n = AxErr e"
  shows "marketData (st (resume_market Standalone n w)) = marketData (st w) \<and>
         sent (resume_market Standalone n w) = sent w \<and> \<not> marketLoading (st (resume_market Standalone n w))"
  using assms by (simp add: resume_market_def)

theorem market_failure_no_fallback_witness:
  "marketData (st (resume_market Standalone NetError (boot ''api'' Map.empty 0 []))) = marketData (st (boot ''api'' Map.empty 0 [])) \<and>
   sent (resume_market Standalone NetError (boot ''api'' Map.empty 0 [])) = sent (boot ''api'' Map.empty 0 []) \<and>
   \<not> marketLoading (st (resume_market Standalone NetError (boot ''api'' Map.empty 0 [])))"
  by (rule market_failure_no_fallback) simp

end
