(* ===== verification/Effects.thy ===== *)
theory Effects
  imports Fetchers
begin

text \<open>
  The three \<open>useEffect\<close> hooks of \<open>AppContent\<close>, in the order React runs them
  after the first render, and the commit step that reruns the second one.
  \<^item> The startup effect (App.js lines 358-408): \<open>loadCriticalData\<close> calls
    \<open>fetchMarketData\<close> and awaits it before \<open>fetchArticles()\<close>;
    \<open>loadSecondaryData\<close> starts six timeouts (1000 ms to 3500 ms, source order);
    four intervals are started (market data 60 s, trending topics 600 s, alerts 120 s,
    keep-alive 300 s), and the cleanup clears those four and nothing else.
    The timeouts and intervals are kept as the lists \<open>secondary_schedule\<close> and
    \<open>refresh_intervals\<close>, folded in source order.
  \<^item> The view effect (lines 410-423), rerun whenever \<open>currentView\<close> or
    \<open>selectedCategory\<close> changed since its last run: it refetches the articles of the
    selected category, the admin statistics and news sources on the admin view, and the
    SEO statistics on the dashboard.
  \<^item> The restore effect (lines 425-430), \<^const>\<open>restore_session\<close>.
  A timer firing takes the due timer, advances the clock to its due time, runs its
  callback (\<open>run_task\<close>) and starts an interval again.
\<close>

fun run_task :: "task \<Rightarrow> world \<Rightarrow> world" where
  "run_task TFetchMarketData w = fetchMarketData Standalone w"
| "run_task TFetchTrendingTopics w = fetchTrendingTopics w"
| "run_task TFetchMarketAlerts w = fetchMarketAlerts w"
| "run_task TFetchReadingList w = fetchReadingList w"
| "run_task TFetchInstitutionalData w = fetchInstitutionalData w"
| "run_task TFetchPolicyUpdates w = fetchPolicyUpdates w"
| "run_task TFetchLiveStreams w = fetchLiveStreams ''all'' w"
| "run_task TKeepAlive w = keepAlive w"
| "run_task TFetchAdminStats w = fetchAdminStats w"

definition loadCriticalData :: "world \<Rightarrow> world" where
  "loadCriticalData w = fetchMarketData CriticalChain w"

definition secondary_schedule :: "(nat \<times> task) list" where
  "secondary_schedule =
     [(1000, TFetchTrendingTopics), (1500, TFetchMarketAlerts), (2000, TFetchReadingList),
      (2500, TFetchInstitutionalData), (3000, TFetchPolicyUpdates), (3500, TFetchLiveStreams)]"

definition loadSecondaryData :: "world \<Rightarrow> world" where
  "loadSecondaryData w = fold (\<lambda>(d, f). start_timeout d f) secondary_schedule w"

definition refresh_intervals :: "(nat \<times> task) list" where
  "refresh_intervals =
     [(60000, TFetchMarketData), (600000, TFetchTrendingTopics), (120000, TFetchMarketAlerts),
      (300000, TKeepAlive)]"

definition start_refresh :: "world \<Rightarrow> world" where
  "start_refresh w = fold (\<lambda>(p, f). start_interval p f) refresh_intervals w"

definition startup_effect :: "world \<Rightarrow> world" where
  "startup_effect w = start_refresh (loadSecondaryData (loadCriticalData w))"

definition startup_cleanup :: "world \<Rightarrow> world" where
  "startup_cleanup w = w\<lparr>sched := fold clear_timer (intervals w) (sched w), intervals := []\<rparr>"

definition view_effect :: "world \<Rightarrow> world" where
  "view_effect w =
     (let v = currentView (st w);
          w1 = fetchArticles (Some (selectedCategory (st w))) w;
          w2 = (if v = Admin then fetchNewsSources (fetchAdminStats w1) else w1)
      in if v = Dashboard then fetchSeoStats w2 else w2)"

definition view_deps :: "world \<Rightarrow> view \<times> string" where
  "view_deps w = (currentView (st w), selectedCategory (st w))"

text \<open>After every handler React re-renders and reruns the view effect if its
  dependencies changed.\<close>

definition commit :: "world \<Rightarrow> world" where
  "commit w = (if mounted w \<and> deps w \<noteq> Some (view_deps w) then (view_effect w)\<lparr>deps := Some (view_deps w)\<rparr> else w)"

definition mount :: "world \<Rightarrow> world" where
  "mount w =
     (let w1 = view_effect (startup_effect w)
      in restore_session (w1\<lparr>mounted := True, deps := Some (view_deps w1)\<rparr>))"

definition unmount :: "world \<Rightarrow> world" where
  "unmount w = (startup_cleanup w)\<lparr>mounted := False\<rparr>"

definition timer_fires :: "world \<Rightarrow> world option" where
  "timer_fires w =
     (case take_due (sched w) of
        None \<Rightarrow> None
      | Some (t, s') \<Rightarrow>
          (let w1 = run_task (tm_task t) (w\<lparr>sched := s', now := max (now w) (tm_due t)\<rparr>)
           in Some (w1\<lparr>sched := rearm t (sched w1)\<rparr>)))"

lemmas effects_defs [handler_defs] = loadCriticalData_def loadSecondaryData_def start_refresh_def
  startup_effect_def startup_cleanup_def view_effect_def commit_def mount_def unmount_def timer_fires_def

section \<open>The world after mounting\<close>

lemma fold_timeouts_frame:
  "st (fold (\<lambda>(d, f). start_timeout d f) xs w) = st w \<and> pending (fold (\<lambda>(d, f). start_timeout d f) xs w) = pending w
   \<and> sent (fold (\<lambda>(d, f). start_timeout d f) xs w) = sent w \<and> store (fold (\<lambda>(d, f). start_timeout d f) xs w) = store w
   \<and> next_rid (fold (\<lambda>(d, f). start_timeout d f) xs w) = next_rid w \<and> api (fold (\<lambda>(d, f). start_timeout d f) xs w) = api w
   \<and> intervals (fold (\<lambda>(d, f). start_timeout d f) xs w) = intervals w \<and> now (fold (\<lambda>(d, f). start_timeout d f) xs w) = now w"
  by (induction xs arbitrary: w) auto

lemmas mount_unfold = mount_def view_effect_def startup_effect_def start_refresh_def loadSecondaryData_def
      loadCriticalData_def fetchMarketData_def fetchArticles_def fetchSeoStats_def boot_def app_init_def
      refresh_intervals_def secondary_schedule_def articles_url_def start_interval_def set_interval_def
      set_timeout_def sched_init_def view_deps_def Let_def

lemma mount_boot:
  "sent (mount (boot a s t log)) = log @ [axios_get Status2xx (a @ ''/market-data'') [] [],
      axios_get StatusBelow500 (a @ ''/articles?limit=20'') [] article_headers, axios_get Status2xx (a @ ''/seo-stats'') [] []]"
  "pending (mount (boot a s t log)) = [(0, axios_get Status2xx (a @ ''/market-data'') [] [], KMarketData CriticalChain),
      (1, axios_get StatusBelow500 (a @ ''/articles?limit=20'') [] article_headers, KArticles),
      (2, axios_get Status2xx (a @ ''/seo-stats'') [] [], KSeoStats)]"
  "next_rid (mount (boot a s t log)) = 3"
  "intervals (mount (boot a s t log)) = [7, 8, 9, 10]"
  "tq (sched (mount (boot a s t log))) =
     [\<lparr>tm_id = 1, tm_due = t + 1000, tm_period = None, tm_task = TFetchTrendingTopics\<rparr>,
      \<lparr>tm_id = 2, tm_due = t + 1500, tm_period = None, tm_task = TFetchMarketAlerts\<rparr>,
      \<lparr>tm_id = 3, tm_due = t + 2000, tm_period = None, tm_task = TFetchReadingList\<rparr>,
      \<lparr>tm_id = 4, tm_due = t + 2500, tm_period = None, tm_task = TFetchInstitutionalData\<rparr>,
      \<lparr>tm_id = 5, tm_due = t + 3000, tm_period = None, tm_task = TFetchPolicyUpdates\<rparr>,
      \<lparr>tm_id = 6, tm_due = t + 3500, tm_period = None, tm_task = TFetchLiveStreams\<rparr>,
      \<lparr>tm_id = 7, tm_due = t + 60000, tm_period = Some 60000, tm_task = TFetchMarketData\<rparr>,
      \<lparr>tm_id = 8, tm_due = t + 600000, tm_period = Some 600000, tm_task = TFetchTrendingTopics\<rparr>,
      \<lparr>tm_id = 9, tm_due = t + 120000, tm_period = Some 120000, tm_task = TFetchMarketAlerts\<rparr>,
      \<lparr>tm_id = 10, tm_due = t + 300000, tm_period = Some 300000, tm_task = TKeepAlive\<rparr>]"
  "tm_next (sched (mount (boot a s t log))) = 11"
  "isAuthenticated (st (mount (boot a s t log))) = truthy_str (s token_key)"
  "store (mount (boot a s t log)) = s"
  "mounted (mount (boot a s t log))"
  "deps (mount (boot a s t log)) = Some (Dashboard, ''all'')"
  "api (mount (boot a s t log)) = a" "now (mount (boot a s t log)) = t"
  "lang (mount (boot a s t log)) = initial_language s" "alerts (mount (boot a s t log)) = []"
  "\<not> langMenuOpen (mount (boot a s t log))" "clipboard (mount (boot a s t log)) = None"
  "st (mount (boot a s t log)) = app_init\<lparr>loading := True, marketLoading := True, isAuthenticated := truthy_str (s token_key)\<rparr>"
  by (simp_all add: mount_unfold fold_timeouts_frame restore_session_def get_token_def upd_def)

lemma commit_same: "deps w = Some (view_deps w) \<Longrightarrow> commit w = w"
  by (simp add: commit_def)

lemma view_effect_simps [simp]: "view_deps (view_effect w) = view_deps w" "mounted (view_effect w) = mounted w"
  "api (view_effect w) = api w" "store (view_effect w) = store w" "now (view_effect w) = now w"
  "sched (view_effect w) = sched w" "lang (view_effect w) = lang w" "intervals (view_effect w) = intervals w"
  "isAuthenticated (st (view_effect w)) = isAuthenticated (st w)"
  "langMenuOpen (view_effect w) = langMenuOpen w" "clipboard (view_effect w) = clipboard w"
  by (simp_all add: view_effect_def view_deps_def Let_def handler_defs)

lemma view_deps_deps_upd [simp]: "view_deps (w\<lparr>deps := d\<rparr>) = view_deps w"
  by (simp add: view_deps_def)

lemma commit_simps [simp]:
  "view_deps (commit w) = view_deps w" "mounted (commit w) = mounted w"
  "api (commit w) = api w" "store (commit w) = store w" "now (commit w) = now w"
  "sched (commit w) = sched w" "lang (commit w) = lang w" "intervals (commit w) = intervals w"
  "isAuthenticated (st (commit w)) = isAuthenticated (st w)"
  "langMenuOpen (commit w) = langMenuOpen w" "clipboard (commit w) = clipboard w"
  "mounted w \<Longrightarrow> deps (commit w) = Some (view_deps w)"
  by (simp_all add: commit_def)

lemma commit_view_fields [simp]:
  "currentView (st (commit w)) = currentView (st w)" "selectedCategory (st (commit w)) = selectedCategory (st w)"
  using commit_simps(1) [of w] by (simp_all only: view_deps_def prod.inject)

section \<open>Properties of the start-up orchestration\<close>

text \<open>C4. On a page load the client sends exactly three requests, in this order: the
  market snapshot (awaited by the critical tier), the unscoped articles (the view
  effect's first run) and the SEO statistics; the critical tier's own articles fetch
  has not been sent yet.\<close>

theorem mount_request_order:
  "sent (mount (boot a s t log)) = log @ [axios_get Status2xx (a @ ''/market-data'') [] [],
      axios_get StatusBelow500 (a @ ''/articles?limit=20'') [] article_headers, axios_get Status2xx (a @ ''/seo-stats'') [] []] \<and>
   map (\<lambda>p. snd (snd p)) (pending (mount (boot a s t log))) = [KMarketData CriticalChain, KArticles, KSeoStats]"
  by (simp add: mount_boot)


text \<open>C6. The start-up effect schedules the secondary tier as six one-shot timeouts at
  1000, 1500, 2000, 2500, 3000 and 3500 ms after the page load (trending topics, alerts,
  reading list, institutional data, policy updates, live streams) and the refresh tier
  as four intervals (market data every 60 s, trending topics every 600 s, alerts every
  120 s, keep-alive every 300 s), whose ids the cleanup keeps.\<close>

theorem mount_schedule:
  "map (\<lambda>x. (tm_due x, tm_period x, tm_task x)) (tq (sched (mount (boot a s t log)))) =
     [(t + 1000, None, TFetchTrendingTopics), (t + 1500, None, TFetchMarketAlerts),
      (t + 2000, None, TFetchReadingList), (t + 2500, None, TFetchInstitutionalData),
      (t + 3000, None, TFetchPolicyUpdates), (t + 3500, None, TFetchLiveStreams),
      (t + 60000, Some 60000, TFetchMarketData), (t + 600000, Some 600000, TFetchTrendingTopics),
      (t + 120000, Some 120000, TFetchMarketAlerts), (t + 300000, Some 300000, TKeepAlive)] \<and>
   intervals (mount (boot a s t log)) = map tm_id (drop 6 (tq (sched (mount (boot a s t log)))))"
  by (simp add: mount_boot)

text \<open>C20. Restoring the session on mount trusts the stored token without asking the
  server: the page is authenticated exactly when \<open>localStorage\<close> holds a non-empty
  token, and none of the start-up requests carries credentials.\<close>

theorem restore_trusts_stored_token:
  "isAuthenticated (st (mount (boot a s t log))) = truthy_str (s token_key) \<and>
   map rq_headers (drop (length log) (sent (mount (boot a s t log)))) = [[], article_headers, []]"
  by (simp add: mount_boot axios_get_def)

end
