(* ===== verification/Language.thy ===== *)
theory Language
  imports AppState
begin

text \<open>
  The translation resolver of LanguageContext.js. \<open>translations_obj\<close> is the object \<open>translations\<close> of
  lines 14-182 with its three tables (English, Spanish, Italian) as association lists
  in source order; strings are UTF-8 byte sequences, characters beyond ASCII written as
  their bytes. \<open>translate\<close> is \<open>t\<close> (lines 194-196):
  \<open>translations[currentLanguage]?.[key] || translations.en[key] || key\<close>, where
  \<open>||\<close> skips \<open>undefined\<close> and empty strings. \<open>changeLanguage\<close> (lines 189-192)
  sets the provider's language and persists it in \<open>localStorage\<close> under
  \<open>"preferred-language"\<close>, from which \<^const>\<open>initial_language\<close> reads it at the
  next page load. Members inherited from \<open>Object.prototype\<close> are not modelled: the
  language codes the code can hold are the dropdown's and what storage returns.
\<close>

definition en_table :: "(string \<times> string) list" where
  "en_table = [
    (''dashboard'', ''Dashboard''),
    (''liveNow'', ''Live Now''),
    (''smartMoney'', ''Smart Money''),
    (''policies'', ''Policies''),
    (''about'', ''About''),
    (''admin'', ''Admin''),
    (''privacy'', ''Privacy''),
    (''title'', ''CryptoAI Digest''),
    (''subtitle'', ''All Financial Intelligence in One Place''),
    (''marketClosed'', ''MARKET CLOSED''),
    (''live'', ''LIVE''),
    (''financialDataUpdates'', ''Financial data updates every 30 seconds''),
    (''aiNewsEvery'', ''AI news every 15 minutes''),
    (''allNews'', ''All News''),
    (''finance'', ''Finance''),
    (''cryptocurrency'', ''Cryptocurrency''),
    (''policyUpdates'', ''Policy Updates''),
    (''read'', ''Read''),
    (''share'', ''Share''),
    (''refresh'', ''Refresh''),
    (''loading'', ''Loading''),
    (''loadingNews'', ''Loading latest financial news...''),
    (''liveFinancialStreams'', [CHR 0xF0, CHR 0x9F, CHR 0x93, CHR 0xA1] @ '' Live Financial Streams''),
    (''liveDescription'', ''Watch live financial news, market analysis, and crypto events as they happen''),
    (''noLiveStreams'', ''No Live Streams''),
    (''noStreamsDescription'', ''No live financial streams are currently available. Check back soon!''),
    (''refreshStreams'', ''Refresh Streams''),
    (''smartMoneyTracker'', ''Smart Money Tracker''),
    (''smartMoneyDescription'', ''Follow the moves of major investment funds, hedge funds, and institutional investors''),
    (''quickLinks'', ''Quick Links''),
    (''contact'', ''Contact''),
    (''generalInquiries'', ''General Inquiries:''),
    (''updates'', ''Updates:''),
    (''liveUpdated'', ''Live '' @ [CHR 0xE2, CHR 0x80, CHR 0xA2] @ '' Updated every 15 minutes''),
    (''language'', ''Language''),
    (''english'', ''English''),
    (''spanish'', ''Spanish''),
    (''italian'', ''Italian'')]"

definition es_table :: "(string \<times> string) list" where
  "es_table = [
    (''dashboard'', ''Panel''),
    (''liveNow'', ''En Vivo''),
    (''smartMoney'', ''Dinero Inteligente''),
    (''policies'', ''Pol'' @ [CHR 0xC3, CHR 0xAD] @ ''ticas''),
    (''about'', ''Acerca de''),
    (''admin'', ''Admin''),
    (''privacy'', ''Privacidad''),
    (''title'', ''CryptoAI Digest''),
    (''subtitle'', ''Toda la Inteligencia Financiera en Un Lugar''),
    (''marketClosed'', ''MERCADO CERRADO''),
    (''live'', ''EN VIVO''),
    (''financialDataUpdates'', ''Datos financieros actualizados cada 30 segundos''),
    (''aiNewsEvery'', ''Noticias IA cada 15 minutos''),
    (''allNews'', ''Todas las Noticias''),
    (''finance'', ''Finanzas''),
    (''cryptocurrency'', ''Criptomonedas''),
    (''policyUpdates'', ''Actualizaciones de Pol'' @ [CHR 0xC3, CHR 0xAD] @ ''ticas''),
    (''read'', ''Leer''),
    (''share'', ''Compartir''),
    (''refresh'', ''Actualizar''),
    (''loading'', ''Cargando''),
    (''loadingNews'', ''Cargando las '' @ [CHR 0xC3, CHR 0xBA] @ ''ltimas noticias financieras...''),
    (''liveFinancialStreams'', [CHR 0xF0, CHR 0x9F, CHR 0x93, CHR 0xA1] @ '' Transmisiones Financieras en Vivo''),
    (''liveDescription'', ''Ve noticias financieras en vivo, an'' @ [CHR 0xC3, CHR 0xA1] @ ''lisis de mercado y eventos crypto mientras suceden''),
    (''noLiveStreams'', ''Sin Transmisiones en Vivo''),
    (''noStreamsDescription'', ''No hay transmisiones financieras en vivo disponibles. '' @ [CHR 0xC2, CHR 0xA1] @ ''Vuelve pronto!''),
    (''refreshStreams'', ''Actualizar Transmisiones''),
    (''smartMoneyTracker'', ''Rastreador de Dinero Inteligente''),
    (''smartMoneyDescription'', ''Sigue los movimientos de fondos de inversi'' @ [CHR 0xC3, CHR 0xB3] @ ''n, hedge funds e inversores institucionales''),
    (''quickLinks'', ''Enlaces R'' @ [CHR 0xC3, CHR 0xA1] @ ''pidos''),
    (''contact'', ''Contacto''),
    (''generalInquiries'', ''Consultas Generales:''),
    (''updates'', ''Actualizaciones:''),
    (''liveUpdated'', ''En Vivo '' @ [CHR 0xE2, CHR 0x80, CHR 0xA2] @ '' Actualizado cada 15 minutos''),
    (''language'', ''Idioma''),
    (''english'', ''Ingl'' @ [CHR 0xC3, CHR 0xA9] @ ''s''),
    (''spanish'', ''Espa'' @ [CHR 0xC3, CHR 0xB1] @ ''ol''),
    (''italian'', ''Italiano'')]"

definition it_table :: "(string \<times> string) list" where
  "it_table = [
    (''dashboard'', ''Dashboard''),
    (''liveNow'', ''Live Ora''),
    (''smartMoney'', ''Smart Money''),
    (''policies'', ''Politiche''),
    (''about'', ''Chi Siamo''),
    (''admin'', ''Admin''),
    (''privacy'', ''Privacy''),
    (''title'', ''CryptoAI Digest''),
    (''subtitle'', ''Tutta l'' @ [CHR 0x27] @ ''Intelligenza Finanziaria in Un Posto''),
    (''marketClosed'', ''MERCATO CHIUSO''),
    (''live'', ''LIVE''),
    (''financialDataUpdates'', ''Dati finanziari aggiornati ogni 30 secondi''),
    (''aiNewsEvery'', ''Notizie AI ogni 15 minuti''),
    (''allNews'', ''Tutte le Notizie''),
    (''finance'', ''Finanza''),
    (''cryptocurrency'', ''Criptovalute''),
    (''policyUpdates'', ''Aggiornamenti Politiche''),
    (''read'', ''Leggi''),
    (''share'', ''Condividi''),
    (''refresh'', ''Aggiorna''),
    (''loading'', ''Caricamento''),
    (''loadingNews'', ''Caricamento ultime notizie finanziarie...''),
    (''liveFinancialStreams'', [CHR 0xF0, CHR 0x9F, CHR 0x93, CHR 0xA1] @ '' Streaming Finanziari Live''),
    (''liveDescription'', ''Guarda notizie finanziarie live, analisi di mercato ed eventi crypto mentre accadono''),
    (''noLiveStreams'', ''Nessuno Streaming Live''),
    (''noStreamsDescription'', ''Nessuno streaming finanziario live disponibile al momento. Torna presto!''),
    (''refreshStreams'', ''Aggiorna Streaming''),
    (''smartMoneyTracker'', ''Tracker Smart Money''),
    (''smartMoneyDescription'', ''Segui le mosse di fondi di investimento, hedge fund e investitori istituzionali''),
    (''quickLinks'', ''Link Rapidi''),
    (''contact'', ''Contatti''),
    (''generalInquiries'', ''Richieste Generali:''),
    (''updates'', ''Aggiornamenti:''),
    (''liveUpdated'', ''Live '' @ [CHR 0xE2, CHR 0x80, CHR 0xA2] @ '' Aggiornato ogni 15 minuti''),
    (''language'', ''Lingua''),
    (''english'', ''Inglese''),
    (''spanish'', ''Spagnolo''),
    (''italian'', ''Italiano'')]"


definition translations_obj :: "(string \<times> (string \<times> string) list) list" where
  "translations_obj = [(''en'', en_table), (''es'', es_table), (''it'', it_table)]"

definition lookup_translation :: "string \<Rightarrow> string \<Rightarrow> string option" where
  "lookup_translation l k = (case map_of translations_obj l of None \<Rightarrow> None | Some tb \<Rightarrow> map_of tb k)"

definition translate :: "string \<Rightarrow> string \<Rightarrow> string" where
  "translate l k = js_or (lookup_translation l k) (js_or (lookup_translation ''en'' k) k)"

definition changeLanguage :: "string \<Rightarrow> world \<Rightarrow> world" where
  "changeLanguage c w = w\<lparr>lang := c, store := (store w)(''preferred-language'' \<mapsto> c)\<rparr>"

definition availableLanguages :: "(string \<times> string \<times> string) list" where
  "availableLanguages =
     [(''en'', ''English'', [CHR 0xF0, CHR 0x9F, CHR 0x87, CHR 0xBA] @ [CHR 0xF0, CHR 0x9F, CHR 0x87, CHR 0xB8]),
      (''es'', ''Espa'' @ [CHR 0xC3, CHR 0xB1] @ ''ol'', [CHR 0xF0, CHR 0x9F, CHR 0x87, CHR 0xAA] @ [CHR 0xF0, CHR 0x9F, CHR 0x87, CHR 0xB8]),
      (''it'', ''Italiano'', [CHR 0xF0, CHR 0x9F, CHR 0x87, CHR 0xAE] @ [CHR 0xF0, CHR 0x9F, CHR 0x87, CHR 0xB9])]"

text \<open>The context value the provider hands down (lines 198-207) and \<open>useLanguage\<close>
  (lines 5-11), which throws when a component reads the context outside a
  \<open>LanguageProvider\<close>: \<open>useContext\<close> then returns the default of
  \<open>createContext()\<close>, \<open>undefined\<close>.\<close>

record language_ctx =
  currentLanguage :: string
  ctx_changeLanguage :: "string \<Rightarrow> world \<Rightarrow> world"
  ctx_t :: "string \<Rightarrow> string"
  ctx_availableLanguages :: "(string \<times> string \<times> string) list"

definition provider_value :: "string \<Rightarrow> language_ctx" where
  "provider_value l =
     \<lparr>currentLanguage = l, ctx_changeLanguage = changeLanguage, ctx_t = translate l,
      ctx_availableLanguages = availableLanguages\<rparr>"

definition useLanguage :: "language_ctx option \<Rightarrow> string + language_ctx" where
  "useLanguage c = (case c of None \<Rightarrow> Inl ''useLanguage must be used within a LanguageProvider'' | Some v \<Rightarrow> Inr v)"

section \<open>Properties of the resolver\<close>

text \<open> The resolver never renders an empty label: for any language and any
  non-empty key the result is a non-empty string, the key itself at worst.\<close>

theorem translate_nonempty: "k \<noteq> [] \<Longrightarrow> translate l k \<noteq> []"
  by (simp add: translate_def js_or_nonempty)

theorem translate_nonempty_witness: "translate ''fr'' ''unknownKey'' = ''unknownKey''"
  using translate_nonempty [of "''unknownKey''" "''fr''"] by (simp add: translate_def lookup_translation_def translations_obj_def en_table_def)

text \<open>The language choice survives a reload: \<open>changeLanguage\<close> sets the
  provider's language and the value read back from \<open>localStorage\<close> at the next page
  load is the same language.\<close>

theorem language_roundtrip:
  "c \<noteq> [] \<Longrightarrow> lang (changeLanguage c w) = c \<and> initial_language (store (changeLanguage c w)) = c"
  by (simp add: changeLanguage_def initial_language_def)

theorem language_roundtrip_witness:
  "lang (changeLanguage ''es'' (boot ''api'' Map.empty 0 [])) = ''es'' \<and>
   initial_language (store (changeLanguage ''es'' (boot ''api'' Map.empty 0 []))) = ''es''"
  by (rule language_roundtrip) simp

lemma tables_keys: "map fst es_table = map fst en_table" "map fst it_table = map fst en_table"
  by (simp_all add: es_table_def it_table_def en_table_def)

lemma tables_values: "\<forall>v \<in> snd ` set en_table. v \<noteq> []" "\<forall>v \<in> snd ` set es_table. v \<noteq> []" "\<forall>v \<in> snd ` set it_table. v \<noteq> []"
  by (simp_all add: es_table_def it_table_def en_table_def)

text \<open>The tables (all with the English keys) have no repeated key, so the first binding that \<^const>\<open>map_of\<close>
  finds is the one the object literal keeps.\<close>

lemma tables_distinct: "distinct (map fst en_table)"
  by (simp add: en_table_def)

lemma table_complete:
  assumes "map fst tb = map fst en_table" "\<forall>v \<in> snd ` set tb. v \<noteq> []" "k \<in> fst ` set en_table"
  shows "\<exists>v. map_of tb k = Some v \<and> v \<noteq> []"
proof -
  have "k \<in> fst ` set tb" using assms(1,3) by (metis list.set_map)
  then obtain v where v: "map_of tb k = Some v" by (cases "map_of tb k") (auto simp: map_of_eq_None_iff)
  then have "v \<in> snd ` set tb" by (auto dest: map_of_SomeD intro: rev_image_eqI)
  with v assms(2) show ?thesis by blast
qed

text \<open>C22. The three tables are complete: every selectable language has its own
  non-empty translation of every key of the English table, so no label of a
  supported language falls back to English or to the key.\<close>

theorem translations_complete:
  assumes "l \<in> fst ` set availableLanguages" "k \<in> fst ` set en_table"
  shows "\<exists>v. lookup_translation l k = Some v \<and> v \<noteq> [] \<and> translate l k = v"
proof -
  have "l = ''en'' \<or> l = ''es'' \<or> l = ''it''" using assms(1) by (auto simp: availableLanguages_def)
  then obtain tb where tb: "map_of translations_obj l = Some tb" "map fst tb = map fst en_table"
      "\<forall>v \<in> snd ` set tb. v \<noteq> []"
    using tables_keys tables_values by (auto simp: translations_obj_def)
  obtain v where "map_of tb k = Some v" "v \<noteq> []" using table_complete [OF tb(2,3) assms(2)] by blast
  then show ?thesis using tb(1) by (simp add: lookup_translation_def translate_def)
qed

theorem translations_complete_witness:
  "\<exists>v. lookup_translation ''it'' ''dashboard'' = Some v \<and> v \<noteq> [] \<and> translate ''it'' ''dashboard'' = v"
  by (rule translations_complete) (simp_all add: availableLanguages_def en_table_def)

end
