(* ===== verification/Browser.thy ===== *)
theory Browser
  imports Language
begin

text \<open>
  The parts of App.js that act on the browser rather than on \<open>AppContent\<close>'s
  state. \<open>LanguageDropdown\<close> (lines 36-74) keeps its own \<open>isOpen\<close> state
  (\<open>langMenuOpen\<close> of the world): its button toggles it, and choosing a language
  calls \<open>changeLanguage\<close> and closes it. The component is rendered inside
  \<open>Header\<close>, which \<open>AppContent\<close> defines anew on every render: React sees a new
  component type at each render of \<open>AppContent\<close>, unmounts the old header and
  mounts a fresh one, so the dropdown's state is reset whenever \<open>AppContent\<close>
  renders (\<open>header_remount\<close>). \<open>shareArticle\<close> (lines 201-219) uses
  \<open>navigator.share\<close> when the browser has it, and otherwise writes the article's
  URL to the clipboard without awaiting the write and alerts that it was copied.
  What the browser offers (its origin, the share and clipboard APIs, whether the
  clipboard write is granted) is a \<open>browser\<close> record chosen by the environment.
  \<open>isSlowConnection\<close> (lines 324-330) is defined but never called.
\<close>

section \<open>The language menu\<close>

definition toggle_language_menu :: "world \<Rightarrow> world" where
  "toggle_language_menu w = w\<lparr>langMenuOpen := \<not> langMenuOpen w\<rparr>"

definition choose_language :: "string \<Rightarrow> world \<Rightarrow> world" where
  "choose_language c w = (changeLanguage c w)\<lparr>langMenuOpen := False\<rparr>"

text \<open>\<open>availableLanguages.find(lang => lang.code === currentLanguage)\<close> and the
  flag the button shows, \<open>currentLang?.flag\<close>: nothing when the current language is
  not one of the list.\<close>

definition current_flag :: "string \<Rightarrow> string" where
  "current_flag l = (case find (\<lambda>(c, _, _). c = l) availableLanguages of None \<Rightarrow> '''' | Some (_, _, f) \<Rightarrow> f)"

definition language_menu :: "string \<Rightarrow> bool \<Rightarrow> (string \<times> string \<times> string \<times> bool) list option" where
  "language_menu l op = (if op then Some (map (\<lambda>(c, n, f). (c, f, n, l = c)) availableLanguages) else None)"

text \<open>A render of \<open>AppContent\<close> remounts the header and with it the dropdown. It
  renders when its state or the language of the provider it reads changes; a setter
  called with a new object equal to the old one renders it too, which the model, with
  values compared structurally, does not see: the menu closes at least when the model
  says so.\<close>

definition header_remount :: "world \<Rightarrow> world \<Rightarrow> world" where
  "header_remount w w' = (if st w' \<noteq> st w \<or> lang w' \<noteq> lang w then w'\<lparr>langMenuOpen := False\<rparr> else w')"

section \<open>Sharing an article\<close>

record browser =
  origin :: string
  has_share :: bool
  has_clipboard :: bool
  clipboard_granted :: bool

definition share_message :: string where
  "share_message = ''Article link copied to clipboard!''"

text \<open>The async function never throws to its caller: reading \<open>article.id\<close> on
  \<open>null\<close>, or \<open>navigator.clipboard.writeText\<close> where the browser has no clipboard
  API, rejects its promise and nothing else happens; a rejected or cancelled
  \<open>navigator.share\<close> is caught and logged. The clipboard write is not awaited, so
  the alert is shown whether or not the write is granted.\<close>

definition shareArticle :: "browser \<Rightarrow> json \<Rightarrow> world \<Rightarrow> world" where
  "shareArticle b x w =
     (case get_prop x ''id'' of
        Inl _ \<Rightarrow> w
      | Inr i \<Rightarrow>
          (let url = origin b @ ''/article/'' @ js_string_of i
           in if has_share b then w
              else if \<not> has_clipboard b then w
              else alert share_message (if clipboard_granted b then w\<lparr>clipboard := Some url\<rparr> else w)))"

section \<open>Connection speed\<close>

record connection =
  effectiveType :: "string option"
  saveData :: "bool option"

definition isSlowConnection :: "connection option \<Rightarrow> bool" where
  "isSlowConnection c =
     (case c of None \<Rightarrow> False
      | Some n \<Rightarrow> effectiveType n = Some ''slow-2g'' \<or> effectiveType n = Some ''2g'' \<or> saveData n = Some True)"

section \<open>What the browser handlers change\<close>

lemma toggle_language_menu_simps [simp]:
  "st (toggle_language_menu w) = st w" "store (toggle_language_menu w) = store w" "lang (toggle_language_menu w) = lang w"
  "api (toggle_language_menu w) = api w" "now (toggle_language_menu w) = now w" "pending (toggle_language_menu w) = pending w"
  "next_rid (toggle_language_menu w) = next_rid w" "sent (toggle_language_menu w) = sent w" "sched (toggle_language_menu w) = sched w"
  "intervals (toggle_language_menu w) = intervals w" "mounted (toggle_language_menu w) = mounted w" "deps (toggle_language_menu w) = deps w"
  "alerts (toggle_language_menu w) = alerts w" "clipboard (toggle_language_menu w) = clipboard w"
  "langMenuOpen (toggle_language_menu w) = (\<not> langMenuOpen w)"
  by (simp_all add: toggle_language_menu_def)

lemma choose_language_simps [simp]:
  "st (choose_language c w) = st w" "api (choose_language c w) = api w" "now (choose_language c w) = now w"
  "pending (choose_language c w) = pending w" "next_rid (choose_language c w) = next_rid w" "sent (choose_language c w) = sent w"
  "sched (choose_language c w) = sched w" "intervals (choose_language c w) = intervals w" "mounted (choose_language c w) = mounted w"
  "deps (choose_language c w) = deps w" "alerts (choose_language c w) = alerts w" "clipboard (choose_language c w) = clipboard w"
  "langMenuOpen (choose_language c w) = False" "lang (choose_language c w) = c"
  "store (choose_language c w) = (store w)(''preferred-language'' \<mapsto> c)"
  by (simp_all add: choose_language_def changeLanguage_def)

lemma header_remount_simps [simp]:
  "st (header_remount w v) = st v" "store (header_remount w v) = store v" "lang (header_remount w v) = lang v"
  "api (header_remount w v) = api v" "now (header_remount w v) = now v" "pending (header_remount w v) = pending v"
  "next_rid (header_remount w v) = next_rid v" "sent (header_remount w v) = sent v" "sched (header_remount w v) = sched v"
  "intervals (header_remount w v) = intervals v" "mounted (header_remount w v) = mounted v" "deps (header_remount w v) = deps v"
  "alerts (header_remount w v) = alerts v" "clipboard (header_remount w v) = clipboard v"
  by (simp_all add: header_remount_def)

lemma header_remount_closed [simp]: "\<not> langMenuOpen v \<Longrightarrow> header_remount w v = v"
  by (simp add: header_remount_def)

lemma shareArticle_simps [simp]:
  "st (shareArticle b x w) = st w" "store (shareArticle b x w) = store w" "lang (shareArticle b x w) = lang w"
  "api (shareArticle b x w) = api w" "now (shareArticle b x w) = now w" "pending (shareArticle b x w) = pending w"
  "next_rid (shareArticle b x w) = next_rid w" "sent (shareArticle b x w) = sent w" "sched (shareArticle b x w) = sched w"
  "intervals (shareArticle b x w) = intervals w" "mounted (shareArticle b x w) = mounted w" "deps (shareArticle b x w) = deps w"
  "langMenuOpen (shareArticle b x w) = langMenuOpen w"
  by (simp_all add: shareArticle_def alert_def Let_def split: sum.splits)


end
