(* ===== verification/Runtime.thy ===== *)
theory Runtime
  imports Effects Browser
begin

text \<open>
  The event loop of the client. An event is one macrotask: the network settling a
  request in flight (in any order), the earliest timer firing, or a user action on
  something the page renders. Each user action is enabled only where its element is
  rendered (the admin tab and the logout button only when \<open>isAuthenticated\<close>, the
  login button only when it is not, the category filter on the dashboard, the stream
  filter and refresh button on the live view, the modal buttons while their modal
  is shown, the generate button on the admin view) and, for the two forms, only when
  the browser's \<open>required\<close> validation lets them submit. After the handler React
  commits: the view effect reruns if its dependencies changed (\<^const>\<open>commit\<close>),
  and the header is remounted if the component rendered (\<^const>\<open>header_remount\<close>).
  The language menu's entries are enabled while it is open; the share button is on
  every article card of the dashboard, and the browser it runs in is the
  environment's choice. A reload starts a new page on the same \<open>localStorage\<close>
  and clipboard.
\<close>

datatype event =
    Deliver nat net
  | TimerFires
  | Nav view
  | OpenLogin
  | CancelLogin
  | EditUsername string
  | EditPassword string
  | SubmitLogin
  | ForgotPassword
  | EditResetEmail string
  | SubmitReset
  | BackToLogin
  | CancelReset
  | CloseResetDone
  | Logout
  | SelectCategory string
  | SelectStreamCategory string
  | RefreshStreams
  | OpenArticle json
  | CloseArticle
  | GenerateNow
  | ToggleLanguageMenu
  | ChangeLanguage string
  | ShareArticle browser json
  | Reload
  | Unmount

definition article_categories :: "string list" where
  "article_categories = [''all'', ''finance'', ''crypto'']"

definition stream_categories :: "string list" where
  "stream_categories = [''all'', ''finance'', ''crypto'', ''economics'']"

definition guard :: "bool \<Rightarrow> world \<Rightarrow> world option" where
  "guard b w = (if b then Some w else None)"

definition reset_modal_step :: "nat \<Rightarrow> world \<Rightarrow> bool" where
  "reset_modal_step k w \<longleftrightarrow> showPasswordReset (st w) \<and> recoveryStep (st w) = k"

definition listed_article :: "json \<Rightarrow> app_state \<Rightarrow> bool" where
  "listed_article x a \<longleftrightarrow> currentView a = Dashboard \<and> \<not> loading a \<and>
     (case articles a of JArr xs \<Rightarrow> x \<in> set xs | _ \<Rightarrow> False)"

text \<open>A control exists only while the page is mounted: every user action is
  guarded by \<open>mounted\<close> besides the condition under which its element is
  rendered. The network, the clock and the browser's reload act at any time.\<close>

abbreviation ui :: "world \<Rightarrow> bool \<Rightarrow> world \<Rightarrow> world option" where
  "ui w b \<equiv> guard (mounted w \<and> b)"

fun handle :: "world \<Rightarrow> event \<Rightarrow> world option" where
  "handle w (Deliver i n) = deliver i n w"
| "handle w TimerFires = timer_fires w"
| "handle w (Nav v) = ui w (v \<noteq> Admin \<or> isAuthenticated (st w)) (upd (\<lambda>a. a\<lparr>currentView := v\<rparr>) w)"
| "handle w OpenLogin = ui w (\<not> isAuthenticated (st w)) (upd open_login w)"
| "handle w CancelLogin = ui w (showLogin (st w)) (upd cancel_login w)"
| "handle w (EditUsername u) = ui w (showLogin (st w)) (upd (edit_username u) w)"
| "handle w (EditPassword p) = ui w (showLogin (st w)) (upd (edit_password p) w)"
| "handle w SubmitLogin =
     ui w (showLogin (st w) \<and> loginUser (st w) \<noteq> [] \<and> loginPassword (st w) \<noteq> []) (handleLogin w)"
| "handle w ForgotPassword = ui w (showLogin (st w)) (upd forgot_password w)"
| "handle w (EditResetEmail e) = ui w (reset_modal_step 1 w) (upd (edit_reset_email e) w)"
| "handle w SubmitReset = ui w (reset_modal_step 1 w \<and> resetEmail (st w) \<noteq> []) (handlePasswordReset w)"
| "handle w BackToLogin = ui w (reset_modal_step 1 w) (upd back_to_login w)"
| "handle w CancelReset = ui w (reset_modal_step 1 w) (upd cancel_reset w)"
| "handle w CloseResetDone = ui w (reset_modal_step 2 w) (upd close_reset_done w)"
| "handle w Logout = ui w (isAuthenticated (st w)) (handleLogout w)"
| "handle w (SelectCategory c) =
     ui w (currentView (st w) = Dashboard \<and> c \<in> set article_categories) (upd (\<lambda>a. a\<lparr>selectedCategory := c\<rparr>) w)"
| "handle w (SelectStreamCategory c) =
     ui w (currentView (st w) = LiveNow \<and> c \<in> set stream_categories)
       (fetchLiveStreams c (upd (\<lambda>a. a\<lparr>selectedStreamCategory := c\<rparr>) w))"
| "handle w RefreshStreams =
     ui w (currentView (st w) = LiveNow) (fetchLiveStreams (selectedStreamCategory (st w)) w)"
| "handle w (OpenArticle x) = ui w (listed_article x (st w)) (upd (\<lambda>a. a\<lparr>selectedArticle := Some x\<rparr>) w)"
| "handle w CloseArticle = ui w (selectedArticle (st w) \<noteq> None) (upd (\<lambda>a. a\<lparr>selectedArticle := None\<rparr>) w)"
| "handle w GenerateNow = ui w (currentView (st w) = Admin) (triggerArticleGeneration w)"
| "handle w ToggleLanguageMenu = ui w True (toggle_language_menu w)"
| "handle w (ChangeLanguage c) = ui w (langMenuOpen w \<and> c \<in> fst ` set availableLanguages) (choose_language c w)"
| "handle w (ShareArticle b x) = ui w (listed_article x (st w)) (shareArticle b x w)"
| "handle w Reload = Some ((mount (boot (api w) (store w) (now w) (sent w)))\<lparr>clipboard := clipboard w\<rparr>)"
| "handle w Unmount = guard (mounted w) (unmount w)"

definition step :: "world \<Rightarrow> event \<Rightarrow> world option" where
  "step w e = map_option (\<lambda>w'. header_remount w (commit w')) (handle w e)"

fun run :: "world \<Rightarrow> event list \<Rightarrow> world option" where
  "run w [] = Some w"
| "run w (e # es) = (case step w e of None \<Rightarrow> None | Some w' \<Rightarrow> run w' es)"

text \<open>The first page load: the component mounts on the stored data.\<close>

definition page_load :: "string option \<Rightarrow> storage \<Rightarrow> nat \<Rightarrow> world" where
  "page_load env s t = mount (boot (api_of env) s t [])"

inductive reachable :: "world \<Rightarrow> bool" where
  load: "reachable (page_load env s t)"
| step: "reachable w \<Longrightarrow> step w e = Some w' \<Longrightarrow> reachable w'"

section \<open>Handlers that leave the language menu and the clipboard alone\<close>

lemma browser_fields_handlers [simp]:
  "langMenuOpen (fetchArticles c w) = langMenuOpen w" "clipboard (fetchArticles c w) = clipboard w"
  "langMenuOpen (resume_articles n w) = langMenuOpen w" "clipboard (resume_articles n w) = clipboard w"
  "langMenuOpen (resume_articles_fallback n w) = langMenuOpen w" "clipboard (resume_articles_fallback n w) = clipboard w"
  "langMenuOpen (fetchSeoStats w) = langMenuOpen w" "clipboard (fetchSeoStats w) = clipboard w"
  "langMenuOpen (resume_seo n w) = langMenuOpen w" "clipboard (resume_seo n w) = clipboard w"
  "langMenuOpen (fetchMarketData cl w) = langMenuOpen w" "clipboard (fetchMarketData cl w) = clipboard w"
  "langMenuOpen (resume_market cl n w) = langMenuOpen w" "clipboard (resume_market cl n w) = clipboard w"
  "langMenuOpen (fetchLiveStreams sc w) = langMenuOpen w" "clipboard (fetchLiveStreams sc w) = clipboard w"
  "langMenuOpen (resume_streams sc n w) = langMenuOpen w" "clipboard (resume_streams sc n w) = clipboard w"
  "langMenuOpen (resume_streams_fallback n w) = langMenuOpen w" "clipboard (resume_streams_fallback n w) = clipboard w"
  "langMenuOpen (fetchAdminStats w) = langMenuOpen w" "clipboard (fetchAdminStats w) = clipboard w"
  "langMenuOpen (resume_admin_stats n w) = langMenuOpen w" "clipboard (resume_admin_stats n w) = clipboard w"
  "langMenuOpen (fetchNewsSources w) = langMenuOpen w" "clipboard (fetchNewsSources w) = clipboard w"
  "langMenuOpen (resume_news_sources n w) = langMenuOpen w" "clipboard (resume_news_sources n w) = clipboard w"
  "langMenuOpen (triggerArticleGeneration w) = langMenuOpen w" "clipboard (triggerArticleGeneration w) = clipboard w"
  "langMenuOpen (resume_generate n w) = langMenuOpen w" "clipboard (resume_generate n w) = clipboard w"
  "langMenuOpen (keepAlive w) = langMenuOpen w" "clipboard (keepAlive w) = clipboard w"
  "langMenuOpen (handleLogin w) = langMenuOpen w" "clipboard (handleLogin w) = clipboard w"
  "langMenuOpen (resume_login r w) = langMenuOpen w" "clipboard (resume_login r w) = clipboard w"
  "langMenuOpen (handleLogout w) = langMenuOpen w" "clipboard (handleLogout w) = clipboard w"
  "langMenuOpen (handlePasswordReset w) = langMenuOpen w" "clipboard (handlePasswordReset w) = clipboard w"
  "langMenuOpen (unmount w) = langMenuOpen w" "clipboard (unmount w) = clipboard w"
  by (simp_all add: handler_defs Let_def unmount_def startup_cleanup_def
      split: axios_result.splits option.splits sum.splits cont.splits)

lemma browser_fields_resume [simp]:
  "langMenuOpen (resume k n w) = langMenuOpen w" "clipboard (resume k n w) = clipboard w"
  by (cases k; simp)+

lemma browser_fields_run_task [simp]:
  "langMenuOpen (run_task f w) = langMenuOpen w" "clipboard (run_task f w) = clipboard w"
  by (cases f; simp add: handler_defs)+

lemma view_deps_remount [simp]: "view_deps (header_remount w v) = view_deps v"
  by (simp add: view_deps_def)

lemma step_toggle:
  "mounted w \<Longrightarrow> deps w = Some (view_deps w) \<Longrightarrow> step w ToggleLanguageMenu = Some (toggle_language_menu w)"
  by (simp add: step_def guard_def commit_def header_remount_def view_deps_def toggle_language_menu_def)

lemma page_load_fields [simp]:
  "\<not> langMenuOpen (page_load env s t)" "clipboard (page_load env s t) = None" "mounted (page_load env s t)"
  by (simp_all add: page_load_def mount_boot)

end
