(* ===== verification/Invariants.thy ===== *)
theory Invariants
  imports Runtime
begin

text \<open>
  The invariant of every state the page can reach (\<open>reachable\<close> of Runtime):
  the session part \<open>session_ok\<close> (the admin view only when authenticated, the flag
  only with a stored token, a truthy stored token only with the flag) and the timer
  part \<open>intervals_ok\<close> (the table well formed and the interval ids kept by the
  startup effect, \<open>intervalsRef\<close> in App.js lines 384-404, naming exactly its
  periodic timers). Handlers that touch neither part are discharged once through the
  \<open>frame\<close> relation and the \<open>frame_rules\<close> collection; the rest by their own
  lemmas. Rule induction over \<open>reachable\<close> gives \<open>reachable_inv\<close>, from which the
  properties of the last section follow.
\<close>

definition frame :: "world \<Rightarrow> world \<Rightarrow> bool" where
  "frame w w' \<longleftrightarrow> currentView (st w') = currentView (st w) \<and> isAuthenticated (st w') = isAuthenticated (st w) \<and>
     store w' = store w \<and> sched w' = sched w \<and> intervals w' = intervals w"

definition session_ok :: "world \<Rightarrow> bool" where
  "session_ok w \<longleftrightarrow> (currentView (st w) = Admin \<longrightarrow> isAuthenticated (st w)) \<and>
     (isAuthenticated (st w) \<longrightarrow> get_token w \<noteq> None) \<and>
     (truthy_str (get_token w) \<longrightarrow> isAuthenticated (st w))"

definition intervals_ok :: "world \<Rightarrow> bool" where
  "intervals_ok w \<longleftrightarrow> ids_ok (sched w) (intervals w)"

definition inv :: "world \<Rightarrow> bool" where
  "inv w \<longleftrightarrow> session_ok w \<and> intervals_ok w"


lemma frame_refl [frame_rules]: "frame w w"
  by (simp add: frame_def)

lemma frame_trans: "frame w w1 \<Longrightarrow> frame w1 w2 \<Longrightarrow> frame w w2"
  by (simp add: frame_def)

lemma frame_inv: "frame w w' \<Longrightarrow> inv w \<Longrightarrow> inv w'"
  by (simp add: frame_def inv_def session_ok_def intervals_ok_def get_token_def)

lemma frame_send [frame_rules]: "frame w (send r k w)"
  by (simp add: frame_def)

lemma frame_pending [frame_rules]: "frame w (w\<lparr>pending := ps\<rparr>)"
  by (simp add: frame_def)

lemma frame_deps [frame_rules]: "frame w (w\<lparr>deps := d\<rparr>)"
  by (simp add: frame_def)

lemma frame_alert [frame_rules]: "frame w (alert m w)"
  by (simp add: frame_def)

lemma frame_browser [frame_rules]:
  "frame w (toggle_language_menu w)" "frame w (shareArticle b x w)" "frame w (header_remount v w)"
  "frame w (w\<lparr>clipboard := c\<rparr>)"
  by (simp_all add: frame_def)

lemma frame_upd [frame_rules]:
  "(\<And>a. currentView (f a) = currentView a) \<Longrightarrow> (\<And>a. isAuthenticated (f a) = isAuthenticated a) \<Longrightarrow> frame w (upd f w)"
  by (simp add: frame_def)

lemma frame_fetchers [frame_rules]:
  "frame w (fetchArticles c w)" "frame w (resume_articles n w)" "frame w (resume_articles_fallback n w)"
  "frame w (fetchSeoStats w)" "frame w (resume_seo n w)" "frame w (fetchMarketData cl w)"
  "frame w (resume_market cl n w)" "frame w (fetchTrendingTopics w)" "frame w (fetchMarketAlerts w)"
  "frame w (fetchReadingList w)" "frame w (fetchInstitutionalData w)" "frame w (fetchPolicyUpdates w)"
  "frame w (fetchLiveStreams sc w)" "frame w (resume_streams sc n w)" "frame w (resume_streams_fallback n w)"
  "frame w (fetchAdminStats w)" "frame w (fetchNewsSources w)" "frame w (resume_news_sources n w)"
  "frame w (triggerArticleGeneration w)" "frame w (keepAlive w)" "frame w (handleLogin w)"
  by (simp_all add: frame_def handler_defs Let_def split: axios_result.splits option.splits)

lemma frame_handlers [frame_rules]:
  "frame w (handlePasswordReset w)"
  "frame w (fetchLiveStreams c (upd (\<lambda>a. a\<lparr>selectedStreamCategory := c\<rparr>) w))"
  by (simp_all add: frame_def handlePasswordReset_def fetchLiveStreams_def)

lemma frame_view_effect [frame_rules]: "frame w (view_effect w)"
  by (simp add: frame_def view_effect_def Let_def handler_defs)

lemma frame_commit [frame_rules]: "frame w (commit w)"
  by (simp add: frame_def commit_def view_effect_def Let_def handler_defs)

lemma inv_handleLogout: "inv w \<Longrightarrow> inv (handleLogout w)"
  by (simp add: inv_def session_ok_def intervals_ok_def handleLogout_def get_token_def)

lemma inv_resume_login: "inv w \<Longrightarrow> inv (resume_login r w)"
  by (auto simp: inv_def session_ok_def intervals_ok_def resume_login_def get_token_def
      split: axios_result.splits sum.splits)

lemma inv_resume_admin_stats:
  assumes "inv w" shows "inv (resume_admin_stats n w)"
proof (cases "axios_settle Status2xx n")
  case (AxOk s d)
  then have "resume_admin_stats n w = upd (\<lambda>a. a\<lparr>adminStats := d\<rparr>) w"
    by (simp add: resume_admin_stats_def)
  then show ?thesis using frame_inv [OF frame_upd assms] by simp
next
  case (AxErr e)
  show ?thesis
  proof (cases "e = Some 401")
    case True
    have "inv (handleLogout w)" using assms by (rule inv_handleLogout)
    with AxErr True show ?thesis by (simp add: resume_admin_stats_def)
  next
    case False
    with AxErr assms show ?thesis by (simp add: resume_admin_stats_def)
  qed
qed

lemma inv_start_timeout: "inv w \<Longrightarrow> inv (start_timeout d f w)"
  by (simp add: inv_def session_ok_def intervals_ok_def start_timeout_def get_token_def ids_ok_set_timeout)

lemma inv_resume_generate:
  assumes "inv w" shows "inv (resume_generate n w)"
proof -
  have "inv (alert m w)" for m by (rule frame_inv [OF frame_alert assms])
  then show ?thesis
    by (simp add: resume_generate_def inv_start_timeout split: axios_result.splits)
qed

lemma inv_resume: "inv w \<Longrightarrow> inv (resume k n w)"
  by (cases k) (auto intro: frame_inv frame_rules inv_resume_login inv_resume_admin_stats inv_resume_generate)

lemma frame_run_task [frame_rules]: "frame w (run_task f w)"
  by (cases f) (simp_all add: frame_fetchers)

lemma unmount_no_interval: "intervals_ok w \<Longrightarrow> \<not> has_interval (sched (unmount w))"
  by (simp add: intervals_ok_def unmount_def startup_cleanup_def ids_ok_clear_all)

lemma inv_unmount: "inv w \<Longrightarrow> inv (unmount w)"
  by (simp add: inv_def session_ok_def intervals_ok_def unmount_def startup_cleanup_def get_token_def
      ids_ok_clear_all)

lemma inv_mount_boot: "inv (mount (boot a s t log))"
  by (auto simp: inv_def session_ok_def intervals_ok_def mount_boot get_token_def truthy_str_def
      app_init_def ids_ok_def sched_wf_def split: option.splits)

lemma inv_timer_fires:
  assumes "inv w" and "timer_fires w = Some w'"
  shows "inv w'"
proof -
  obtain t s' where td: "take_due (sched w) = Some (t, s')"
    and w': "w' = (let w1 = run_task (tm_task t) (w\<lparr>sched := s', now := max (now w) (tm_due t)\<rparr>)
                  in w1\<lparr>sched := rearm t (sched w1)\<rparr>)"
    using assms(2) by (auto simp: timer_fires_def Let_def split: option.splits)
  let ?u = "w\<lparr>sched := s', now := max (now w) (tm_due t)\<rparr>"
  let ?v = "run_task (tm_task t) ?u"
  have fr: "frame ?u ?v" by (rule frame_run_task)
  have "fire (sched w) = Some (t, rearm t s')" using td by (simp add: fire_def)
  then have "ids_ok (rearm t s') (intervals w)"
    using assms(1) by (auto simp: inv_def intervals_ok_def intro: ids_ok_fire)
  then show ?thesis
    using assms(1) fr w' by (simp add: inv_def session_ok_def intervals_ok_def frame_def get_token_def Let_def)
qed

lemma inv_deliver: "inv w \<Longrightarrow> deliver i n w = Some w' \<Longrightarrow> inv w'"
  by (auto simp: deliver_def split: option.splits intro: inv_resume frame_inv [OF frame_pending])

lemma inv_handle: "inv w \<Longrightarrow> handle w e = Some w' \<Longrightarrow> inv w'"
proof (cases e)
  case (Deliver i n)
  then show "inv w \<Longrightarrow> handle w e = Some w' \<Longrightarrow> inv w'" by (auto intro: inv_deliver)
next
  case TimerFires
  then show "inv w \<Longrightarrow> handle w e = Some w' \<Longrightarrow> inv w'" by (auto intro: inv_timer_fires)
next
  case (Nav v)
  then show "inv w \<Longrightarrow> handle w e = Some w' \<Longrightarrow> inv w'"
    by (auto simp: guard_def inv_def session_ok_def intervals_ok_def get_token_def split: if_splits)
next
  case Logout
  then show "inv w \<Longrightarrow> handle w e = Some w' \<Longrightarrow> inv w'"
    by (auto simp: guard_def intro: inv_handleLogout split: if_splits)
next
  case (ChangeLanguage c)
  then show "inv w \<Longrightarrow> handle w e = Some w' \<Longrightarrow> inv w'"
    by (auto simp: guard_def inv_def session_ok_def intervals_ok_def get_token_def token_key_def
        split: if_splits)
next
  case Reload
  then show "inv w \<Longrightarrow> handle w e = Some w' \<Longrightarrow> inv w'" by (auto intro: inv_mount_boot frame_inv frame_rules)
next
  case Unmount
  then show "inv w \<Longrightarrow> handle w e = Some w' \<Longrightarrow> inv w'" by (auto simp: guard_def intro: inv_unmount split: if_splits)
qed (auto simp: guard_def modal_defs split: if_splits
      intro: frame_inv [OF frame_upd] frame_inv frame_rules frame_trans [OF frame_upd])

lemma inv_step: "inv w \<Longrightarrow> step w e = Some w' \<Longrightarrow> inv w'"
proof -
  assume i: "inv w" and s: "step w e = Some w'"
  then obtain z where h: "handle w e = Some z" and w': "w' = header_remount w (commit z)"
    by (auto simp: step_def)
  have "inv (commit z)" using inv_handle [OF i h] by (rule frame_inv [OF frame_commit])
  then show "inv w'" unfolding w' by (rule frame_inv [OF frame_browser(3)])
qed

lemma reachable_inv: "reachable w \<Longrightarrow> inv w"
proof (induction rule: reachable.induct)
  case (load env s t)
  show ?case by (simp add: page_load_def inv_mount_boot)
next
  case (step w e w')
  show ?case by (rule inv_step [OF step.IH step.hyps(2)])
qed

section \<open>Properties of every reachable state\<close>

text \<open>C2. In every state the page can reach, the admin view is shown only to an
  authenticated session: the navigation entry is rendered only when
  \<open>isAuthenticated\<close> holds, and every way of clearing the flag also leaves the
  admin view.\<close>

theorem admin_view_requires_auth:
  "reachable w \<Longrightarrow> currentView (st w) = Admin \<Longrightarrow> isAuthenticated (st w)"
  by (drule reachable_inv) (simp add: inv_def session_ok_def)

theorem admin_view_requires_auth_witness:
  "reachable (commit (upd (\<lambda>a. a\<lparr>currentView := Admin\<rparr>) (page_load None [''token'' \<mapsto> ''abc''] 0))) \<and>
   currentView (st (commit (upd (\<lambda>a. a\<lparr>currentView := Admin\<rparr>) (page_load None [''token'' \<mapsto> ''abc''] 0)))) = Admin \<and>
   isAuthenticated (st (commit (upd (\<lambda>a. a\<lparr>currentView := Admin\<rparr>) (page_load None [''token'' \<mapsto> ''abc''] 0))))"
proof -
  let ?u = "page_load None [''token'' \<mapsto> ''abc''] 0"
  let ?w = "commit (upd (\<lambda>a. a\<lparr>currentView := Admin\<rparr>) ?u)"
  have "isAuthenticated (st ?u)" by (simp add: page_load_def mount_boot truthy_str_def token_key_def)
  then have "step ?u (Nav Admin) = Some ?w" by (simp add: step_def guard_def)
  then have r: "reachable ?w" by (rule reachable.step [OF reachable.load])
  have v: "currentView (st ?w) = Admin"
    using frame_commit [of "upd (\<lambda>a. a\<lparr>currentView := Admin\<rparr>) ?u"] by (simp add: frame_def)
  show ?thesis using r v admin_view_requires_auth [OF r v] by blast
qed

text \<open>C3. In every reachable state the session flag and the stored token agree: an
  authenticated session has a token in \<open>localStorage\<close>, and a truthy stored token
  means the session is authenticated.\<close>

theorem session_consistent:
  "reachable w \<Longrightarrow> (isAuthenticated (st w) \<longrightarrow> get_token w \<noteq> None) \<and>
     (truthy_str (get_token w) \<longrightarrow> isAuthenticated (st w))"
  by (drule reachable_inv) (simp add: inv_def session_ok_def)

theorem session_consistent_witness:
  "isAuthenticated (st (page_load None [''token'' \<mapsto> ''abc''] 0)) \<and> get_token (page_load None [''token'' \<mapsto> ''abc''] 0) = Some ''abc''"
proof -
  have "truthy_str (get_token (page_load None [''token'' \<mapsto> ''abc''] 0))"
    by (simp add: page_load_def mount_boot get_token_def token_key_def truthy_str_def)
  then show ?thesis
    using session_consistent [OF reachable.load [of None "[''token'' \<mapsto> ''abc'']" 0]]
    by (simp add: page_load_def mount_boot get_token_def token_key_def)
qed

text \<open>C7. Unmounting the page (the cleanup of the startup effect) stops every
  interval, so no periodic refresh outlives the component; the one-shot timeouts of
  the secondary tier are not cleared and stay in the table.\<close>

theorem unmount_clears_intervals:
  "reachable w \<Longrightarrow> \<not> has_interval (sched (unmount w)) \<and> intervals (unmount w) = [] \<and>
     filter (\<lambda>x. tm_period x = None) (tq (sched (unmount w))) = filter (\<lambda>x. tm_period x = None) (tq (sched w))"
proof -
  assume "reachable w"
  then have "ids_ok (sched w) (intervals w)" by (auto dest: reachable_inv simp: inv_def intervals_ok_def)
  then show ?thesis by (simp add: unmount_def startup_cleanup_def ids_ok_clear_all fold_clear_keeps_timeouts)
qed

theorem unmount_clears_intervals_witness:
  "\<not> has_interval (sched (unmount (page_load None Map.empty 0))) \<and> intervals (unmount (page_load None Map.empty 0)) = [] \<and>
   filter (\<lambda>x. tm_period x = None) (tq (sched (unmount (page_load None Map.empty 0)))) =
   filter (\<lambda>x. tm_period x = None) (tq (sched (page_load None Map.empty 0)))"
  by (rule unmount_clears_intervals [OF reachable.load])

text \<open>C24. In every reachable state the timer table is well formed (ids issued once,
  from one counter) and the interval ids the component keeps are exactly the ids of
  the periodic timers in the table, so the cleanup finds every interval.\<close>

theorem timers_track_intervals:
  "reachable w \<Longrightarrow> sched_wf (sched w) \<and>
     (\<forall>x \<in> set (tq (sched w)). tm_period x \<noteq> None \<longleftrightarrow> tm_id x \<in> set (intervals w))"
  by (drule reachable_inv) (simp add: inv_def intervals_ok_def ids_ok_def)

theorem timers_track_intervals_witness:
  "distinct (map tm_id (tq (sched (page_load None Map.empty 0)))) \<and>
   map tm_id (filter (\<lambda>x. tm_period x \<noteq> None) (tq (sched (page_load None Map.empty 0)))) = intervals (page_load None Map.empty 0)"
  using timers_track_intervals [OF reachable.load [of None Map.empty 0]]
  by (simp add: page_load_def mount_boot sched_wf_def)

text \<open>C5. The critical tier's articles fetch is sent only when the market-data request
  settles, whatever its outcome: settling it in the freshly mounted page sends the
  unscoped articles request (\<open>/articles?limit=20\<close>) and nothing else, and the market
  loading flag is cleared.\<close>

theorem critical_articles_after_market:
  "\<exists>w'. step (mount (boot a s t log)) (Deliver 0 n) = Some w' \<and>
     sent w' = sent (mount (boot a s t log)) @ [axios_get StatusBelow500 (a @ ''/articles?limit=20'') [] article_headers] \<and>
     \<not> marketLoading (st w')"
proof -
  let ?w = "mount (boot a s t log)"
  let ?v = "resume (KMarketData CriticalChain) n (?w\<lparr>pending := tl (pending ?w)\<rparr>)"
  have d: "deliver 0 n ?w = Some ?v"
    by (rule deliver_first) (simp_all add: mount_boot)
  have c: "commit ?v = ?v"
    by (rule commit_same)
      (simp add: resume_market_def fetchArticles_def mount_boot view_deps_def app_init_def split: axios_result.split)
  have "sent ?v = sent ?w @ [axios_get StatusBelow500 (a @ ''/articles?limit=20'') [] article_headers] \<and>
        \<not> marketLoading (st ?v)"
    by (simp add: resume_market_def fetchArticles_def articles_url_def mount_boot split: axios_result.split)
  then show ?thesis using d c by (simp add: step_def)
qed

section \<open>Timers after unmounting\<close>

lemma mounted_run_task: "mounted (run_task f w) = mounted w"
  by (cases f) (simp_all add: handler_defs)

lemma commit_unmounted: "\<not> mounted w \<Longrightarrow> commit w = w"
  by (simp add: commit_def)

lemma timer_fires_timeout:
  assumes "\<not> has_interval (sched w)" "tq (sched w) \<noteq> []"
  shows "\<exists>w'. timer_fires w = Some w' \<and> length (tq (sched w')) = length (tq (sched w)) - 1 \<and>
           \<not> has_interval (sched w') \<and> mounted w' = mounted w"
proof -
  obtain t where p: "pick (tq (sched w)) = Some t" using assms(2) by (cases "pick (tq (sched w))") auto
  let ?s = "(sched w)\<lparr>tq := remove1 t (tq (sched w))\<rparr>"
  have td: "take_due (sched w) = Some (t, ?s)" using p by (simp add: take_due_def)
  have t: "t \<in> set (tq (sched w))" using pick_in [OF p] .
  then have np: "tm_period t = None" using assms(1) by (auto simp: has_interval_def)
  let ?w1 = "run_task (tm_task t) (w\<lparr>sched := ?s, now := max (now w) (tm_due t)\<rparr>)"
  have s1: "sched ?w1 = ?s" using frame_run_task [of "w\<lparr>sched := ?s, now := max (now w) (tm_due t)\<rparr>" "tm_task t"]
    by (simp add: frame_def)
  have "timer_fires w = Some (?w1\<lparr>sched := rearm t (sched ?w1)\<rparr>)" using td by (simp add: timer_fires_def Let_def)
  moreover have "length (tq (rearm t (sched ?w1))) = length (tq (sched w)) - 1"
    using s1 np t by (simp add: rearm_def length_remove1)
  moreover have "\<not> has_interval (rearm t (sched ?w1))"
    using s1 np assms(1) by (auto simp: rearm_def has_interval_def dest: subsetD [OF set_remove1_subset])
  ultimately show ?thesis by (simp add: mounted_run_task)
qed

lemma drain_timeouts:
  "\<not> has_interval (sched w) \<Longrightarrow> \<not> mounted w \<Longrightarrow> length (tq (sched w)) = n \<Longrightarrow>
   \<exists>w'. run w (replicate n TimerFires) = Some w' \<and> tq (sched w') = [] \<and> \<not> mounted w'"
proof (induction n arbitrary: w)
  case 0
  then show ?case by simp
next
  case (Suc n)
  then obtain w1 where f: "timer_fires w = Some w1" and l: "length (tq (sched w1)) = n"
    and h: "\<not> has_interval (sched w1)" and m: "mounted w1 = mounted w"
    using timer_fires_timeout [of w] by fastforce
  let ?v = "header_remount w w1"
  have s: "step w TimerFires = Some ?v" using f m Suc.prems(2) by (simp add: step_def commit_unmounted)
  have "\<exists>w'. run ?v (replicate n TimerFires) = Some w' \<and> tq (sched w') = [] \<and> \<not> mounted w'"
    using Suc.IH [of ?v] h l m Suc.prems(2) by simp
  then show ?case using s by simp
qed

text \<open>C29. Once the page is unmounted its timer activity terminates: the cleanup
  leaves only one-shot timeouts, each fires once, and after as many timer events as
  there are timeouts left no timer event is possible any more.\<close>

theorem timers_drain_after_unmount:
  assumes "reachable w"
  shows "\<exists>w'. run (unmount w) (replicate (length (tq (sched (unmount w)))) TimerFires) = Some w' \<and>
              step w' TimerFires = None"
proof -
  have "\<not> has_interval (sched (unmount w))"
    using reachable_inv [OF assms] by (simp add: inv_def unmount_no_interval)
  moreover have "\<not> mounted (unmount w)" by (simp add: unmount_def startup_cleanup_def)
  ultimately obtain w' where "run (unmount w) (replicate (length (tq (sched (unmount w)))) TimerFires) = Some w'"
    and "tq (sched w') = []"
    using drain_timeouts by blast
  moreover have "step w' TimerFires = None"
  proof -
    have "take_due (sched w') = None" using \<open>tq (sched w') = []\<close> by (simp add: take_due_None_iff)
    then show ?thesis by (simp add: step_def timer_fires_def)
  qed
  ultimately show ?thesis by blast
qed

theorem timers_drain_after_unmount_witness:
  "\<exists>w'. run (unmount (page_load None Map.empty 0))
              (replicate (length (tq (sched (unmount (page_load None Map.empty 0))))) TimerFires) = Some w' \<and>
        step w' TimerFires = None"
  by (rule timers_drain_after_unmount [OF reachable.load])

end
