(* ===== verification/Format.thy ===== *)
theory Format
  imports Prelude
begin

text \<open>
  The value formatting the views of App.js rely on: JavaScript truthiness of a
  payload value (for \<open>x && <el/>\<close> and \<open>x || 0\<close>), \<open>toLocaleString()\<close> on
  numbers as the en-US locale prints them (digits grouped by thousands, at most three
  fraction digits rounded half away from zero), and \<open>isMarketOpen\<close> (lines 115-120),
  which reads the UTC hour of the clock. The grouping is a recursion on \<open>n div 1000\<close>
  with its own termination proof; its lemmas show that grouping keeps exactly the
  digits of the number and puts a separator before each group of three from the right. A fraction longer than three digits is rounded on its
  decimal literal; the engine rounds the nearest double, which differs only on exact
  ties.
\<close>

section \<open>Truthiness and number formatting\<close>

definition js_truthy :: "json option \<Rightarrow> bool" where
  "js_truthy v =
     (case v of None \<Rightarrow> False | Some JNull \<Rightarrow> False | Some (JBool b) \<Rightarrow> b | Some (JNum m e) \<Rightarrow> m \<noteq> 0
      | Some (JStr s) \<Rightarrow> s \<noteq> [] | Some (JArr _) \<Rightarrow> True | Some (JObj _) \<Rightarrow> True)"

function group_thousands :: "nat \<Rightarrow> string" where
  "group_thousands n =
     (if n < 1000 then show_nat n else group_thousands (n div 1000) @ '','' @ pad_left 3 (show_nat (n mod 1000)))"
  by pat_completeness auto
termination
  by (relation "measure id") auto

declare group_thousands.simps [simp del]

definition round_half_expand :: "nat \<Rightarrow> nat \<Rightarrow> nat" where
  "round_half_expand a d = (if d \<le> 2 * (a mod d) then a div d + 1 else a div d)"

definition locale_decimal :: "int \<Rightarrow> nat \<Rightarrow> string" where
  "locale_decimal m e =
     (let a = nat \<bar>m\<bar>;
          (q, k) = (if e \<le> 3 then strip_zeros a e else strip_zeros (round_half_expand a (10 ^ (e - 3))) 3);
          sign = (if m < 0 then ''-'' else '''')
      in if k = 0 then sign @ group_thousands q
         else sign @ group_thousands (q div 10 ^ k) @ ''.'' @ pad_left k (show_nat (q mod 10 ^ k)))"

fun locale_string :: "json \<Rightarrow> string"
and locale_join :: "json list \<Rightarrow> string" where
  "locale_string JNull = ''''"
| "locale_string (JBool b) = (if b then ''true'' else ''false'')"
| "locale_string (JNum m e) = locale_decimal m e"
| "locale_string (JStr s) = s"
| "locale_string (JArr xs) = locale_join xs"
| "locale_string (JObj _) = ''[object Object]''"
| "locale_join [] = ''''"
| "locale_join [x] = (if x = JNull then '''' else locale_string x)"
| "locale_join (x # y # ys) = (if x = JNull then '''' else locale_string x) @ '','' @ locale_join (y # ys)"

text \<open>The character of a decimal digit.\<close>

abbreviation dchar :: "nat \<Rightarrow> char" where "dchar d \<equiv> char_of (48 + d)"

section \<open>The market-hours badge\<close>

definition hour_ms :: nat where "hour_ms = 3600000"
definition day_ms :: nat where "day_ms = 86400000"

definition utc_hours :: "nat \<Rightarrow> nat" where
  "utc_hours t = (t div hour_ms) mod 24"

definition isMarketOpen :: "nat \<Rightarrow> bool" where
  "isMarketOpen t = (let h = utc_hours t in 14 \<le> h \<and> h < 21)"

section \<open>Lemmas\<close>

lemma digit_char_not_comma: "(d::nat) < 10 \<Longrightarrow> CHR '','' \<noteq> char_of (48 + d)"
proof
  assume d: "d < 10" and eq: "CHR '','' = char_of (48 + d)"
  have "(of_char (CHR '','') :: nat) = of_char (char_of (48 + d) :: char)"
    using arg_cong [OF eq, of "of_char :: char \<Rightarrow> nat"] .
  with d show False by (simp add: of_char_of)
qed

lemma show_nat_no_comma: "CHR '','' \<notin> set (show_nat n)"
proof (induction n rule: show_nat.induct)
  case (1 n)
  show ?case
  proof (cases "n < 10")
    case True then show ?thesis by (subst show_nat.simps) (simp add: digit_char_not_comma)
  next
    case False
    with "1.IH" show ?thesis by (subst show_nat.simps) (simp add: digit_char_not_comma)
  qed
qed

lemma length_show_nat: "n < 10 ^ k \<Longrightarrow> 0 < k \<Longrightarrow> length (show_nat n) \<le> k"
proof (induction n arbitrary: k rule: show_nat.induct)
  case (1 n)
  show ?case
  proof (cases "n < 10")
    case True then show ?thesis using "1.prems" by (subst show_nat.simps) simp
  next
    case False
    then have "k \<noteq> 1" using "1.prems" by auto
    then obtain j where k: "k = Suc j" and j: "0 < j" using "1.prems" by (cases k) auto
    have "n div 10 < 10 ^ j" using "1.prems"(1) k by (simp add: div_less_iff_less_mult)
    then have "length (show_nat (n div 10)) \<le> j" using "1.IH" False j by simp
    then show ?thesis using False k by (subst show_nat.simps) simp
  qed
qed

lemma length_pad_show: "n < 1000 \<Longrightarrow> length (pad_left 3 (show_nat n)) = 3"
  using length_show_nat [of n 3] by (simp add: pad_left_def)

lemma pad_show_no_comma: "CHR '','' \<notin> set (pad_left k (show_nat n))"
  using show_nat_no_comma [of n] by (auto simp: pad_left_def)

lemma utc_hours_day: "t mod day_ms = hour_ms * utc_hours t + t mod hour_ms"
proof -
  have "day_ms = hour_ms * 24" by (simp add: day_ms_def hour_ms_def)
  then show ?thesis unfolding utc_hours_def using mod_mult2_eq [of t hour_ms 24] by simp
qed

text \<open>Grouping by thousands keeps exactly the digits of the number, and a character
  is a separator exactly when a multiple of four characters, counting it, ends the string.\<close>

lemma show_nat_step: "10 \<le> n \<Longrightarrow> show_nat n = show_nat (n div 10) @ [dchar (n mod 10)]"
  by (subst show_nat.simps) simp

lemma show_nat_thousands:
  "1000 \<le> n \<Longrightarrow> show_nat n = show_nat (n div 1000) @
     [dchar (n mod 1000 div 100), dchar (n mod 100 div 10), dchar (n mod 10)]"
proof -
  assume n: "1000 \<le> n"
  have a: "show_nat n = show_nat (n div 10) @ [dchar (n mod 10)]" using n by (simp add: show_nat_step)
  have b: "show_nat (n div 10) = show_nat (n div 100) @ [dchar (n div 10 mod 10)]"
    using n show_nat_step [of "n div 10"] by (simp add: div_mult2_eq [symmetric])
  have c: "show_nat (n div 100) = show_nat (n div 1000) @ [dchar (n div 100 mod 10)]"
    using n show_nat_step [of "n div 100"] by (simp add: div_mult2_eq [symmetric])
  have "n mod (100 * 10) = 100 * (n div 100 mod 10) + n mod 100" by (rule mod_mult2_eq)
  then have "n div 100 mod 10 = n mod 1000 div 100" by simp
  moreover have "n mod (10 * 10) = 10 * (n div 10 mod 10) + n mod 10" by (rule mod_mult2_eq)
  then have "n div 10 mod 10 = n mod 100 div 10" by simp
  ultimately show ?thesis using a b c by simp
qed

lemma pad_three: "m < 1000 \<Longrightarrow> pad_left 3 (show_nat m) = [dchar (m div 100), dchar (m mod 100 div 10), dchar (m mod 10)]"
proof -
  assume m: "m < 1000"
  consider "m < 10" | "10 \<le> m" "m < 100" | "100 \<le> m" by linarith
  then show ?thesis
  proof cases
    case 1 then show ?thesis by (simp add: pad_left_def show_nat.simps char_of_zero_digit numeral_2_eq_2)
  next
    case 2 then show ?thesis
      using show_nat_step [of m] by (simp add: pad_left_def show_nat.simps char_of_zero_digit)
  next
    case 3
    have f: "m div 100 < 10" "\<not> m div 10 < 10" using m 3 by auto
    have "m mod (10 * 10) = 10 * (m div 10 mod 10) + m mod 10" by (rule mod_mult2_eq)
    then have g: "m div 10 mod 10 = m mod 100 div 10" by simp
    from 3 f g have "show_nat m = [dchar (m div 100), dchar (m mod 100 div 10), dchar (m mod 10)]"
      using m show_nat_step [of m] show_nat_step [of "m div 10"]
      by (simp add: show_nat.simps div_mult2_eq [symmetric] mod_mult2_eq)
    then show ?thesis by (simp add: pad_left_def)
  qed
qed

lemma group_thousands_digits: "filter (\<lambda>c. c \<noteq> CHR '','') (group_thousands n) = show_nat n"
proof (induction n rule: group_thousands.induct)
  case (1 n)
  show ?case
  proof (cases "n < 1000")
    case True
    then show ?thesis using show_nat_no_comma [of n] by (subst group_thousands.simps) (auto intro: filter_True)
  next
    case False
    have "filter (\<lambda>c. c \<noteq> CHR '','') (pad_left 3 (show_nat (n mod 1000))) = pad_left 3 (show_nat (n mod 1000))"
      using pad_show_no_comma [of 3 "n mod 1000"] by (auto intro: filter_True)
    then show ?thesis using "1.IH" False
      by (subst group_thousands.simps) (simp add: show_nat_thousands pad_three mod_mod_cancel)
  qed
qed

lemma small_mod4: "0 < k \<Longrightarrow> k < 4 \<Longrightarrow> (k::nat) mod 4 \<noteq> 0"
  by simp

lemma group_thousands_commas:
  "i < length (group_thousands n) \<Longrightarrow>
   (group_thousands n ! i = CHR '','') = ((length (group_thousands n) - i) mod 4 = 0)"
proof (induction n arbitrary: i rule: group_thousands.induct)
  case (1 n)
  show ?case
  proof (cases "n < 1000")
    case True
    then have g: "group_thousands n = show_nat n" by (subst group_thousands.simps) simp
    have l: "length (show_nat n) \<le> 3" using True length_show_nat [of n 3] by simp
    have i: "i < length (show_nat n)" using "1.prems" g by simp
    have "show_nat n ! i \<noteq> CHR '',''" using nth_mem [OF i] show_nat_no_comma [of n] by auto
    moreover have "(length (show_nat n) - i) mod 4 \<noteq> 0" using i l by (intro small_mod4) simp_all
    ultimately show ?thesis using g by simp
  next
    case False
    let ?g = "group_thousands (n div 1000)"
    let ?p = "pad_left 3 (show_nat (n mod 1000))"
    have g: "group_thousands n = ?g @ CHR '','' # ?p" using False by (subst group_thousands.simps) simp
    have lp: "length ?p = 3" using length_pad_show [of "n mod 1000"] by simp
    have lg: "length (group_thousands n) = length ?g + 4" using g lp by simp
    consider "i < length ?g" | "i = length ?g" | "length ?g < i" by linarith
    then show ?thesis
    proof cases
      case 1
      have "group_thousands n ! i = ?g ! i" using g 1 by (simp add: nth_append)
      moreover have "length (group_thousands n) - i = (length ?g - i) + 4" using lg 1 by simp
      ultimately show ?thesis using "1.IH" [OF False 1] by simp
    next
      case 2
      then show ?thesis using g lg by (simp add: nth_append)
    next
      case 3
      define j where "j = i - length ?g - 1"
      have j: "j < 3" using "1.prems" lg 3 by (simp add: j_def)
      have "group_thousands n ! i = ?p ! j" using g 3 by (simp add: nth_append j_def nth_Cons')
      moreover have "?p ! j \<noteq> CHR '',''"
      proof -
        have "?p ! j \<in> set ?p" by (rule nth_mem) (use j lp in simp)
        then show ?thesis using pad_show_no_comma [of 3 "n mod 1000"] by auto
      qed
      moreover have "(length (group_thousands n) - i) mod 4 \<noteq> 0" using lg 3 j by (intro small_mod4) (simp_all add: j_def)
      ultimately show ?thesis by simp
    qed
  qed
qed

text \<open>C26. The header's market badge (\<open>isMarketOpen\<close>) shows the market open
  exactly in the seven hours from 14:00 to 21:00 UTC of every day, weekends
  included; the comment's 14:30 opening is not what the code checks.\<close>

theorem market_open_window:
  "isMarketOpen t \<longleftrightarrow> 14 * hour_ms \<le> t mod day_ms \<and> t mod day_ms < 21 * hour_ms"
proof -
  have r: "t mod hour_ms < hour_ms" by (simp add: hour_ms_def)
  have "14 * hour_ms \<le> hour_ms * utc_hours t + t mod hour_ms \<longleftrightarrow> 14 \<le> utc_hours t"
    using r by (auto simp: hour_ms_def)
  moreover have "hour_ms * utc_hours t + t mod hour_ms < 21 * hour_ms \<longleftrightarrow> utc_hours t < 21"
    using r by (auto simp: hour_ms_def)
  ultimately show ?thesis by (simp add: isMarketOpen_def utc_hours_day Let_def)
qed

end
