(* ===== verification/Views.thy ===== *)
theory Views
  imports Runtime Format
begin

text \<open>
  What the page renders (App.js lines 473-1619): each view component is a function
  from the language, the clock and \<open>app_state\<close> to the content it shows, or to the
  error its JSX throws while rendering (\<open>Inl\<close>): a property read on \<open>null\<close> or
  \<open>undefined\<close>, \<open>map\<close> or \<open>slice\<close> on a value that lacks it, an object given as
  a React child, an invalid date given to \<open>formatDistanceToNow\<close>. Without an error
  boundary such an error blanks the page. Expressions are evaluated in source order,
  so the first error wins. Texts are what React prints: numbers as
  \<open>Number.prototype.toString\<close>, \<open>null\<close>, \<open>undefined\<close> and booleans as nothing;
  \<open>x && <el/>\<close> prints a falsy \<open>x\<close> itself (\<open>Falsy\<close>). Dates are checked, not
  formatted: \<open>date_ok\<close> is the date parser of the browser, a parameter of the model,
  and the card keeps the value whose distance to now it shows; likewise the value
  printed with \<open>toFixed(2)\<close> and the category printed upper-cased are kept as they
  are. Coercions of non-empty strings to numbers in comparisons are outside the model
  (\<open>Unmodelled\<close>). Static pages (About, Privacy), styling and icons are not modelled.
\<close>

section \<open>Rendering helpers\<close>

datatype render_error = TypeError string | InvalidChild | RangeError | Unmodelled string

type_synonym 'a rendered = "render_error + 'a"

definition bindR :: "'a rendered \<Rightarrow> ('a \<Rightarrow> 'b rendered) \<Rightarrow> 'b rendered" where
  "bindR r f = (case r of Inl e \<Rightarrow> Inl e | Inr x \<Rightarrow> f x)"

fun mapR :: "('a \<Rightarrow> 'b rendered) \<Rightarrow> 'a list \<Rightarrow> 'b list rendered" where
  "mapR f [] = Inr []"
| "mapR f (x # xs) = bindR (f x) (\<lambda>y. bindR (mapR f xs) (\<lambda>ys. Inr (y # ys)))"

fun jsx_child :: "json \<Rightarrow> string rendered"
and jsx_children :: "json list \<Rightarrow> string rendered" where
  "jsx_child JNull = Inr ''''"
| "jsx_child (JBool b) = Inr ''''"
| "jsx_child (JNum m e) = Inr (show_decimal m e)"
| "jsx_child (JStr s) = Inr s"
| "jsx_child (JArr xs) = jsx_children xs"
| "jsx_child (JObj kvs) = Inl InvalidChild"
| "jsx_children [] = Inr ''''"
| "jsx_children (x # xs) = bindR (jsx_child x) (\<lambda>s. bindR (jsx_children xs) (\<lambda>t. Inr (s @ t)))"

definition jsx_text :: "json option \<Rightarrow> string rendered" where
  "jsx_text v = (case v of None \<Rightarrow> Inr '''' | Some j \<Rightarrow> jsx_child j)"

definition utf16_length :: "string \<Rightarrow> nat" where
  "utf16_length s = length (filter (\<lambda>c. of_char c < (128::nat) \<or> 192 \<le> (of_char c :: nat)) s)
     + length (filter (\<lambda>c. 240 \<le> (of_char c :: nat)) s)"

definition dot :: "json option \<Rightarrow> string \<Rightarrow> json option rendered" where
  "dot v k =
     (case v of
        None \<Rightarrow> Inl (TypeError k)
      | Some JNull \<Rightarrow> Inl (TypeError k)
      | Some (JObj kvs) \<Rightarrow> Inr (map_of (rev kvs) k)
      | Some (JArr xs) \<Rightarrow> Inr (if k = ''length'' then Some (jint (int (length xs))) else None)
      | Some (JStr s) \<Rightarrow> Inr (if k = ''length'' then Some (jint (int (utf16_length s))) else None)
      | Some _ \<Rightarrow> Inr None)"

definition js_ge0 :: "json option \<Rightarrow> bool rendered" where
  "js_ge0 v =
     (case v of
        None \<Rightarrow> Inr False | Some JNull \<Rightarrow> Inr True | Some (JBool b) \<Rightarrow> Inr True
      | Some (JNum m e) \<Rightarrow> Inr (0 \<le> m)
      | Some (JStr s) \<Rightarrow> (if s = [] then Inr True else Inl (Unmodelled ''ToNumber''))
      | Some (JArr xs) \<Rightarrow> (if xs = [] then Inr True else Inl (Unmodelled ''ToNumber''))
      | Some (JObj _) \<Rightarrow> Inr False)"

definition js_gt0 :: "json option \<Rightarrow> bool rendered" where
  "js_gt0 v =
     (case v of
        None \<Rightarrow> Inr False | Some JNull \<Rightarrow> Inr False | Some (JBool b) \<Rightarrow> Inr b
      | Some (JNum m e) \<Rightarrow> Inr (0 < m)
      | Some (JStr s) \<Rightarrow> (if s = [] then Inr False else Inl (Unmodelled ''ToNumber''))
      | Some (JArr xs) \<Rightarrow> (if xs = [] then Inr False else Inl (Unmodelled ''ToNumber''))
      | Some (JObj _) \<Rightarrow> Inr False)"

definition js_or_zero :: "json option \<Rightarrow> string rendered" where
  "js_or_zero v = (if js_truthy v then jsx_text v else Inr ''0'')"

datatype 'a guarded = Shown 'a | Falsy string

definition js_and :: "json option \<Rightarrow> 'a rendered \<Rightarrow> 'a guarded rendered" where
  "js_and v r = (if js_truthy v then bindR r (\<lambda>x. Inr (Shown x)) else bindR (jsx_text v) (\<lambda>s. Inr (Falsy s)))"

definition max_time :: int where
  "max_time = 8640000000000000"

definition date_check :: "(string \<Rightarrow> bool) \<Rightarrow> json option \<Rightarrow> json option rendered" where
  "date_check date_ok v =
     (case v of
        None \<Rightarrow> Inl RangeError
      | Some (JNum m e) \<Rightarrow> (if \<bar>m\<bar> \<le> max_time * 10 ^ e then Inr v else Inl RangeError)
      | Some (JStr s) \<Rightarrow> (if date_ok s then Inr v else Inl RangeError)
      | Some (JArr xs) \<Rightarrow> (if date_ok (js_to_string (JArr xs)) then Inr v else Inl RangeError)
      | Some (JObj kvs) \<Rightarrow> (if date_ok (js_to_string (JObj kvs)) then Inr v else Inl RangeError)
      | Some _ \<Rightarrow> Inr v)"

definition locale_of :: "json option \<Rightarrow> string rendered" where
  "locale_of v = (case v of None \<Rightarrow> Inl (TypeError ''toLocaleString'') | Some JNull \<Rightarrow> Inl (TypeError ''toLocaleString'')
                   | Some j \<Rightarrow> Inr (locale_string j))"

section \<open>Header\<close>

record header =
  hd_title :: string
  hd_subtitle :: string
  hd_market :: string
  hd_nav :: "(string \<times> event \<times> bool) list"
  hd_counts :: "string \<times> string"

definition nav_button :: "string \<Rightarrow> string \<Rightarrow> view \<Rightarrow> app_state \<Rightarrow> string \<times> event \<times> bool" where
  "nav_button l k v a = (translate l k, Nav v, currentView a = v)"

definition render_header :: "string \<Rightarrow> nat \<Rightarrow> app_state \<Rightarrow> header rendered" where
  "render_header l t a =
     bindR (dot (Some (seoStats a)) ''total_articles'') (\<lambda>ta. bindR (js_or_zero ta) (\<lambda>tat.
     bindR (dot (Some (seoStats a)) ''articles_today'') (\<lambda>td. bindR (js_or_zero td) (\<lambda>tdt.
     Inr \<lparr>hd_title = translate l ''title'', hd_subtitle = translate l ''subtitle'',
          hd_market = (if isMarketOpen t then ''MARKET OPEN'' else translate l ''marketClosed''),
          hd_nav = [nav_button l ''dashboard'' Dashboard a, nav_button l ''liveNow'' LiveNow a,
                    nav_button l ''smartMoney'' SmartMoney a, nav_button l ''about'' About a,
                    nav_button l ''policies'' Policies a, nav_button l ''privacy'' Privacy a]
                   @ (if \<not> isAuthenticated a then [(translate l ''admin'', OpenLogin, False)]
                      else [nav_button l ''admin'' Admin a])
                   @ (if isAuthenticated a then [(''Logout'', Logout, False)] else []),
          hd_counts = (tat @ '' articles'', tdt @ '' today'')\<rparr>))))"

definition footer_links :: "string \<Rightarrow> (string \<times> event) list" where
  "footer_links l =
     [(translate l ''liveNow'', Nav LiveNow), (translate l ''smartMoneyTracker'', Nav SmartMoney),
      (translate l ''policyUpdates'', Nav Policies), (translate l ''about'', Nav About),
      (translate l ''privacy'', Nav Privacy)]"

section \<open>Dashboard\<close>

record article_card =
  ac_article :: json
  ac_category :: string
  ac_finance :: bool
  ac_source :: "string guarded"
  ac_published :: "json option"
  ac_title :: string
  ac_summary :: string
  ac_tags :: "string list"

definition hash_tag :: "json \<Rightarrow> string rendered" where
  "hash_tag x = bindR (jsx_child x) (\<lambda>s. Inr (''#'' @ s))"

text \<open>\<open>v.slice(0, n).map(f)\<close>: an array is cut to its first \<open>n\<close> elements; a
  string slices to a string, which has no \<open>map\<close>; anything else has no
  \<open>slice\<close>.\<close>

definition slice_map :: "nat option \<Rightarrow> json option \<Rightarrow> (json \<Rightarrow> 'b rendered) \<Rightarrow> 'b list rendered" where
  "slice_map n v f =
     (case v of
        Some (JArr xs) \<Rightarrow> mapR f (case n of None \<Rightarrow> xs | Some k \<Rightarrow> take k xs)
      | Some (JStr _) \<Rightarrow> Inl (TypeError ''map'')
      | _ \<Rightarrow> Inl (TypeError ''slice''))"

definition array_map :: "json \<Rightarrow> (json \<Rightarrow> 'b rendered) \<Rightarrow> 'b list rendered" where
  "array_map v f = (case v of JArr xs \<Rightarrow> mapR f xs | _ \<Rightarrow> Inl (TypeError ''map''))"

definition optional_slice_map :: "nat \<Rightarrow> json option \<Rightarrow> (json \<Rightarrow> 'b rendered) \<Rightarrow> 'b list option rendered" where
  "optional_slice_map n v f =
     (case v of
        None \<Rightarrow> Inr None
      | Some JNull \<Rightarrow> Inr None
      | _ \<Rightarrow> bindR (slice_map (Some n) v f) (\<lambda>ys. Inr (Some ys)))"

definition render_article_card :: "(string \<Rightarrow> bool) \<Rightarrow> json \<Rightarrow> article_card rendered" where
  "render_article_card date_ok x =
     bindR (dot (Some x) ''category'') (\<lambda>c. bindR (jsx_text c) (\<lambda>ct.
     bindR (dot (Some x) ''source_name'') (\<lambda>sn. bindR (js_and sn (jsx_text sn)) (\<lambda>st.
     bindR (dot (Some x) ''published_at'') (\<lambda>p. bindR (date_check date_ok p) (\<lambda>pd.
     bindR (dot (Some x) ''title'') (\<lambda>ti. bindR (jsx_text ti) (\<lambda>tt.
     bindR (dot (Some x) ''summary'') (\<lambda>su. bindR (jsx_text su) (\<lambda>sut.
     bindR (dot (Some x) ''tags'') (\<lambda>tg. bindR (slice_map (Some 3) tg hash_tag) (\<lambda>tags.
     Inr \<lparr>ac_article = x, ac_category = ct, ac_finance = (c = Some (JStr ''finance'')), ac_source = st,
          ac_published = pd, ac_title = tt, ac_summary = sut, ac_tags = tags\<rparr>))))))))))))"

datatype articles_body = DbLoading | DbCards "article_card list" | DbEmpty

definition render_articles :: "(string \<Rightarrow> bool) \<Rightarrow> app_state \<Rightarrow> articles_body rendered" where
  "render_articles date_ok a =
     (if loading a then Inr DbLoading
      else bindR (dot (Some (articles a)) ''length'') (\<lambda>n. bindR (js_gt0 n) (\<lambda>nonempty.
        if nonempty then bindR (array_map (articles a) (render_article_card date_ok)) (\<lambda>cs. Inr (DbCards cs))
        else Inr DbEmpty)))"

record market_row =
  mr_symbol :: string
  mr_name :: string
  mr_price :: string
  mr_up :: bool
  mr_change :: "json option"

definition render_stock :: "json \<Rightarrow> market_row rendered" where
  "render_stock x =
     bindR (dot (Some x) ''symbol'') (\<lambda>sy. bindR (jsx_text sy) (\<lambda>syt.
     bindR (dot (Some x) ''name'') (\<lambda>nm. bindR (jsx_text nm) (\<lambda>nmt.
     bindR (dot (Some x) ''price'') (\<lambda>pr.
     bindR (dot (Some x) ''change_percentage_24h'') (\<lambda>ch. bindR (js_ge0 ch) (\<lambda>up.
     Inr \<lparr>mr_symbol = syt, mr_name = nmt, mr_price = ''$'' @ js_string_of pr, mr_up = up, mr_change = ch\<rparr>)))))))"

definition render_crypto :: "json \<Rightarrow> market_row rendered" where
  "render_crypto x =
     bindR (dot (Some x) ''symbol'') (\<lambda>sy. bindR (jsx_text sy) (\<lambda>syt.
     bindR (dot (Some x) ''name'') (\<lambda>nm. bindR (jsx_text nm) (\<lambda>nmt.
     bindR (dot (Some x) ''price'') (\<lambda>pr. bindR (locale_of pr) (\<lambda>prt.
     bindR (dot (Some x) ''change_percentage_24h'') (\<lambda>ch. bindR (js_ge0 ch) (\<lambda>up.
     Inr \<lparr>mr_symbol = syt, mr_name = nmt, mr_price = ''$'' @ prt, mr_up = up, mr_change = ch\<rparr>))))))))"

datatype stocks_panel = MarketSkeleton nat | MarketRows "market_row list option"

definition render_topic :: "json \<Rightarrow> (string \<times> string) rendered" where
  "render_topic x =
     bindR (dot (Some x) ''topic'') (\<lambda>tp. bindR (jsx_text tp) (\<lambda>tpt.
     bindR (dot (Some x) ''volume'') (\<lambda>vo. bindR (locale_of vo) (\<lambda>vot. Inr (tpt, vot)))))"

text \<open>\<open>[...v.slice(0, 2)]\<close>: an array spreads its first two elements; a string
  would spread its first two UTF-16 code units, which the model does not split.\<close>

definition spread_two :: "json option \<Rightarrow> json list rendered" where
  "spread_two v =
     (case v of
        Some (JArr xs) \<Rightarrow> Inr (take 2 xs)
      | Some (JStr _) \<Rightarrow> Inl (Unmodelled ''string spread'')
      | _ \<Rightarrow> Inl (TypeError ''slice''))"

record dashboard =
  db_tabs :: "(string \<times> event \<times> bool) list"
  db_body :: articles_body
  db_stocks :: stocks_panel
  db_cryptos :: "market_row list option"
  db_trending :: "(string \<times> string) list"
  db_reading :: "string list"

definition dashboard_tabs :: "string \<Rightarrow> app_state \<Rightarrow> (string \<times> event \<times> bool) list" where
  "dashboard_tabs l a =
     map (\<lambda>(k, lk). (translate l lk, SelectCategory k, selectedCategory a = k))
       [(''all'', ''allNews''), (''finance'', ''finance''), (''crypto'', ''cryptocurrency'')]"

definition render_dashboard :: "(string \<Rightarrow> bool) \<Rightarrow> string \<Rightarrow> app_state \<Rightarrow> dashboard rendered" where
  "render_dashboard date_ok l a =
     bindR (render_articles date_ok a) (\<lambda>body.
     bindR (if marketLoading a then Inr (MarketSkeleton 5)
            else bindR (dot (Some (marketData a)) ''stocks'') (\<lambda>sv.
                 bindR (optional_slice_map 5 sv render_stock) (\<lambda>rs. Inr (MarketRows rs)))) (\<lambda>stocks.
     bindR (dot (Some (marketData a)) ''cryptos'') (\<lambda>cv. bindR (optional_slice_map 5 cv render_crypto) (\<lambda>cryptos.
     bindR (array_map (trendingTopics a) render_topic) (\<lambda>trending.
     bindR (dot (Some (readingList a)) ''finance'') (\<lambda>fv. bindR (spread_two fv) (\<lambda>fs.
     bindR (dot (Some (readingList a)) ''crypto'') (\<lambda>cv'. bindR (spread_two cv') (\<lambda>cs.
     bindR (mapR jsx_child (fs @ cs)) (\<lambda>reading.
     Inr \<lparr>db_tabs = dashboard_tabs l a, db_body = body, db_stocks = stocks, db_cryptos = cryptos,
          db_trending = trending, db_reading = reading\<rparr>))))))))))"

section \<open>Live streams\<close>

record stream_card =
  sc_thumbnail :: "json option guarded"
  sc_category :: string
  sc_title :: string
  sc_description :: string
  sc_source :: string
  sc_viewers :: "string guarded"
  sc_started :: "json option"
  sc_tags :: "string list guarded"

text \<open>\<open>stream.category.toUpperCase()\<close> needs a string; the card keeps the
  category string, shown upper-cased.\<close>

definition upper_arg :: "json option \<Rightarrow> string rendered" where
  "upper_arg v = (case v of Some (JStr s) \<Rightarrow> Inr s | _ \<Rightarrow> Inl (TypeError ''toUpperCase''))"

definition render_stream_tags :: "json option \<Rightarrow> string list guarded rendered" where
  "render_stream_tags tg =
     (if \<not> js_truthy tg then bindR (jsx_text tg) (\<lambda>s. Inr (Falsy s))
      else bindR (dot tg ''length'') (\<lambda>n. bindR (js_gt0 n) (\<lambda>nonempty.
        if nonempty then bindR (slice_map (Some 2) tg hash_tag) (\<lambda>ts. Inr (Shown ts)) else Inr (Falsy ''''))))"

definition render_stream_card :: "(string \<Rightarrow> bool) \<Rightarrow> json \<Rightarrow> stream_card rendered" where
  "render_stream_card date_ok x =
     bindR (dot (Some x) ''thumbnail_url'') (\<lambda>th. bindR (js_and th (Inr th)) (\<lambda>tht.
     bindR (dot (Some x) ''category'') (\<lambda>c. bindR (upper_arg c) (\<lambda>ct.
     bindR (dot (Some x) ''title'') (\<lambda>ti. bindR (jsx_text ti) (\<lambda>tt.
     bindR (dot (Some x) ''description'') (\<lambda>de. bindR (jsx_text de) (\<lambda>dt.
     bindR (dot (Some x) ''source_name'') (\<lambda>so. bindR (jsx_text so) (\<lambda>sot.
     bindR (dot (Some x) ''viewers_count'') (\<lambda>vc. bindR (js_and vc (locale_of vc)) (\<lambda>vct.
     bindR (dot (Some x) ''started_at'') (\<lambda>sa. bindR (date_check date_ok sa) (\<lambda>sat.
     bindR (dot (Some x) ''tags'') (\<lambda>tg. bindR (render_stream_tags tg) (\<lambda>tags.
     Inr \<lparr>sc_thumbnail = tht, sc_category = ct, sc_title = tt, sc_description = dt, sc_source = sot,
          sc_viewers = vct, sc_started = sat, sc_tags = tags\<rparr>))))))))))))))))"

definition capitalize :: "string \<Rightarrow> string" where
  "capitalize s = (case s of [] \<Rightarrow> [] | c # cs \<Rightarrow>
     (if 97 \<le> (of_char c :: nat) \<and> (of_char c :: nat) \<le> 122 then char_of (of_char c - (32::nat)) else c) # cs)"

definition category_count :: "string \<Rightarrow> json \<Rightarrow> nat rendered" where
  "category_count c v =
     (case v of
        JArr xs \<Rightarrow> bindR (mapR (\<lambda>x. dot (Some x) ''category'') xs)
                     (\<lambda>cs. Inr (length (filter (\<lambda>y. y = Some (JStr c)) cs)))
      | _ \<Rightarrow> Inl (TypeError ''filter''))"

definition render_stream_tab :: "app_state \<Rightarrow> string \<Rightarrow> (string \<times> string option \<times> event \<times> bool) rendered" where
  "render_stream_tab a c =
     (if c = ''all'' then Inr (capitalize c, None, SelectStreamCategory c, selectedStreamCategory a = c)
      else bindR (category_count c (liveStreams a)) (\<lambda>n.
        Inr (capitalize c, Some (show_nat n), SelectStreamCategory c, selectedStreamCategory a = c)))"

datatype live_body = LvLoading | LvCards "stream_card list"

record live_view =
  lv_tabs :: "(string \<times> string option \<times> event \<times> bool) list"
  lv_body :: live_body
  lv_empty :: "(string \<times> string) option"

definition render_live :: "(string \<Rightarrow> bool) \<Rightarrow> string \<Rightarrow> app_state \<Rightarrow> live_view rendered" where
  "render_live date_ok l a =
     bindR (mapR (render_stream_tab a) stream_categories) (\<lambda>tabs.
     bindR (if liveStreamsLoading a then Inr LvLoading
            else bindR (array_map (liveStreams a) (render_stream_card date_ok)) (\<lambda>cs. Inr (LvCards cs))) (\<lambda>body.
     bindR (dot (Some (liveStreams a)) ''length'') (\<lambda>n.
     Inr \<lparr>lv_tabs = tabs, lv_body = body,
          lv_empty = (if n = Some (jint 0) \<and> \<not> liveStreamsLoading a
                      then Some (translate l ''noLiveStreams'',
                                 if selectedStreamCategory a = ''all'' then translate l ''noStreamsDescription''
                                 else ''No live '' @ selectedStreamCategory a @ '' streams at the moment.'')
                      else None)\<rparr>)))"

section \<open>Smart money, policies and admin\<close>

record holding_row =
  hr_institution :: string
  hr_asset :: string
  hr_amount :: string
  hr_change :: string

definition render_holding :: "json \<Rightarrow> holding_row rendered" where
  "render_holding x =
     bindR (dot (Some x) ''institution'') (\<lambda>i. bindR (jsx_text i) (\<lambda>it.
     bindR (dot (Some x) ''asset'') (\<lambda>as. bindR (jsx_text as) (\<lambda>ast.
     bindR (dot (Some x) ''amount'') (\<lambda>am. bindR (locale_of am) (\<lambda>amt.
     bindR (dot (Some x) ''change'') (\<lambda>ch. bindR (js_ge0 ch) (\<lambda>nonneg. bindR (jsx_text ch) (\<lambda>cht.
     Inr \<lparr>hr_institution = it, hr_asset = ast, hr_amount = amt,
          hr_change = (if nonneg then ''+'' else '''') @ cht @ ''%''\<rparr>)))))))))"

datatype impact = ImpactVeryHigh | ImpactHigh | ImpactOther

definition impact_of :: "json option \<Rightarrow> impact" where
  "impact_of v = (if v = Some (JStr ''Very High'') then ImpactVeryHigh
                  else if v = Some (JStr ''High'') then ImpactHigh else ImpactOther)"

record policy_row =
  pr_title :: string
  pr_country :: string
  pr_impact :: string
  pr_level :: impact

definition render_policy_brief :: "json \<Rightarrow> policy_row rendered" where
  "render_policy_brief x =
     bindR (dot (Some x) ''title'') (\<lambda>ti. bindR (jsx_text ti) (\<lambda>tt.
     bindR (dot (Some x) ''country'') (\<lambda>co. bindR (jsx_text co) (\<lambda>cot.
     bindR (dot (Some x) ''impact'') (\<lambda>im. bindR (jsx_text im) (\<lambda>imt.
     Inr \<lparr>pr_title = tt, pr_country = cot, pr_impact = imt @ '' Impact'', pr_level = impact_of im\<rparr>))))))"

datatype severity = SevHigh | SevMedium | SevOther

record alert_row =
  al_severity :: severity
  al_title :: string
  al_message :: string
  al_time :: "json option"

definition render_alert :: "json \<Rightarrow> alert_row rendered" where
  "render_alert x =
     bindR (dot (Some x) ''severity'') (\<lambda>sv.
     bindR (dot (Some x) ''title'') (\<lambda>ti. bindR (jsx_text ti) (\<lambda>tt.
     bindR (dot (Some x) ''message'') (\<lambda>me. bindR (jsx_text me) (\<lambda>mt.
     bindR (dot (Some x) ''timestamp'') (\<lambda>ts. bindR (date_check (\<lambda>_. False) ts) (\<lambda>tst.
     Inr \<lparr>al_severity = (if sv = Some (JStr ''high'') then SevHigh
                         else if sv = Some (JStr ''medium'') then SevMedium else SevOther),
          al_title = tt, al_message = mt, al_time = tst\<rparr>)))))))"

record smart_view =
  sm_holdings :: "holding_row list"
  sm_policies :: "policy_row list"
  sm_alerts :: "alert_row list"

definition render_smart :: "app_state \<Rightarrow> smart_view rendered" where
  "render_smart a =
     bindR (array_map (institutionalData a) render_holding) (\<lambda>hs.
     bindR (array_map (policyUpdates a) render_policy_brief) (\<lambda>ps.
     bindR (array_map (marketAlerts a) render_alert) (\<lambda>als.
     Inr \<lparr>sm_holdings = hs, sm_policies = ps, sm_alerts = als\<rparr>)))"

record policy_card =
  pc_title :: string
  pc_impact :: string
  pc_level :: impact
  pc_country :: string
  pc_date :: string
  pc_status :: string
  pc_approved :: bool

definition render_policy_card :: "json \<Rightarrow> policy_card rendered" where
  "render_policy_card x =
     bindR (dot (Some x) ''title'') (\<lambda>ti. bindR (jsx_text ti) (\<lambda>tt.
     bindR (dot (Some x) ''impact'') (\<lambda>im. bindR (jsx_text im) (\<lambda>imt.
     bindR (dot (Some x) ''country'') (\<lambda>co. bindR (jsx_text co) (\<lambda>cot.
     bindR (dot (Some x) ''date'') (\<lambda>da. bindR (jsx_text da) (\<lambda>dat.
     bindR (dot (Some x) ''status'') (\<lambda>st. bindR (jsx_text st) (\<lambda>stt.
     Inr \<lparr>pc_title = tt, pc_impact = imt @ '' Impact'', pc_level = impact_of im, pc_country = cot,
          pc_date = dat, pc_status = stt, pc_approved = (st = Some (JStr ''Approved''))\<rparr>))))))))))"

definition render_policies :: "app_state \<Rightarrow> policy_card list rendered" where
  "render_policies a = array_map (policyUpdates a) render_policy_card"

record admin_view =
  ad_stats :: "string list"
  ad_actions :: "event list"
  ad_recent :: "(string \<times> json option) list option"

definition render_recent :: "(string \<Rightarrow> bool) \<Rightarrow> json \<Rightarrow> (string \<times> json option) rendered" where
  "render_recent date_ok x =
     bindR (dot (Some x) ''title'') (\<lambda>ti. bindR (jsx_text ti) (\<lambda>tt.
     bindR (dot (Some x) ''published_at'') (\<lambda>p. bindR (date_check date_ok p) (\<lambda>pd. Inr (tt, pd)))))"

definition stat_text :: "json \<Rightarrow> string \<Rightarrow> string rendered" where
  "stat_text v k = bindR (dot (Some v) k) js_or_zero"

definition render_admin :: "(string \<Rightarrow> bool) \<Rightarrow> app_state \<Rightarrow> admin_view rendered" where
  "render_admin date_ok a =
     bindR (stat_text (adminStats a) ''total_articles'') (\<lambda>s1.
     bindR (stat_text (adminStats a) ''active_sources'') (\<lambda>s2.
     bindR (stat_text (adminStats a) ''total_sources'') (\<lambda>s3.
     bindR (stat_text (seoStats a) ''articles_today'') (\<lambda>s4.
     bindR (dot (Some (adminStats a)) ''recent_articles'') (\<lambda>ra.
     bindR (optional_slice_map 5 ra (render_recent date_ok)) (\<lambda>recent.
     Inr \<lparr>ad_stats = [s1, s2, s3, s4], ad_actions = [GenerateNow, Reload], ad_recent = recent\<rparr>))))))"

section \<open>Modals and the page\<close>

record article_modal =
  am_category :: string
  am_finance :: bool
  am_source :: "string guarded"
  am_published :: "json option"
  am_title :: string
  am_summary :: string
  am_content :: string
  am_attribution :: "string guarded"
  am_tags :: "string list"

definition render_article_modal :: "(string \<Rightarrow> bool) \<Rightarrow> json \<Rightarrow> article_modal rendered" where
  "render_article_modal date_ok x =
     bindR (dot (Some x) ''category'') (\<lambda>c. bindR (jsx_text c) (\<lambda>ct.
     bindR (dot (Some x) ''source_name'') (\<lambda>sn. bindR (js_and sn (jsx_text sn)) (\<lambda>st.
     bindR (dot (Some x) ''published_at'') (\<lambda>p. bindR (date_check date_ok p) (\<lambda>pd.
     bindR (dot (Some x) ''title'') (\<lambda>ti. bindR (jsx_text ti) (\<lambda>tt.
     bindR (dot (Some x) ''summary'') (\<lambda>su. bindR (jsx_text su) (\<lambda>sut.
     bindR (dot (Some x) ''content'') (\<lambda>co. bindR (jsx_text co) (\<lambda>cot.
     bindR (dot (Some x) ''source_attribution'') (\<lambda>sa. bindR (js_and sa (jsx_text sa)) (\<lambda>sat.
     bindR (dot (Some x) ''tags'') (\<lambda>tg. bindR (slice_map None tg hash_tag) (\<lambda>tags.
     Inr \<lparr>am_category = ct, am_finance = (c = Some (JStr ''finance'')), am_source = st, am_published = pd,
          am_title = tt, am_summary = sut, am_content = cot, am_attribution = sat, am_tags = tags\<rparr>))))))))))))))))"

datatype reset_modal = ResetForm string | ResetDone string

definition reset_done_text :: string where
  "reset_done_text = ''Password reset instructions have been sent to info@cryptoaidigest.com. Please check your email and follow the instructions.''"

definition render_reset :: "app_state \<Rightarrow> reset_modal option" where
  "render_reset a =
     (if \<not> showPasswordReset a then None
      else if recoveryStep a = 1 then Some (ResetForm (resetEmail a))
      else if recoveryStep a = 2 then Some (ResetDone reset_done_text) else None)"

datatype view_content =
    VDashboard dashboard | VLive live_view | VSmart smart_view | VPolicies "policy_card list"
  | VAbout | VPrivacy | VAdmin admin_view

definition render_view :: "(string \<Rightarrow> bool) \<Rightarrow> string \<Rightarrow> app_state \<Rightarrow> view_content rendered" where
  "render_view date_ok l a =
     (case currentView a of
        Dashboard \<Rightarrow> bindR (render_dashboard date_ok l a) (\<lambda>d. Inr (VDashboard d))
      | LiveNow \<Rightarrow> bindR (render_live date_ok l a) (\<lambda>d. Inr (VLive d))
      | SmartMoney \<Rightarrow> bindR (render_smart a) (\<lambda>d. Inr (VSmart d))
      | Policies \<Rightarrow> bindR (render_policies a) (\<lambda>d. Inr (VPolicies d))
      | About \<Rightarrow> Inr VAbout
      | Privacy \<Rightarrow> Inr VPrivacy
      | Admin \<Rightarrow> bindR (render_admin date_ok a) (\<lambda>d. Inr (VAdmin d)))"

record page =
  pg_header :: header
  pg_view :: view_content
  pg_footer :: "(string \<times> event) list"
  pg_login :: "(string \<times> string) option"
  pg_reset :: "reset_modal option"
  pg_article :: "article_modal guarded"

definition render_page :: "(string \<Rightarrow> bool) \<Rightarrow> string \<Rightarrow> nat \<Rightarrow> app_state \<Rightarrow> page rendered" where
  "render_page date_ok l t a =
     bindR (render_header l t a) (\<lambda>h.
     bindR (render_view date_ok l a) (\<lambda>v.
     bindR (js_and (selectedArticle a) (render_article_modal date_ok (the (selectedArticle a)))) (\<lambda>am.
     Inr \<lparr>pg_header = h, pg_view = v, pg_footer = footer_links l,
          pg_login = (if showLogin a then Some (loginUser a, loginPassword a) else None),
          pg_reset = render_reset a, pg_article = am\<rparr>)))"

section \<open>Rendering lemmas\<close>

lemma bindR_Inr_iff: "bindR r f = Inr y \<longleftrightarrow> (\<exists>x. r = Inr x \<and> f x = Inr y)"
  by (cases r) (auto simp: bindR_def)

lemma bindR_simps [simp]: "bindR (Inl e) f = Inl e" "bindR (Inr x) f = f x"
  by (simp_all add: bindR_def)

lemma locale_of_count: "locale_of (Some (jint (int n))) = Inr (group_thousands n)"
  by (simp add: locale_of_def locale_decimal_def)

lemma mapR_length: "mapR f xs = Inr ys \<Longrightarrow> length ys = length xs"
  by (induction xs arbitrary: ys) (auto simp: bindR_Inr_iff)

lemma mapR_nth: "mapR f xs = Inr ys \<Longrightarrow> i < length xs \<Longrightarrow> f (xs ! i) = Inr (ys ! i)"
proof (induction xs arbitrary: ys i)
  case (Cons x xs)
  then show ?case by (cases i) (auto simp: bindR_Inr_iff)
qed simp

lemma mapR_set: "mapR f xs = Inr ys \<Longrightarrow> y \<in> set ys \<Longrightarrow> \<exists>x \<in> set xs. f x = Inr y"
  using mapR_nth mapR_length by (metis in_set_conv_nth nth_mem)

lemma slice_map_length: "slice_map (Some k) v f = Inr ys \<Longrightarrow> length ys \<le> k"
  by (auto simp: slice_map_def split: option.splits json.splits dest!: mapR_length)

lemma optional_slice_map_length:
  "optional_slice_map k v f = Inr (Some ys) \<Longrightarrow> length ys \<le> k"
  by (auto simp: optional_slice_map_def bindR_Inr_iff split: option.splits json.splits dest!: slice_map_length)

lemma spread_two_length: "spread_two v = Inr xs \<Longrightarrow> length xs \<le> 2"
  by (auto simp: spread_two_def split: option.splits json.splits)

lemma article_card_tags: "render_article_card d x = Inr c \<Longrightarrow> length (ac_tags c) \<le> 3"
  by (auto simp: render_article_card_def bindR_Inr_iff dest!: slice_map_length)

lemma render_articles_cards:
  "render_articles d a = Inr (DbCards cs) \<Longrightarrow> \<forall>c \<in> set cs. \<exists>x. render_article_card d x = Inr c"
  by (auto simp: render_articles_def bindR_Inr_iff array_map_def split: if_splits json.splits
      dest: mapR_set)

text \<open>C31. The dashboard's lists are bounded whatever the backend sends: at most
  three tags per article card, five stock rows, five crypto rows and four
  recommended readings.\<close>

theorem dashboard_bounds:
  assumes "render_dashboard d l a = Inr db"
  shows "(case db_body db of DbCards cs \<Rightarrow> \<forall>c \<in> set cs. length (ac_tags c) \<le> 3 | _ \<Rightarrow> True) \<and>
         (case db_stocks db of MarketRows (Some rs) \<Rightarrow> length rs \<le> 5 | _ \<Rightarrow> True) \<and>
         (case db_cryptos db of Some rs \<Rightarrow> length rs \<le> 5 | None \<Rightarrow> True) \<and>
         length (db_reading db) \<le> 4"
proof -
  from assms obtain body stocks cryptos tr fs cs reading where
    b: "render_articles d a = Inr body" and
    s: "(if marketLoading a then Inr (MarketSkeleton 5)
         else bindR (dot (Some (marketData a)) ''stocks'') (\<lambda>sv.
              bindR (optional_slice_map 5 sv render_stock) (\<lambda>rs. Inr (MarketRows rs)))) = Inr stocks" and
    c: "\<exists>cv. dot (Some (marketData a)) ''cryptos'' = Inr cv \<and> optional_slice_map 5 cv render_crypto = Inr cryptos" and
    f: "\<exists>fv. dot (Some (readingList a)) ''finance'' = Inr fv \<and> spread_two fv = Inr fs" and
    g: "\<exists>cv. dot (Some (readingList a)) ''crypto'' = Inr cv \<and> spread_two cv = Inr cs" and
    r: "mapR jsx_child (fs @ cs) = Inr reading" and
    db: "db = \<lparr>db_tabs = dashboard_tabs l a, db_body = body, db_stocks = stocks, db_cryptos = cryptos,
               db_trending = tr, db_reading = reading\<rparr>"
    unfolding render_dashboard_def bindR_Inr_iff by blast
  have "case body of DbCards cs \<Rightarrow> \<forall>c \<in> set cs. length (ac_tags c) \<le> 3 | _ \<Rightarrow> True"
    using b by (cases body) (auto dest!: render_articles_cards article_card_tags)
  moreover have "case stocks of MarketRows (Some rs) \<Rightarrow> length rs \<le> 5 | _ \<Rightarrow> True"
    using s by (auto simp: bindR_Inr_iff split: if_splits option.splits stocks_panel.splits
        dest!: optional_slice_map_length)
  moreover have "case cryptos of Some rs \<Rightarrow> length rs \<le> 5 | None \<Rightarrow> True"
    using c by (auto split: option.splits dest!: optional_slice_map_length)
  moreover have "length reading \<le> 4"
    using f g r by (auto dest!: spread_two_length mapR_length)
  ultimately show ?thesis by (simp add: db)
qed

theorem dashboard_bounds_witness:
  "case render_dashboard (\<lambda>_. True) ''en'' app_init of
     Inr db \<Rightarrow> (case db_body db of DbCards cs \<Rightarrow> \<forall>c \<in> set cs. length (ac_tags c) \<le> 3 | _ \<Rightarrow> True) \<and>
         (case db_stocks db of MarketRows (Some rs) \<Rightarrow> length rs \<le> 5 | _ \<Rightarrow> True) \<and>
         (case db_cryptos db of Some rs \<Rightarrow> length rs \<le> 5 | None \<Rightarrow> True) \<and>
         length (db_reading db) \<le> 4
   | Inl _ \<Rightarrow> False"
proof -
  obtain db where "render_dashboard (\<lambda>_. True) ''en'' app_init = Inr db"
    by (simp add: render_dashboard_def render_articles_def app_init_def dot_def js_gt0_def optional_slice_map_def
        slice_map_def array_map_def spread_two_def)
  then show ?thesis using dashboard_bounds [of "\<lambda>_. True" "''en''" app_init] by simp
qed

lemma utf16_length_ascii: "utf16_length (c # cs) > 0 \<or> of_char c \<ge> (128::nat)"
  by (simp add: utf16_length_def)

text \<open>C30. A non-JSON answer below 500 to the articles request (an HTML error
  page, say) is accepted by \<open>validateStatus\<close> and stored as a string: the
  dashboard then calls \<open>map\<close> on a string and the view crashes with a
  \<open>TypeError\<close>, while a JSON error object without \<open>length\<close> only shows the
  empty-list message.\<close>

theorem articles_text_body_crashes:
  assumes "s < 500" "0 < utf16_length b" "''length'' \<notin> fst ` set kvs"
  shows "render_articles d (st (resume_articles (Resp s (BText b)) w)) = Inl (TypeError ''map'') \<and>
         render_articles d (st (resume_articles (Resp s (BJson (JObj kvs))) w)) = Inr DbEmpty"
proof -
  have "map_of (rev kvs) ''length'' = None" using assms(3) by (simp add: map_of_eq_None_iff)
  then show ?thesis using assms(1,2)
    by (simp add: resume_articles_def render_articles_def dot_def js_gt0_def array_map_def)
qed

theorem articles_text_body_crashes_witness:
  "render_articles (\<lambda>_. True) (st (resume_articles (Resp 404 (BText ''Not Found'')) (boot ''api'' Map.empty 0 []))) =
     Inl (TypeError ''map'') \<and>
   render_articles (\<lambda>_. True) (st (resume_articles (Resp 404 (BJson (JObj [(''detail'', JStr ''Not Found'')])))
     (boot ''api'' Map.empty 0 []))) = Inr DbEmpty"
  by (rule articles_text_body_crashes) (simp_all add: utf16_length_def)

text \<open> A live stream whose \<open>viewers_count\<close> is \<open>0\<close> does not hide the viewers
  badge cleanly: \<open>stream.viewers_count && ...\<close> evaluates to \<open>0\<close>, which React
  prints, so the card shows a bare \<open>0\<close> where the badge would be.\<close>

theorem zero_viewers_rendered:
  assumes "render_stream_card d x = Inr c" "dot (Some x) ''viewers_count'' = Inr (Some (JNum 0 e))"
  shows "sc_viewers c = Falsy ''0''"
  using assms by (auto simp: render_stream_card_def bindR_Inr_iff js_and_def js_truthy_def jsx_text_def)

theorem zero_viewers_rendered_witness:
  "case render_stream_card (\<lambda>_. True)
          (JObj [(''category'', JStr ''crypto''), (''viewers_count'', jint 0), (''started_at'', jint 0)]) of
     Inr c \<Rightarrow> sc_viewers c = Falsy ''0'' | Inl _ \<Rightarrow> False"
proof -
  let ?x = "JObj [(''category'', JStr ''crypto''), (''viewers_count'', jint 0), (''started_at'', jint 0)]"
  obtain c where c: "render_stream_card (\<lambda>_. True) ?x = Inr c"
    by (simp add: render_stream_card_def dot_def js_and_def js_truthy_def jsx_text_def upper_arg_def
        date_check_def render_stream_tags_def max_time_def)
  have "dot (Some ?x) ''viewers_count'' = Inr (Some (JNum 0 0))" by (simp add: dot_def)
  then show ?thesis using zero_viewers_rendered [OF c] c by simp
qed

lemma stream_category_words:
  "c \<in> set stream_categories \<Longrightarrow> \<forall>x \<in> set c. uri_unreserved x"
  "\<forall>x \<in> set ''category''. uri_unreserved x"
  by (auto simp: stream_categories_def uri_unreserved_def)

text \<open>C28. The live-streams fallback asks for the resource the primary request
  asked for: for every category the page offers, the URL axios builds from the
  primary request's \<open>params\<close> is the fallback URL the code writes by hand.\<close>

theorem streams_fallback_same_url:
  assumes "c \<in> set stream_categories" "CHR ''?'' \<notin> set a" "CHR ''#'' \<notin> set a"
  shows "request_url (axios_get Status2xx (a @ ''/live-streams'') (stream_params c) []) = streams_fallback_url a c"
proof -
  have t: "takeWhile (\<lambda>c. c \<noteq> CHR ''#'') (a @ ''/live-streams'') = a @ ''/live-streams''"
    using assms(3) by (auto simp: takeWhile_eq_all_conv)
  have e: "axios_encode c = c" "axios_encode ''category'' = ''category''"
    using stream_category_words(1) [OF assms(1)] stream_category_words(2) by (simp_all add: axios_encode_plain)
  have "c \<noteq> []" using assms(1) by (auto simp: stream_categories_def)
  then show ?thesis using assms(2) t e
    by (simp add: request_url_def build_url_def axios_get_def stream_params_def streams_fallback_url_def Let_def)
qed

theorem streams_fallback_same_url_witness:
  "request_url (axios_get Status2xx (''http://localhost:8001/api'' @ ''/live-streams'') (stream_params ''crypto'') []) =
   streams_fallback_url ''http://localhost:8001/api'' ''crypto''"
  by (rule streams_fallback_same_url) (simp_all add: stream_categories_def)

text \<open>C25. The trending-topics panel prints a topic's volume with \<open>toLocaleString()\<close>
  (line 1220) as the en-US locale does: the printed volume holds exactly the decimal
  digits of the volume, and a character of it is a comma exactly when it starts a
  group of three digits counted from the right (so 12500 prints as 12,500).\<close>

theorem topic_volume_grouped:
  "\<exists>s. render_topic (JObj [(''topic'', JStr tp), (''volume'', jint (int n))]) = Inr (tp, s) \<and>
       filter (\<lambda>c. c \<noteq> CHR '','') s = show_nat n \<and>
       (\<forall>i < length s. s ! i = CHR '','' \<longleftrightarrow> (length s - i) mod 4 = 0)"
  by (simp add: render_topic_def dot_def jsx_text_def locale_of_count group_thousands_digits group_thousands_commas)

theorem topic_volume_grouped_witness:
  "\<exists>s. render_topic (JObj [(''topic'', JStr ''Bitcoin ETF''), (''volume'', jint 12500)]) = Inr (''Bitcoin ETF'', s) \<and>
       filter (\<lambda>c. c \<noteq> CHR '','') s = show_nat 12500"
  using topic_volume_grouped [of "''Bitcoin ETF''" 12500] by auto

end
