(* ===== verification/Panels.thy ===== *)
theory Panels
  imports Views
begin

text \<open>
  The panels fed by the simulated feeds (trending topics, market alerts, reading
  list, institutional holdings, policy updates, App.js lines 242-322) only ever hold
  their initial value or the constant their fetcher stores, the alerts stamped no
  later than the clock. \<open>feeds_ok\<close> states this shape; \<open>feeds_frame\<close> and the
  \<open>feeds_rules\<close> collection discharge every handler that leaves these fields alone,
  and rule induction over \<open>reachable\<close> gives the invariant. It is the typing that
  makes the smart-money and policies views render.
\<close>

definition feeds_ok :: "world \<Rightarrow> bool" where
  "feeds_ok w \<longleftrightarrow>
     trendingTopics (st w) \<in> {JArr [], trending_topics_data} \<and>
     readingList (st w) \<in> {readingList app_init, reading_list_data} \<and>
     institutionalData (st w) \<in> {JArr [], institutional_data} \<and>
     policyUpdates (st w) \<in> {JArr [], policy_updates_data} \<and>
     (marketAlerts (st w) = JArr [] \<or> (\<exists>t \<le> now w. marketAlerts (st w) = market_alerts_data t))"

definition feeds_frame :: "world \<Rightarrow> world \<Rightarrow> bool" where
  "feeds_frame w w' \<longleftrightarrow>
     trendingTopics (st w') = trendingTopics (st w) \<and> readingList (st w') = readingList (st w) \<and>
     institutionalData (st w') = institutionalData (st w) \<and> policyUpdates (st w') = policyUpdates (st w) \<and>
     marketAlerts (st w') = marketAlerts (st w) \<and> now w \<le> now w'"

lemma feeds_frame_ok: "feeds_frame w w' \<Longrightarrow> feeds_ok w \<Longrightarrow> feeds_ok w'"
  unfolding feeds_frame_def feeds_ok_def by (metis order_trans)

lemma feeds_frame_trans: "feeds_frame w w1 \<Longrightarrow> feeds_frame w1 w2 \<Longrightarrow> feeds_frame w w2"
  by (simp add: feeds_frame_def)

lemma feeds_frame_fetchers:
  "feeds_frame w (fetchArticles c w)" "feeds_frame w (resume_articles n w)" "feeds_frame w (resume_articles_fallback n w)"
  "feeds_frame w (fetchSeoStats w)" "feeds_frame w (resume_seo n w)" "feeds_frame w (fetchMarketData cl w)"
  "feeds_frame w (resume_market cl n w)" "feeds_frame w (fetchLiveStreams sc w)" "feeds_frame w (resume_streams sc n w)"
  "feeds_frame w (resume_streams_fallback n w)" "feeds_frame w (fetchAdminStats w)" "feeds_frame w (resume_admin_stats n w)"
  "feeds_frame w (fetchNewsSources w)" "feeds_frame w (resume_news_sources n w)" "feeds_frame w (triggerArticleGeneration w)"
  "feeds_frame w (resume_generate n w)" "feeds_frame w (keepAlive w)" "feeds_frame w (handleLogin w)"
  "feeds_frame w (resume_login r w)" "feeds_frame w (handleLogout w)" "feeds_frame w (handlePasswordReset w)"
  "feeds_frame w (commit w)" "feeds_frame w (changeLanguage lc w)"
  "feeds_frame w (unmount w)"
  by (simp_all add: feeds_frame_def handler_defs Let_def commit_def view_effect_def changeLanguage_def unmount_def
      startup_cleanup_def split: axios_result.splits option.splits sum.splits cont.splits)

lemma feeds_frame_refl: "feeds_frame w w"
  by (simp add: feeds_frame_def)

lemma feeds_frame_resume: "feeds_frame w (resume k n w)"
  by (cases k) (simp_all add: feeds_frame_fetchers feeds_frame_refl)

lemma feeds_frame_upd:
  "(\<And>a. trendingTopics (f a) = trendingTopics a \<and> readingList (f a) = readingList a \<and>
         institutionalData (f a) = institutionalData a \<and> policyUpdates (f a) = policyUpdates a \<and>
         marketAlerts (f a) = marketAlerts a) \<Longrightarrow> feeds_frame w (upd f w)"
  by (simp add: feeds_frame_def)

lemmas feeds_ok_steps [feeds_rules] =
  feeds_frame_fetchers [THEN feeds_frame_ok] feeds_frame_resume [THEN feeds_frame_ok]

lemma feeds_ok_upd [feeds_rules]:
  "(\<And>a. trendingTopics (f a) = trendingTopics a \<and> readingList (f a) = readingList a \<and>
         institutionalData (f a) = institutionalData a \<and> policyUpdates (f a) = policyUpdates a \<and>
         marketAlerts (f a) = marketAlerts a) \<Longrightarrow> feeds_ok w \<Longrightarrow> feeds_ok (upd f w)"
  by (rule feeds_frame_ok [OF feeds_frame_upd])

lemma feeds_ok_stream_category [feeds_rules]:
  "feeds_ok w \<Longrightarrow> feeds_ok (upd (\<lambda>a. a\<lparr>selectedStreamCategory := c\<rparr>) w)"
  by (simp add: feeds_ok_def)

lemma feeds_ok_browser [feeds_rules]:
  "feeds_ok w \<Longrightarrow> feeds_ok (toggle_language_menu w)" "feeds_ok w \<Longrightarrow> feeds_ok (choose_language c w)"
  "feeds_ok w \<Longrightarrow> feeds_ok (shareArticle b x w)" "feeds_ok w \<Longrightarrow> feeds_ok (header_remount v w)"
  "feeds_ok w \<Longrightarrow> feeds_ok (w\<lparr>clipboard := cb\<rparr>)"
  by (simp_all add: feeds_ok_def)

lemma feeds_ok_run_task: "feeds_ok w \<Longrightarrow> feeds_ok (run_task f w)"
  by (cases f) (auto simp: feeds_ok_def handler_defs intro: feeds_rules)

lemma feeds_ok_timer_fires: "feeds_ok w \<Longrightarrow> timer_fires w = Some w' \<Longrightarrow> feeds_ok w'"
proof -
  assume ok: "feeds_ok w" and tf: "timer_fires w = Some w'"
  then obtain t s' where w': "w' = (let w1 = run_task (tm_task t) (w\<lparr>sched := s', now := max (now w) (tm_due t)\<rparr>)
                  in w1\<lparr>sched := rearm t (sched w1)\<rparr>)"
    by (auto simp: timer_fires_def Let_def split: option.splits)
  have "feeds_ok (w\<lparr>sched := s', now := max (now w) (tm_due t)\<rparr>)"
    by (rule feeds_frame_ok [OF _ ok]) (simp add: feeds_frame_def)
  then have "feeds_ok (run_task (tm_task t) (w\<lparr>sched := s', now := max (now w) (tm_due t)\<rparr>))"
    by (rule feeds_ok_run_task)
  then show ?thesis unfolding w' Let_def by (simp add: feeds_ok_def)
qed

lemma feeds_ok_pending: "feeds_ok w \<Longrightarrow> feeds_ok (w\<lparr>pending := ps\<rparr>)"
  by (simp add: feeds_ok_def)

lemma feeds_ok_deliver: "feeds_ok w \<Longrightarrow> deliver i n w = Some w' \<Longrightarrow> feeds_ok w'"
  by (auto simp: deliver_def split: option.splits intro: feeds_rules feeds_ok_pending)

lemma feeds_ok_mount_boot: "feeds_ok (mount (boot a s t log))"
  by (simp add: feeds_ok_def mount_boot app_init_def)

lemma feeds_ok_handle: "feeds_ok w \<Longrightarrow> handle w e = Some w' \<Longrightarrow> feeds_ok w'"
  by (cases e) (auto simp: guard_def modal_defs split: if_splits
      intro: feeds_ok_deliver feeds_ok_timer_fires feeds_ok_mount_boot feeds_rules)

lemma reachable_feeds_ok: "reachable w \<Longrightarrow> feeds_ok w"
proof (induction rule: reachable.induct)
  case (load env s t)
  then show ?case by (simp add: page_load_def feeds_ok_mount_boot)
next
  case (step w e w')
  then obtain w1 where "handle w e = Some w1" "w' = header_remount w (commit w1)" by (auto simp: step_def)
  then show ?case using step.IH by (auto intro: feeds_rules feeds_ok_handle)
qed

lemma render_feed_values:
  "x \<in> {JArr [], institutional_data} \<Longrightarrow> \<exists>v. array_map x render_holding = Inr v"
  "x \<in> {JArr [], policy_updates_data} \<Longrightarrow> \<exists>v. array_map x render_policy_brief = Inr v"
  "x \<in> {JArr [], policy_updates_data} \<Longrightarrow> \<exists>v. array_map x render_policy_card = Inr v"
  "x \<in> {JArr [], trending_topics_data} \<Longrightarrow> \<exists>v. array_map x render_topic = Inr v"
  by (auto simp: array_map_def institutional_data_def policy_updates_data_def trending_topics_data_def
      render_holding_def render_policy_brief_def render_policy_card_def render_topic_def dot_def jsx_text_def
      locale_of_def js_ge0_def)

lemma render_alerts_value:
  assumes "t \<le> nat max_time" shows "\<exists>v. array_map (market_alerts_data t) render_alert = Inr v"
proof -
  have "\<bar>int t - 300000\<bar> \<le> max_time" "\<bar>int t - 600000\<bar> \<le> max_time"
    using assms by (auto simp: max_time_def)
  then show ?thesis
    by (simp add: array_map_def market_alerts_data_def render_alert_def dot_def jsx_text_def date_check_def)
qed

text \<open>C27. The panels fed by the simulated feeds always have the shape their
  rendering needs: in every reachable world, while the clock is within the range of
  JavaScript dates, the smart-money view, the policies view and the trending list
  render without a \<open>TypeError\<close>, whatever the backend answered meanwhile.\<close>

theorem simulated_panels_render:
  assumes "reachable w" "now w \<le> nat max_time"
  shows "(\<exists>v. render_smart (st w) = Inr v) \<and> (\<exists>v. render_policies (st w) = Inr v) \<and>
         (\<exists>v. array_map (trendingTopics (st w)) render_topic = Inr v)"
proof -
  have ok: "feeds_ok w" using assms(1) by (rule reachable_feeds_ok)
  then obtain hs ps ps' tr where
    hs: "array_map (institutionalData (st w)) render_holding = Inr hs" and
    ps: "array_map (policyUpdates (st w)) render_policy_brief = Inr ps" and
    ps': "array_map (policyUpdates (st w)) render_policy_card = Inr ps'" and
    tr: "array_map (trendingTopics (st w)) render_topic = Inr tr"
    unfolding feeds_ok_def by (meson render_feed_values)
  obtain als where als: "array_map (marketAlerts (st w)) render_alert = Inr als"
  proof (cases "marketAlerts (st w) = JArr []")
    case True then show ?thesis using that by (simp add: array_map_def)
  next
    case False
    then obtain t where "t \<le> now w" "marketAlerts (st w) = market_alerts_data t"
      using ok by (auto simp: feeds_ok_def)
    then show ?thesis using that render_alerts_value [of t] assms(2) by auto
  qed
  show ?thesis using hs ps ps' tr als by (simp add: render_smart_def render_policies_def)
qed

theorem simulated_panels_render_witness:
  "(\<exists>v. render_smart (st (page_load None Map.empty 0)) = Inr v) \<and>
   (\<exists>v. render_policies (st (page_load None Map.empty 0)) = Inr v) \<and>
   (\<exists>v. array_map (trendingTopics (st (page_load None Map.empty 0))) render_topic = Inr v)"
  by (rule simulated_panels_render [OF reachable.load]) (simp add: page_load_def mount_boot max_time_def)

end
