(* ===== verification/Interaction.thy ===== *)
theory Interaction
  imports Invariants
begin

text \<open>
  How the parts of the page interact through the event loop, beyond what each
  component shows alone: React's commit keeps the view effect's dependencies in
  step with the state in every reachable world, so an event whose handler changes
  neither the state, the language nor the mount status is a step of its own; a
  language read back from storage that the client does not know falls back to
  English with no flag; sharing an article without \<open>navigator.share\<close> alerts
  that the link was copied whether or not the clipboard write was granted.
\<close>

section \<open>Steps that leave the component alone\<close>

lemma deps_synced_step:
  "step w e = Some w' \<Longrightarrow> mounted w' \<Longrightarrow> deps w' = Some (view_deps w')"
  by (auto simp: step_def)

lemma reachable_deps_synced: "reachable w \<Longrightarrow> mounted w \<Longrightarrow> deps w = Some (view_deps w)"
proof (induction rule: reachable.induct)
  case (load env s t)
  then show ?case by (simp add: page_load_def mount_boot view_deps_def app_init_def)
next
  case (step w e w')
  show ?case by (rule deps_synced_step [OF step.hyps(2) step.prems])
qed

lemma step_quiet:
  assumes "reachable w" "handle w e = Some v" "st v = st w" "lang v = lang w" "mounted v = mounted w"
    "deps v = deps w"
  shows "step w e = Some v"
proof -
  have "commit v = v"
    using assms reachable_deps_synced [OF assms(1)] by (cases "mounted w") (simp_all add: commit_def view_deps_def)
  then show ?thesis using assms(2,3,4) by (simp add: step_def header_remount_def)
qed

lemma step_deliver_articles:
  assumes "find_pending i w = Some (i, r, KArticles)" "mounted w" "deps w = Some (view_deps w)" "s < 500"
    "\<not> langMenuOpen w"
  shows "step w (Deliver i (Resp s (BJson d))) =
           Some (upd (\<lambda>a. a\<lparr>articles := d, loading := False\<rparr>) (w\<lparr>pending := filter (\<lambda>p. fst p \<noteq> i) (pending w)\<rparr>))"
proof -
  let ?w = "upd (\<lambda>a. a\<lparr>articles := d, loading := False\<rparr>) (w\<lparr>pending := filter (\<lambda>p. fst p \<noteq> i) (pending w)\<rparr>)"
  have "commit ?w = ?w" by (rule commit_same) (use assms(3) in \<open>simp add: view_deps_def\<close>)
  then show ?thesis using assms(1,4,5) by (simp add: step_def deliver_def resume_articles_def)
qed

section \<open>The stored language\<close>

text \<open>C33. A stored language the client does not know (\<open>localStorage\<close> may hold
  any string) becomes the provider's language: the dropdown shows no flag and marks no
  entry, and every label falls back to the English table.\<close>

theorem unsupported_language_fallback:
  assumes "s ''preferred-language'' = Some l" "l \<noteq> []" "l \<notin> fst ` set availableLanguages"
  shows "lang (page_load env s t) = l \<and> current_flag l = '''' \<and> translate l k = translate ''en'' k \<and>
         language_menu l True = Some (map (\<lambda>(c, n, f). (c, f, n, False)) availableLanguages)"
proof -
  have l: "l \<noteq> ''en''" "l \<noteq> ''es''" "l \<noteq> ''it''" using assms(3) by (auto simp: availableLanguages_def)
  have "lookup_translation l k = None" using l by (simp add: lookup_translation_def translations_obj_def)
  then have "translate l k = translate ''en'' k" by (simp add: translate_def js_or_def)
  moreover have "current_flag l = ''''" using l by (simp add: current_flag_def availableLanguages_def)
  moreover have "language_menu l True = Some (map (\<lambda>(c, n, f). (c, f, n, False)) availableLanguages)"
    using l by (simp add: language_menu_def availableLanguages_def)
  ultimately show ?thesis using assms(1,2) by (simp add: page_load_def mount_boot initial_language_def)
qed

theorem unsupported_language_fallback_witness:
  "lang (page_load None [''preferred-language'' \<mapsto> ''fr''] 0) = ''fr'' \<and> current_flag ''fr'' = '''' \<and>
   translate ''fr'' ''liveNow'' = translate ''en'' ''liveNow'' \<and>
   language_menu ''fr'' True = Some (map (\<lambda>(c, n, f). (c, f, n, False)) availableLanguages)"
  by (rule unsupported_language_fallback) (simp_all add: availableLanguages_def)

section \<open>Sharing an article\<close>

text \<open>C34. Sharing an article listed on the dashboard in a browser without
  \<open>navigator.share\<close> but with a clipboard API always alerts that the link
  was copied; the link (origin, \<open>/article/\<close>, the article's id) reaches
  the clipboard only if the write is granted, since the write is not awaited, and
  nothing else on the page changes.\<close>

theorem share_alerts_without_copy:
  assumes "reachable w" "listed_article x (st w)" "mounted w" "\<not> has_share b" "has_clipboard b"
    "get_prop x ''id'' = Inr i"
  shows "\<exists>w'. step w (ShareArticle b x) = Some w' \<and> alerts w' = alerts w @ [share_message] \<and>
           st w' = st w \<and> sent w' = sent w \<and>
           clipboard w' = (if clipboard_granted b then Some (origin b @ ''/article/'' @ js_string_of i) else clipboard w)"
proof -
  have h: "handle w (ShareArticle b x) = Some (shareArticle b x w)" using assms(2,3) by (simp add: guard_def)
  have "step w (ShareArticle b x) = Some (shareArticle b x w)"
    by (rule step_quiet [OF assms(1) h]) simp_all
  moreover have "alerts (shareArticle b x w) = alerts w @ [share_message] \<and>
      clipboard (shareArticle b x w) = (if clipboard_granted b then Some (origin b @ ''/article/'' @ js_string_of i) else clipboard w)"
    using assms(4-6) by (simp add: shareArticle_def alert_def)
  ultimately show ?thesis by simp
qed

theorem share_alerts_without_copy_witness:
  "\<exists>w w'. step (page_load None Map.empty 0) (Deliver 1 (Resp 200 (BJson (JArr [JObj [(''id'', jint 7)]])))) = Some w \<and>
     step w (ShareArticle \<lparr>origin = ''https://example.org'', has_share = False, has_clipboard = True,
                           clipboard_granted = False\<rparr> (JObj [(''id'', jint 7)])) = Some w' \<and>
     alerts w' = [share_message] \<and> clipboard w' = None"
proof -
  let ?x = "JObj [(''id'', jint 7)]"
  let ?b = "\<lparr>origin = ''https://example.org'', has_share = False, has_clipboard = True, clipboard_granted = False\<rparr>"
  let ?wa = "page_load None Map.empty 0"
  let ?wb = "upd (\<lambda>a. a\<lparr>articles := JArr [?x], loading := False\<rparr>) (?wa\<lparr>pending := filter (\<lambda>p. fst p \<noteq> 1) (pending ?wa)\<rparr>)"
  have ab: "step ?wa (Deliver 1 (Resp 200 (BJson (JArr [?x])))) = Some ?wb"
    by (rule step_deliver_articles) (simp_all add: find_pending_def page_load_def mount_boot view_deps_def app_init_def)
  have r: "reachable ?wb" by (rule reachable.step [OF reachable.load ab])
  have l: "listed_article ?x (st ?wb)" by (simp add: listed_article_def page_load_def mount_boot app_init_def)
  obtain w' where bc: "step ?wb (ShareArticle ?b ?x) = Some w'" and "alerts w' = alerts ?wb @ [share_message]"
    and "clipboard w' = clipboard ?wb"
    using share_alerts_without_copy [OF r l, of ?b "Some (jint 7)"] by auto
  then show ?thesis using ab by (auto simp: page_load_def mount_boot)
qed

end
