(* ===== verification/Spec2Isabelle.thy ===== *)
theory Spec2Isabelle
  imports Invariants Panels Interaction
begin

text \<open>
  \<^bold>\<open>A verified model of the crypto-news dashboard client.\<close>
  The program is a React single-page client: \<open>App.js\<close> (the component
  \<open>AppContent\<close>, lines 77-1619) and \<open>contexts/LanguageContext.js\<close> (the language
  provider), both under
  \<open>src/backend/backend/frontend/frontend/public/frontend/src/frontend/src/frontend/src/\<close>.
  The component keeps its state in \<open>useState\<close> hooks, talks to the backend through
  \<open>axios\<close> with a \<open>fetch\<close> fallback, keeps the admin token in \<open>localStorage\<close>, and
  drives its refreshes by browser timers started from effects. The development
  models all of this as one world and its events.

  \<^bold>\<open>Theories and correspondence.\<close>
  \<^item> \<open>Prelude\<close>: JSON payloads (\<open>json\<close>, decimal numbers kept exactly), the
    JavaScript coercions the code relies on (\<open>||\<close> on strings as \<open>js_or\<close>,
    \<open>String(v)\<close> as \<open>js_string_of\<close>, member access that throws on \<open>null\<close> as
    \<open>get_prop\<close>), the theorem collections \<open>handler_defs\<close>, \<open>settle_simps\<close>,
    \<open>frame_rules\<close>.
  \<^item> \<open>Http\<close>: what a request settles to under each transport (axios with its
    \<open>validateStatus\<close>, the browser \<open>fetch\<close>), the request record, the bearer header
    and the abstract contract \<open>resilient\<close> of the resilient fetch client.
  \<^item> \<open>Timers\<close>: the browser timer table (\<open>setTimeout\<close>, \<open>setInterval\<close>,
    \<open>clearInterval\<close>), generic in the callback; firing, well-formedness, and the
    interval ids a client records for its cleanup.
  \<^item> \<open>AppState\<close>: the state hooks of \<open>AppContent\<close> (lines 78-113) as the record
    \<open>app_state\<close>, the world (state, \<open>localStorage\<close>, requests in flight with their
    continuations, the log of sent requests, the timer table, the interval ids of the
    startup effect, mount status, the view effect's dependencies, alerts, language,
    clock), and the primitive effects \<open>send\<close>, \<open>start_timeout\<close>,
    \<open>start_interval\<close>, \<open>alert\<close>.
  \<^item> \<open>Session\<close>: \<open>handleLogin\<close>, \<open>handleLogout\<close>, \<open>handlePasswordReset\<close>
    (lines 122-153), the session restore effect (lines 425-430) and the handlers of
    the login and recovery dialogs.
  \<^item> \<open>Fetchers\<close>: every fetcher of lines 156-356 and 432-471, each async function
    split at its \<open>await\<close> into an issuing part and a continuation (\<open>resume_*\<close>),
    the dispatcher \<open>resume\<close>, and \<open>deliver\<close>, by which the network settles any
    request in flight, in any order.
  \<^item> \<open>Effects\<close>: the startup effect (lines 358-408: critical tier, secondary
    tier of timeouts, refresh intervals, cleanup), the view effect (lines 410-423) with
    React's dependency check (\<open>commit\<close>), mounting, unmounting, and a timer firing.
  \<^item> \<open>Language\<close>: the translation tables, \<open>t\<close> as \<open>translate\<close>,
    \<open>changeLanguage\<close>, the initial language read from \<open>localStorage\<close>, the
    context value of the provider and \<open>useLanguage\<close>, which throws outside it.
  \<^item> \<open>Runtime\<close>: the events a user, the network and the clock can cause, each guarded
    by the condition under which the page renders the control that causes it (user
    actions also by the page being mounted);
    \<open>step\<close> runs a handler, React's commit, and the header remount; \<open>reachable\<close> is the inductive
    set of worlds reachable from a page load.
  \<^item> \<open>Invariants\<close>: the invariant of reachable worlds (session and timer table)
    and its proof by rule induction.
  \<^item> \<open>Format\<close>: JavaScript truthiness, \<open>toLocaleString()\<close> on numbers as the
    en-US locale prints them (\<open>group_thousands\<close>, a recursion on \<open>n div 1000\<close>
    with its own termination proof, shown to keep exactly the digits of the number and
    to put a comma before each group of three from the right), and
    \<open>isMarketOpen\<close> (lines 115-120).
  \<^item> \<open>Http\<close> also holds the URL axios builds from a base and a params object
    (\<open>build_url\<close>, its \<open>encodeURIComponent\<close> and the characters it unescapes).
  \<^item> \<open>Views\<close>: the markup of \<open>AppContent\<close> (lines 473-1617) as functions from
    language, clock and state to what each part shows, or to the error its JSX throws
    (\<open>render_error + 'a\<close>): \<open>Header\<close> as \<open>render_header\<close>, \<open>DashboardView\<close>
    as \<open>render_dashboard\<close> with its article cards, market rows, trending topics
    and reading list, \<open>LiveNowView\<close> as \<open>render_live\<close>, \<open>SmartMoneyView\<close>,
    \<open>PoliciesView\<close>, \<open>AdminView\<close>, \<open>ArticleModal\<close>, the recovery dialog and
    the footer, composed by \<open>render_page\<close>. Property reads on \<open>null\<close>,
    \<open>map\<close>/\<open>slice\<close> on non-arrays, objects as React children and invalid dates
    are the error branches; \<open>x && <el/>\<close> printing a falsy \<open>x\<close> is kept
    (\<open>Falsy\<close>).
  \<^item> \<open>Browser\<close>: what acts on the browser rather than on the component:
    \<open>LanguageDropdown\<close> (lines 36-74) with its \<open>isOpen\<close> state
    (\<open>langMenuOpen\<close> of the world), the reset of that state when \<open>Header\<close>,
    declared inside \<open>AppContent\<close>, is remounted at each render
    (\<open>header_remount\<close>, applied by \<open>step\<close>), \<open>shareArticle\<close> (lines 201-219)
    over a \<open>browser\<close> record chosen by the environment at each click, and
    \<open>isSlowConnection\<close> (lines 324-330, never called).
  \<^item> \<open>Interaction\<close>: properties spanning the event loop, the views' guards and
    the browser: the view effect's dependencies are in step with the state in every
    reachable world, so quiet handlers are steps of their own; the claims C33
    and C34.
  \<^item> \<open>Panels\<close>: the simulated feeds (lines 242-322) hold only their constants in
    every reachable world, so the panels built from them always render.

  \<^bold>\<open>What is shown.\<close> The resilient articles call implements its contract
  (C1), and its error paths, the admin-call error paths and the transport
  classification are characterised (C9-C15, C20, C21). The page-load orchestration
  sends exactly the critical requests in order and schedules the secondary tier and
  the refresh intervals as the code says (C4-C6).
  Every reachable world keeps the session consistent and the admin view behind
  authentication (C2, C3), and its interval ids name exactly the periodic timers so
  that unmounting stops them all (C7, C24). End-to-end runs of the event semantics
  show login, category switching from any reachable dashboard, the repeated SEO
  fetch, last-arrival-wins for overlapping article requests, an admin request after
  logout, and preferences across a reload (C8, C16-C19, C23). The language provider
  has complete tables (C22).
  On the rendering side: printed volumes keep exactly the volume's digits, with a
  comma before each group of three from the right (C25); the market badge's window
  is 14:00-21:00 UTC every day (C26); the simulated panels never throw (C27); axios'
  params URL and the hand-built fallback URL of the live streams agree (C28); after
  unmounting, the remaining timeouts drain in a bounded number of timer events
  (C29); an accepted text body crashes the dashboard while an error object shows the
  empty state (C30); the dashboard's lists respect their slice bounds (C31); and the
  loading flag is cleared by whichever articles request settles first (C32). Across
  components (\<open>Interaction\<close>): an unknown stored language falls back to English
  with no flag (C33); and sharing without \<open>navigator.share\<close> alerts that the link
  was copied even when the clipboard write is refused (C34).

  \<^bold>\<open>Bounds.\<close> No loop of the client can run forever: every handler is a
  finite composition of effects, so no fuel is needed; the event semantics is total
  except where the event is impossible (\<open>None\<close>: a guard fails, no request with
  that id is in flight, no timer is pending). Time is the epoch in milliseconds as a
  natural number; ids are unbounded naturals, as JavaScript numbers are for any
  realistic run.

  \<^bold>\<open>Not modelled.\<close> Layout, styles and icons; the About and Privacy
  pages, which are static text reading no state (\<open>render_view\<close> returns a
  constant for them); effects on the DOM or other tabs only (\<open>window.open\<close> of
  a stream's embed URL, hiding a broken thumbnail in its \<open>onError\<close>); in the
  views, date
  formatting (the browser's date parser is the parameter \<open>date_ok\<close> and a card
  keeps the value it formats), \<open>toFixed(2)\<close> and \<open>toUpperCase()\<close> (the value is
  kept as it is), number coercion of non-empty strings in comparisons
  (\<open>Unmodelled\<close>), and locales other than en-US for \<open>toLocaleString\<close>; \<open>console\<close> logging, members inherited from
  \<open>Object.prototype\<close> in the translation lookup, and the second \<open>await\<close> of
  \<open>response.json()\<close>, which is collapsed into the settlement of the fetch; React's
  dropping of state updates made after unmounting (the model applies them to a state
  that nothing renders any more, and no claim reads it). The
  backend (\<open>src/backend\<close>, Python) is outside this model: its answers are the
  environment's choice in \<open>deliver\<close>.
\<close>

lemmas page_facts = page_load_def mount_boot api_of_def js_or_def truthy_str_def app_init_def view_deps_def

section \<open>Scenarios across components\<close>

lemma switch_to_finance:
  "step (page_load None Map.empty 0) (SelectCategory ''finance'') =
     Some (commit (upd (\<lambda>a. a\<lparr>selectedCategory := ''finance''\<rparr>) (page_load None Map.empty 0))) \<and>
   pending (commit (upd (\<lambda>a. a\<lparr>selectedCategory := ''finance''\<rparr>) (page_load None Map.empty 0))) =
     [(0, axios_get Status2xx ''http://localhost:8001/api/market-data'' [] [], KMarketData CriticalChain),
      (1, axios_get StatusBelow500 ''http://localhost:8001/api/articles?limit=20'' [] article_headers, KArticles),
      (2, axios_get Status2xx ''http://localhost:8001/api/seo-stats'' [] [], KSeoStats),
      (3, axios_get StatusBelow500 ''http://localhost:8001/api/articles?category=finance&limit=20'' [] article_headers, KArticles),
      (4, axios_get Status2xx ''http://localhost:8001/api/seo-stats'' [] [], KSeoStats)] \<and>
   mounted (commit (upd (\<lambda>a. a\<lparr>selectedCategory := ''finance''\<rparr>) (page_load None Map.empty 0))) \<and>
   deps (commit (upd (\<lambda>a. a\<lparr>selectedCategory := ''finance''\<rparr>) (page_load None Map.empty 0))) =
     Some (view_deps (commit (upd (\<lambda>a. a\<lparr>selectedCategory := ''finance''\<rparr>) (page_load None Map.empty 0)))) \<and>
   selectedCategory (st (commit (upd (\<lambda>a. a\<lparr>selectedCategory := ''finance''\<rparr>) (page_load None Map.empty 0)))) = ''finance''"
  by (simp add: step_def guard_def article_categories_def commit_def view_effect_def fetchArticles_def
      fetchSeoStats_def articles_url_def page_facts)


text \<open>C8. Logging in from a fresh page: the login dialog opened, the credentials typed
  and submitted, the backend answering with an \<open>access_token\<close>. The token is
  stored, the session is authenticated, the admin view opens, and its view effect
  requests the articles, the admin statistics and the news sources, both admin calls
  carrying the new token as a bearer header.\<close>

theorem login_scenario:
  "\<exists>w. run (page_load None Map.empty 0)
         [OpenLogin, EditUsername ''admin'', EditPassword ''secret'', SubmitLogin,
          Deliver 3 (Resp 200 (BJson (JObj [(''access_token'', JStr ''abc123'')])))] = Some w \<and>
       get_token w = Some ''abc123'' \<and> isAuthenticated (st w) \<and> currentView (st w) = Admin \<and>
       drop 3 (sent w) =
         [axios_post ''http://localhost:8001/api/admin/login''
            (JObj [(''username'', JStr ''admin''), (''password'', JStr ''secret'')]) [],
          axios_get StatusBelow500 ''http://localhost:8001/api/articles?limit=20'' [] article_headers,
          axios_get Status2xx ''http://localhost:8001/api/admin/stats'' [] [bearer (Some ''abc123'')],
          axios_get Status2xx ''http://localhost:8001/api/news-sources'' [] [bearer (Some ''abc123'')]]"
proof -
  let ?wa = "page_load None Map.empty 0"
  let ?wb = "upd open_login ?wa"
  let ?wc = "upd (edit_username ''admin'') ?wb"
  let ?wd = "upd (edit_password ''secret'') ?wc"
  let ?we = "handleLogin ?wd"
  let ?wf = "commit (resume_login (AxOk 200 (JObj [(''access_token'', JStr ''abc123'')]))
               (?we\<lparr>pending := filter (\<lambda>p. fst p \<noteq> 3) (pending ?we)\<rparr>))"
  have w: "deps ?wa = Some (view_deps ?wa)" "\<not> isAuthenticated (st ?wa)" "mounted ?wa"
    by (simp_all add: page_load_def mount_boot truthy_str_def view_deps_def app_init_def)
  have ab: "step ?wa OpenLogin = Some ?wb"
    using w by (simp add: step_def guard_def commit_same view_deps_def open_login_def)
  have bc: "step ?wb (EditUsername ''admin'') = Some ?wc"
    using w by (simp add: step_def guard_def commit_same view_deps_def modal_defs)
  have cd: "step ?wc (EditPassword ''secret'') = Some ?wd"
    using w by (simp add: step_def guard_def commit_same view_deps_def modal_defs)
  have de: "step ?wd SubmitLogin = Some ?we"
    using w by (simp add: step_def guard_def commit_same view_deps_def modal_defs handleLogin_def)
  have ef: "step ?we (Deliver 3 (Resp 200 (BJson (JObj [(''access_token'', JStr ''abc123'')])))) = Some ?wf"
    by (simp add: step_def deliver_def find_pending_def handleLogin_def page_load_def mount_boot)
  have f: "get_token ?wf = Some ''abc123'' \<and> isAuthenticated (st ?wf) \<and> currentView (st ?wf) = Admin \<and>
       drop 3 (sent ?wf) =
         [axios_post ''http://localhost:8001/api/admin/login''
            (JObj [(''username'', JStr ''admin''), (''password'', JStr ''secret'')]) [],
          axios_get StatusBelow500 ''http://localhost:8001/api/articles?limit=20'' [] article_headers,
          axios_get Status2xx ''http://localhost:8001/api/admin/stats'' [] [bearer (Some ''abc123'')],
          axios_get Status2xx ''http://localhost:8001/api/news-sources'' [] [bearer (Some ''abc123'')]]"
    using w by (simp add: commit_def view_effect_def view_deps_def resume_login_def get_token_def handleLogin_def
        fetchArticles_def fetchAdminStats_def fetchNewsSources_def articles_url_def modal_defs
        page_load_def mount_boot api_of_def js_or_def token_key_def app_init_def)
  show ?thesis using ab bc cd de ef f by simp
qed

text \<open>C16. Switching the category filter on the dashboard refetches: in every reachable
  world where the page is mounted and shows the dashboard, choosing a listed category
  other than the current one is a step that selects it, sets the loading flag and
  sends, in this order, the articles request scoped to the new category
  (\<open>?category=c&limit=20\<close>) and the SEO statistics request, and nothing else.\<close>

theorem category_switch:
  assumes "reachable w" "mounted w" "currentView (st w) = Dashboard" "c \<in> set article_categories"
    "c \<noteq> selectedCategory (st w)"
  shows "\<exists>w'. step w (SelectCategory c) = Some w' \<and> selectedCategory (st w') = c \<and> loading (st w') \<and>
           sent w' = sent w @ [axios_get StatusBelow500 (articles_url (api w) (Some c)) [] article_headers,
                               axios_get Status2xx (api w @ ''/seo-stats'') [] []]"
proof -
  have d: "deps w = Some (view_deps w)" using reachable_deps_synced [OF assms(1,2)] .
  let ?u = "upd (\<lambda>a. a\<lparr>selectedCategory := c\<rparr>) w"
  have h: "handle w (SelectCategory c) = Some ?u" using assms(2-4) by (simp add: guard_def)
  have c: "commit ?u = (view_effect ?u)\<lparr>deps := Some (view_deps ?u)\<rparr>"
    using assms(2,5) d by (simp add: commit_def view_deps_def)
  have s: "step w (SelectCategory c) = Some (header_remount w (commit ?u))" unfolding step_def h by simp
  have "selectedCategory (st (commit ?u)) = c \<and> loading (st (commit ?u)) \<and>
        sent (commit ?u) = sent w @ [axios_get StatusBelow500 (articles_url (api w) (Some c)) [] article_headers,
                                    axios_get Status2xx (api w @ ''/seo-stats'') [] []]"
    unfolding c using assms(3) by (simp add: view_effect_def fetchArticles_def fetchSeoStats_def Let_def)
  then show ?thesis using s by simp
qed

theorem category_switch_witness:
  "\<exists>w'. step (page_load None Map.empty 0) (SelectCategory ''finance'') = Some w' \<and>
     selectedCategory (st w') = ''finance'' \<and> loading (st w') \<and>
     drop 3 (sent w') =
       [axios_get StatusBelow500 ''http://localhost:8001/api/articles?category=finance&limit=20'' [] article_headers,
        axios_get Status2xx ''http://localhost:8001/api/seo-stats'' [] []]"
proof -
  have "\<exists>w'. step (page_load None Map.empty 0) (SelectCategory ''finance'') = Some w' \<and>
     selectedCategory (st w') = ''finance'' \<and> loading (st w') \<and>
     sent w' = sent (page_load None Map.empty 0) @
       [axios_get StatusBelow500 (articles_url (api (page_load None Map.empty 0)) (Some ''finance'')) [] article_headers,
        axios_get Status2xx (api (page_load None Map.empty 0) @ ''/seo-stats'') [] []]"
    by (rule category_switch [OF reachable.load]) (simp_all add: article_categories_def page_facts)
  then show ?thesis by (auto simp: page_facts articles_url_def)
qed

text \<open>C17. The SEO statistics are not a one-shot fetch: leaving the dashboard and coming
  back requests them again, together with a fresh articles request for each view
  change.\<close>

theorem seo_refetched:
  "\<exists>w. run (page_load None Map.empty 0) [Nav About, Nav Dashboard] = Some w \<and>
       drop 3 (sent w) =
         [axios_get StatusBelow500 ''http://localhost:8001/api/articles?limit=20'' [] article_headers,
          axios_get StatusBelow500 ''http://localhost:8001/api/articles?limit=20'' [] article_headers,
          axios_get Status2xx ''http://localhost:8001/api/seo-stats'' [] []]"
proof -
  let ?wa = "page_load None Map.empty 0"
  let ?wb = "commit (upd (\<lambda>a. a\<lparr>currentView := About\<rparr>) ?wa)"
  let ?wc = "commit (upd (\<lambda>a. a\<lparr>currentView := Dashboard\<rparr>) ?wb)"
  have ab: "step ?wa (Nav About) = Some ?wb" by (simp add: step_def guard_def)
  have bc: "step ?wb (Nav Dashboard) = Some ?wc" by (simp add: step_def guard_def)
  have "drop 3 (sent ?wc) =
         [axios_get StatusBelow500 ''http://localhost:8001/api/articles?limit=20'' [] article_headers,
          axios_get StatusBelow500 ''http://localhost:8001/api/articles?limit=20'' [] article_headers,
          axios_get Status2xx ''http://localhost:8001/api/seo-stats'' [] []]"
    by (simp add: commit_def view_effect_def fetchArticles_def fetchSeoStats_def articles_url_def page_facts)
  then show ?thesis using ab bc by simp
qed

text \<open>C18. Responses are applied in arrival order, not request order: when the
  category-scoped articles answer arrives before the older unscoped one of the page
  load, the older answer overwrites it, and the list shown no longer matches the
  selected category.\<close>

theorem stale_articles_win:
  "\<exists>w. run (page_load None Map.empty 0)
         [SelectCategory ''finance'', Deliver 3 (Resp 200 (BJson (JArr [JStr ''fin'']))),
          Deliver 1 (Resp 200 (BJson (JArr [JStr ''any''])))] = Some w \<and>
       selectedCategory (st w) = ''finance'' \<and> articles (st w) = JArr [JStr ''any''] \<and> \<not> loading (st w)"
proof -
  let ?wb = "commit (upd (\<lambda>a. a\<lparr>selectedCategory := ''finance''\<rparr>) (page_load None Map.empty 0))"
  let ?wc = "upd (\<lambda>a. a\<lparr>articles := JArr [JStr ''fin''], loading := False\<rparr>) (?wb\<lparr>pending := filter (\<lambda>p. fst p \<noteq> 3) (pending ?wb)\<rparr>)"
  let ?wd = "upd (\<lambda>a. a\<lparr>articles := JArr [JStr ''any''], loading := False\<rparr>) (?wc\<lparr>pending := filter (\<lambda>p. fst p \<noteq> 1) (pending ?wc)\<rparr>)"
  note sw = switch_to_finance
  have bc: "step ?wb (Deliver 3 (Resp 200 (BJson (JArr [JStr ''fin''])))) = Some ?wc"
    by (rule step_deliver_articles) (use sw in \<open>simp_all add: find_pending_def\<close>)
  have cd: "step ?wc (Deliver 1 (Resp 200 (BJson (JArr [JStr ''any''])))) = Some ?wd"
    by (rule step_deliver_articles) (use sw in \<open>simp_all add: find_pending_def view_deps_def\<close>)
  show ?thesis using sw bc cd by simp
qed

text \<open>C19. The refresh scheduled after a successful article generation outlives the
  session: if the user logs out before it fires, the admin statistics are still
  requested, with the header \<open>Authorization: Bearer null\<close>.\<close>

theorem admin_stats_after_logout:
  assumes "isAuthenticated (st w)" "mounted w" "deps w = Some (view_deps w)"
    and "axios_settle Status2xx n = AxOk s d" and "\<forall>x \<in> set (tq (sched w)). now w + 2000 < tm_due x"
  shows "\<exists>w'. run (resume_generate n w) [Logout, TimerFires] = Some w' \<and> \<not> isAuthenticated (st w') \<and>
           last (sent w') = axios_get Status2xx (api w @ ''/admin/stats'') [] [bearer None]"
proof -
  let ?t = "\<lparr>tm_id = tm_next (sched w), tm_due = now w + 2000, tm_period = None, tm_task = TFetchAdminStats\<rparr>"
  let ?wa = "resume_generate n w"
  let ?wb = "header_remount ?wa (commit (handleLogout ?wa))"
  have wa: "?wa = start_timeout 2000 TFetchAdminStats (alert ''Article generation triggered successfully!'' w)"
    using assms(4) by (simp add: resume_generate_def)
  have ab: "step ?wa Logout = Some ?wb"
    using assms(1,2) by (simp add: wa step_def guard_def)
  have qa: "tq (sched ?wa) = tq (sched w) @ [?t]"
    by (simp add: wa start_timeout_def set_timeout_def)
  have pk: "pick (tq (sched ?wb)) = Some ?t"
    using assms(5) by (simp add: qa pick_append_least)
  have mb: "mounted ?wb" "deps ?wb = Some (view_deps ?wb)" "\<not> isAuthenticated (st ?wb)" "api ?wb = api w"
    using assms(2) by (simp_all add: wa)
  have tb: "get_token ?wb = None" by (simp add: get_token_def handleLogout_def)
  obtain s' where td: "take_due (sched ?wb) = Some (?t, s')"
    using pk by (simp add: take_due_def)
  let ?wc = "(let w1 = run_task TFetchAdminStats (?wb\<lparr>sched := s', now := max (now ?wb) (now w + 2000)\<rparr>)
              in w1\<lparr>sched := rearm ?t (sched w1)\<rparr>)"
  have tf: "timer_fires ?wb = Some ?wc" unfolding timer_fires_def td by (simp add: Let_def)
  have mc: "deps ?wc = Some (view_deps ?wc)"
    using mb by (simp add: Let_def fetchAdminStats_def view_deps_def)
  have bc: "step ?wb TimerFires = Some (header_remount ?wb ?wc)" using tf mc by (simp add: step_def commit_same)
  have "\<not> isAuthenticated (st ?wc) \<and> last (sent ?wc) = axios_get Status2xx (api w @ ''/admin/stats'') [] [bearer None]"
    using mb tb by (simp add: Let_def fetchAdminStats_def get_token_def)
  then show ?thesis using ab bc by simp
qed

theorem admin_stats_after_logout_witness:
  "\<exists>w'. run (resume_generate (Resp 200 (BJson (JObj [])))
                ((boot ''api'' [''token'' \<mapsto> ''abc''] 0 [])\<lparr>st := app_init\<lparr>currentView := Admin, isAuthenticated := True\<rparr>,
                   mounted := True, deps := Some (Admin, ''all'')\<rparr>)) [Logout, TimerFires] = Some w' \<and>
     \<not> isAuthenticated (st w') \<and> last (sent w') = axios_get Status2xx (''api'' @ ''/admin/stats'') [] [bearer None]"
  using admin_stats_after_logout [of "(boot ''api'' [''token'' \<mapsto> ''abc''] 0 [])\<lparr>st := app_init\<lparr>currentView := Admin, isAuthenticated := True\<rparr>,
                   mounted := True, deps := Some (Admin, ''all'')\<rparr>" "Resp 200 (BJson (JObj []))" 200 "JObj []"]
  by (simp add: boot_def view_deps_def app_init_def sched_init_def)


text \<open>C23. A reload keeps the user's preferences: after choosing a supported language and
  reloading, the page starts in that language, on the dashboard, with the session
  restored from the stored token exactly as before the change.\<close>

theorem reload_keeps_preferences:
  assumes "c \<in> fst ` set availableLanguages" "step w (ChangeLanguage c) = Some w1" "step w1 Reload = Some w2"
  shows "lang w2 = c \<and> isAuthenticated (st w2) = truthy_str (get_token w) \<and> currentView (st w2) = Dashboard"
proof -
  have c: "c \<noteq> []" using assms(1) by (auto simp: availableLanguages_def)
  have f: "store w1 = (store w)(''preferred-language'' \<mapsto> c)"
    using assms(2) by (auto simp: step_def guard_def split: if_splits)
  obtain x where w2: "w2 = header_remount w1 (commit x)"
    and x: "x = (mount (boot (api w1) (store w1) (now w1) (sent w1)))\<lparr>clipboard := clipboard w1\<rparr>"
    using assms(3) by (auto simp: step_def)
  show ?thesis
    using c by (simp add: w2 x f mount_boot initial_language_def get_token_def token_key_def app_init_def)
qed

theorem reload_keeps_preferences_witness:
  "\<exists>w0 w1 w2. step (page_load None [''token'' \<mapsto> ''abc''] 0) ToggleLanguageMenu = Some w0 \<and>
     step w0 (ChangeLanguage ''es'') = Some w1 \<and> step w1 Reload = Some w2 \<and>
     lang w2 = ''es'' \<and> isAuthenticated (st w2) \<and> currentView (st w2) = Dashboard"
proof -
  let ?wa = "page_load None [''token'' \<mapsto> ''abc''] 0"
  obtain w0 where a0: "step ?wa ToggleLanguageMenu = Some w0" and o: "langMenuOpen w0" and s0: "store w0 = store ?wa"
    and m: "mounted w0"
    using step_toggle [of ?wa] by (simp add: page_load_def mount_boot view_deps_def app_init_def)
  obtain w1 where ab: "step w0 (ChangeLanguage ''es'') = Some w1"
    using o m by (simp add: step_def guard_def availableLanguages_def)
  obtain w2 where bc: "step w1 Reload = Some w2" by (simp add: step_def)
  have "lang w2 = ''es'' \<and> isAuthenticated (st w2) = truthy_str (get_token w0) \<and> currentView (st w2) = Dashboard"
    using reload_keeps_preferences [OF _ ab bc] by (simp add: availableLanguages_def)
  then show ?thesis using a0 ab bc s0 by (auto simp: page_load_def mount_boot get_token_def token_key_def truthy_str_def)
qed

text \<open>C32. The loading flag is not tied to the request the list waits for: after a
  category switch, the older unscoped articles answer clears the spinner and fills
  the list while the category-scoped request is still in flight.\<close>

theorem loading_cleared_while_pending:
  "\<exists>w. run (page_load None Map.empty 0)
         [SelectCategory ''finance'', Deliver 1 (Resp 200 (BJson (JArr [])))] = Some w \<and>
       selectedCategory (st w) = ''finance'' \<and> \<not> loading (st w) \<and> articles (st w) = JArr [] \<and>
       (\<exists>r. (3, r, KArticles) \<in> set (pending w))"
proof -
  let ?wb = "commit (upd (\<lambda>a. a\<lparr>selectedCategory := ''finance''\<rparr>) (page_load None Map.empty 0))"
  let ?wc = "upd (\<lambda>a. a\<lparr>articles := JArr [], loading := False\<rparr>) (?wb\<lparr>pending := filter (\<lambda>p. fst p \<noteq> 1) (pending ?wb)\<rparr>)"
  note sw = switch_to_finance
  have bc: "step ?wb (Deliver 1 (Resp 200 (BJson (JArr [])))) = Some ?wc"
    by (rule step_deliver_articles) (use sw in \<open>simp_all add: find_pending_def\<close>)
  show ?thesis using sw bc by simp
qed

end
